(* ===== verification/Prelude.thy ===== *)
theory Prelude
  imports Main "HOL-Library.AList"
begin

text \<open>
  Shared vocabulary of the development. Python code that mutates a process-wide
  state and may raise is modelled as a function from the state to a result and
  the next state, the result being \<open>Inl\<close> of the raised exception or \<open>Inr\<close> of the
  returned value. The state after a raise is kept, because whatever the code did
  before the raise (a call to the service, a line on stderr) stays done.
  \<^item> \<open>exc\<close>: the exceptions the script and its libraries raise;
  \<^item> \<open>('s, 'a) pyst\<close> with \<open>ret\<close>, \<open>throw\<close> and \<open>bindE\<close>: sequencing of Python
    statements, an exception skipping the rest of the block;
  \<^item> \<open>preserves I m\<close>: a state predicate kept by a statement whatever it
    returns or raises, and the rules that compose it;
  \<^item> \<open>raises_only P m\<close>: every exception the statement raises satisfies \<open>P\<close>,
    with the same rules;
  \<^item> \<open>py_truthy\<close>: Python truthiness of an \<open>Optional[str]\<close>;
  \<^item> lemmas on association lists (the model of Python dictionaries, whose
    insertion order they keep) used by the components.
  The collection \<open>pyst_simps\<close> holds the equations that run a statement on a
  state; component proofs use it with \<open>simp add:\<close>.
\<close>

named_theorems pyst_simps "equations that evaluate a Python statement on a state"

section \<open>Exceptions\<close>

text \<open>
  The exceptions raised on the paths of \<^verbatim>\<open>google_keep_tags.py\<close>: \<open>ValueError\<close> and
  \<open>RuntimeError\<close> by the script itself, \<open>LabelException\<close> and \<open>NetworkError\<close> by
  the client library, \<open>SystemExit\<close> by \<^verbatim>\<open>argparse\<close>.
\<close>

datatype exc =
    ValueError string
  | RuntimeError string
  | LabelException string
  | NetworkError string
  | SystemExit int

section \<open>Statements over a state\<close>

type_synonym ('s, 'a) pyst = "'s \<Rightarrow> (exc + 'a) \<times> 's"

definition ret :: "'a \<Rightarrow> ('s, 'a) pyst" where
  "ret a s = (Inr a, s)"

definition throw :: "exc \<Rightarrow> ('s, 'a) pyst" where
  "throw e s = (Inl e, s)"

definition bindE :: "('s, 'a) pyst \<Rightarrow> ('a \<Rightarrow> ('s, 'b) pyst) \<Rightarrow> ('s, 'b) pyst" where
  "bindE m f s = (case m s of (Inl e, s') \<Rightarrow> (Inl e, s') | (Inr a, s') \<Rightarrow> f a s')"

text \<open>A statement that only changes the state and returns \<open>None\<close> in Python.\<close>

definition modify :: "('s \<Rightarrow> 's) \<Rightarrow> ('s, unit) pyst" where
  "modify f s = (Inr (), f s)"

text \<open>A read of the state.\<close>

definition gets :: "('s \<Rightarrow> 'a) \<Rightarrow> ('s, 'a) pyst" where
  "gets f s = (Inr (f s), s)"

text \<open>A state predicate kept by a statement, whether it returns or raises.\<close>

definition preserves :: "('s \<Rightarrow> bool) \<Rightarrow> ('s, 'a) pyst \<Rightarrow> bool" where
  "preserves I m \<longleftrightarrow> (\<forall>s. I s \<longrightarrow> I (snd (m s)))"

text \<open>The exceptions a statement may raise all satisfy \<open>P\<close>.\<close>

definition raises_only :: "(exc \<Rightarrow> bool) \<Rightarrow> ('s, 'a) pyst \<Rightarrow> bool" where
  "raises_only P m \<longleftrightarrow> (\<forall>s e s'. m s = (Inl e, s') \<longrightarrow> P e)"

text \<open>Python's \<open>not x\<close> for a value of type \<open>Optional[str]\<close>.\<close>

fun py_truthy :: "string option \<Rightarrow> bool" where
  "py_truthy None = False"
| "py_truthy (Some s) = (s \<noteq> [])"

section \<open>Running statements\<close>

lemma ret_run [pyst_simps]: "ret a s = (Inr a, s)"
  by (simp add: ret_def)

lemma throw_run [pyst_simps]: "throw e s = (Inl e, s)"
  by (simp add: throw_def)

lemma modify_run [pyst_simps]: "modify f s = (Inr (), f s)"
  by (simp add: modify_def)

lemma gets_run [pyst_simps]: "gets f s = (Inr (f s), s)"
  by (simp add: gets_def)

lemma bindE_Inr [simp]: "m s = (Inr a, s') \<Longrightarrow> bindE m f s = f a s'"
  by (simp add: bindE_def)

lemma bindE_Inl [simp]: "m s = (Inl e, s') \<Longrightarrow> bindE m f s = (Inl e, s')"
  by (simp add: bindE_def)

lemma bindE_ret [simp]: "bindE (ret a) f = f a"
  by (simp add: fun_eq_iff bindE_def ret_def)

lemma bindE_throw [simp]: "bindE (throw e) f = throw e"
  by (simp add: fun_eq_iff bindE_def throw_def)

lemma bindE_ret_right [simp]: "bindE m ret = m"
  by (simp add: fun_eq_iff bindE_def ret_def split: prod.splits sum.splits)

lemma bindE_assoc: "bindE (bindE m f) g = bindE m (\<lambda>a. bindE (f a) g)"
  by (simp add: fun_eq_iff bindE_def split: prod.splits sum.splits)

text \<open>
  The general shape of a sequenced statement: either the first part raised, or it
  returned and the rest runs from its state.
\<close>

lemma bindE_cases:
  obtains e s' where "m s = (Inl e, s')" and "bindE m f s = (Inl e, s')"
  | a s' where "m s = (Inr a, s')" and "bindE m f s = f a s'"
  by (cases "m s" rule: prod.exhaust) (metis bindE_Inl bindE_Inr sum.exhaust)

lemma bindE_Inr_iff:
  "bindE m f s = (Inr b, t) \<longleftrightarrow> (\<exists>a s'. m s = (Inr a, s') \<and> f a s' = (Inr b, t))"
  by (cases "m s" rule: prod.exhaust) (auto simp: bindE_def split: sum.splits)

lemma bindE_Inl_iff:
  "bindE m f s = (Inl e, t) \<longleftrightarrow>
     m s = (Inl e, t) \<or> (\<exists>a s'. m s = (Inr a, s') \<and> f a s' = (Inl e, t))"
  by (cases "m s" rule: prod.exhaust) (auto simp: bindE_def split: sum.splits)

section \<open>Invariants of statements\<close>

lemma preservesI [intro?]: "(\<And>s. I s \<Longrightarrow> I (snd (m s))) \<Longrightarrow> preserves I m"
  by (simp add: preserves_def)

lemma preservesD: "preserves I m \<Longrightarrow> I s \<Longrightarrow> I (snd (m s))"
  by (simp add: preserves_def)

lemma preserves_ret [simp]: "preserves I (ret a)"
  by (simp add: preserves_def ret_def)

lemma preserves_throw [simp]: "preserves I (throw e)"
  by (simp add: preserves_def throw_def)

lemma preserves_gets [simp]: "preserves I (gets f)"
  by (simp add: preserves_def gets_def)

lemma preserves_modify: "(\<And>s. I s \<Longrightarrow> I (f s)) \<Longrightarrow> preserves I (modify f)"
  by (simp add: preserves_def modify_def)

lemma preserves_bindE [intro]:
  assumes "preserves I m" and "\<And>a. preserves I (f a)"
  shows "preserves I (bindE m f)"
proof
  fix s assume s: "I s"
  have m: "I (snd (m s))" using preservesD [OF assms(1) s] .
  show "I (snd (bindE m f s))"
  proof (cases rule: bindE_cases [of m s f])
    case (1 e s')
    with m show ?thesis by simp
  next
    case (2 a s')
    with m have "I s'" by simp
    with 2 show ?thesis using preservesD [OF assms(2)] by simp
  qed
qed

lemma preserves_if [intro]:
  "preserves I m1 \<Longrightarrow> preserves I m2 \<Longrightarrow> preserves I (if b then m1 else m2)"
  by simp

lemma preserves_case_option [intro]:
  "preserves I m1 \<Longrightarrow> (\<And>a. preserves I (m2 a)) \<Longrightarrow>
   preserves I (case x of None \<Rightarrow> m1 | Some a \<Rightarrow> m2 a)"
  by (simp split: option.splits)

section \<open>Exceptions a statement may raise\<close>

lemma raises_onlyI [intro?]: "(\<And>s e s'. m s = (Inl e, s') \<Longrightarrow> P e) \<Longrightarrow> raises_only P m"
  by (simp add: raises_only_def)

lemma raises_onlyD: "raises_only P m \<Longrightarrow> m s = (Inl e, s') \<Longrightarrow> P e"
  unfolding raises_only_def by blast

lemma raises_only_ret [simp]: "raises_only P (ret a)"
  by (simp add: raises_only_def ret_def)

lemma raises_only_throw [simp]: "raises_only P (throw e) \<longleftrightarrow> P e"
  by (simp add: raises_only_def throw_def)

lemma raises_only_gets [simp]: "raises_only P (gets f)"
  by (simp add: raises_only_def gets_def)

lemma raises_only_modify [simp]: "raises_only P (modify f)"
  by (simp add: raises_only_def modify_def)

lemma raises_only_bindE [intro]:
  assumes "raises_only P m" and "\<And>a. raises_only P (f a)"
  shows "raises_only P (bindE m f)"
proof
  fix s e s'
  assume r: "bindE m f s = (Inl e, s')"
  show "P e"
  proof (cases rule: bindE_cases [of m s f])
    case (1 e' s'')
    with r have "m s = (Inl e, s')" by simp
    with assms(1) show ?thesis by (rule raises_onlyD)
  next
    case (2 a s'')
    with r have "f a s'' = (Inl e, s')" by simp
    with assms(2) show ?thesis by (rule raises_onlyD)
  qed
qed

lemma raises_only_if [intro]:
  "raises_only P m1 \<Longrightarrow> raises_only P m2 \<Longrightarrow> raises_only P (if b then m1 else m2)"
  by simp

lemma raises_only_case_option [intro]:
  "raises_only P m1 \<Longrightarrow> (\<And>a. raises_only P (m2 a)) \<Longrightarrow>
   raises_only P (case x of None \<Rightarrow> m1 | Some a \<Rightarrow> m2 a)"
  by (simp split: option.splits)

section \<open>Searching lists\<close>

lemma find_Some_set: "find P xs = Some x \<Longrightarrow> x \<in> set xs \<and> P x"
  by (induction xs) (auto split: if_splits)

lemma find_append:
  "find P (xs @ ys) = (case find P xs of None \<Rightarrow> find P ys | Some x \<Rightarrow> Some x)"
  by (induction xs) auto

section \<open>Association lists as dictionaries\<close>

text \<open>
  \<open>AList.update\<close> is assignment \<^verbatim>\<open>d[k] = v\<close>: an existing key keeps its
  position, a new one is appended.
\<close>

lemma set_update_subset: "set (AList.update k v al) \<subseteq> insert (k, v) (set al)"
  by (induction al) auto

lemma update_existing_keys:
  "k \<in> fst ` set al \<Longrightarrow> map fst (AList.update k v al) = map fst al"
  by (induction al) auto

lemma map_of_update_other [simp]:
  "k' \<noteq> k \<Longrightarrow> map_of (AList.update k v al) k' = map_of al k'"
  by (simp add: update_conv')

lemma update_keys: "fst ` set (AList.update k v al) = insert k (fst ` set al)"
  by (simp add: dom_update)

lemma update_values: "snd ` set (AList.update k v al) \<subseteq> insert v (snd ` set al)"
  using set_update_subset [of k v al] by auto

lemma map_of_update_same [simp]: "map_of (AList.update k v al) k = Some v"
  by (simp add: update_conv')

end
