(* ===== verification/Keep_Service.thy ===== *)
theory Keep_Service
  imports Prelude "HOL-Library.AList"
begin

text \<open>
  The note service and its client library \<^verbatim>\<open>gkeepapi\<close>, the external collaborator of
  \<^verbatim>\<open>google_keep_tags.py\<close>. Its code is not part of the repository; it is modelled
  from the contract of spec section 6 (\<open>login\<close>, \<open>get\<close>, \<open>findLabel\<close>,
  \<open>createLabel\<close>, \<open>note.labels.add\<close>, \<open>sync\<close>).
  \<^item> \<open>keep_db\<close>: an account's notes (each with its set of label ids, in the order
    of the library's node dictionary) and labels (id and name, in creation order);
  \<^item> \<open>keep\<close>: the client object, with its session, its local copy of the
    account and the changes not yet synchronised;
  \<^item> \<open>svc\<close>: the service side (the account's credentials, its stored data,
    whether it is reachable, the id generator) together with the one client of
    the process and the trace of the calls made to the library;
  \<^item> one definition per library call, each recording itself in the trace.
  The operations are generic over extensions of \<open>svc\<close>, so that the process
  state of \<open>Process\<close> can extend it.
\<close>

named_theorems keep_ops "definitions of the client library's operations"

section \<open>Data\<close>

type_synonym note_id = string
type_synonym label_id = nat

record keep_db =
  db_notes :: "(note_id \<times> label_id set) list"
  db_labels :: "(label_id \<times> string) list"

definition empty_db :: keep_db where
  "empty_db = \<lparr>db_notes = [], db_labels = []\<rparr>"

text \<open>A change made on the client and not yet sent to the service.\<close>

datatype change =
    NewLabel label_id string
  | LabelNote note_id label_id

fun apply_change :: "keep_db \<Rightarrow> change \<Rightarrow> keep_db" where
  "apply_change db (NewLabel i n) = db\<lparr>db_labels := db_labels db @ [(i, n)]\<rparr>"
| "apply_change db (LabelNote nid i) =
     (case map_of (db_notes db) nid of
        None \<Rightarrow> db
      | Some ls \<Rightarrow> db\<lparr>db_notes := AList.update nid (insert i ls) (db_notes db)\<rparr>)"

definition apply_changes :: "keep_db \<Rightarrow> change list \<Rightarrow> keep_db" where
  "apply_changes db cs = foldl apply_change db cs"

text \<open>The client object \<^verbatim>\<open>gkeepapi.Keep\<close>.\<close>

record keep =
  session :: "string option"
  local_db :: keep_db
  pending :: "change list"

definition keep_init :: keep where
  "keep_init = \<lparr>session = None, local_db = empty_db, pending = []\<rparr>"

text \<open>The calls of the library's interface, as they appear in a trace.\<close>

datatype api_call =
    ApiNew
  | ApiLogin string
  | ApiGet note_id
  | ApiFindLabel string
  | ApiCreateLabel string
  | ApiAddLabel note_id label_id
  | ApiSync

fun is_network :: "api_call \<Rightarrow> bool" where
  "is_network (ApiLogin _) = True"
| "is_network ApiSync = True"
| "is_network _ = False"

record svc =
  acct_email :: string
  acct_password :: string
  online :: bool
  remote :: keep_db
  client :: keep
  next_id :: nat
  calls :: "api_call list"

section \<open>Lookups\<close>

definition note_labels :: "keep_db \<Rightarrow> note_id \<Rightarrow> label_id set option" where
  "note_labels db nid = map_of (db_notes db) nid"

text \<open>\<^verbatim>\<open>findLabel\<close>: the first label, in creation order, with the given name.\<close>

definition find_label :: "keep_db \<Rightarrow> string \<Rightarrow> label_id option" where
  "find_label db name = map_option fst (find (\<lambda>l. snd l = name) (db_labels db))"

definition label_ids :: "keep_db \<Rightarrow> label_id set" where
  "label_ids db = fst ` set (db_labels db)"

section \<open>Operations\<close>

definition log_call :: "api_call \<Rightarrow> 'x svc_scheme \<Rightarrow> 'x svc_scheme" where
  "log_call c s = s\<lparr>calls := calls s @ [c]\<rparr>"

text \<open>A change applied to the local copy and queued for the next sync.\<close>

definition record_change :: "change \<Rightarrow> 'x svc_scheme \<Rightarrow> 'x svc_scheme" where
  "record_change c s =
     s\<lparr>client := (client s)\<lparr>local_db := apply_change (local_db (client s)) c,
                             pending := pending (client s) @ [c]\<rparr>\<rparr>"

text \<open>\<^verbatim>\<open>gkeepapi.Keep()\<close>: a fresh client.\<close>

definition keep_new :: "('x svc_scheme, unit) pyst" where
  "keep_new s = (Inr (), (log_call ApiNew s)\<lparr>client := keep_init\<rparr>)"

text \<open>
  \<^verbatim>\<open>keep.login(email, password)\<close>: one round trip. An unreachable service raises;
  rejected credentials return \<open>False\<close>; accepted ones open the session and load the
  account into the local copy.
\<close>

definition keep_login :: "string \<Rightarrow> string \<Rightarrow> ('x svc_scheme, bool) pyst" where
  "keep_login email password s =
     (let s = log_call (ApiLogin email) s in
      if \<not> online s then throw (NetworkError ''login: service unreachable'') s
      else if email = acct_email s \<and> password = acct_password s then
        ret True (s\<lparr>client := \<lparr>session = Some email, local_db = remote s, pending = []\<rparr>\<rparr>)
      else ret False s)"

text \<open>\<^verbatim>\<open>keep.get(note_id)\<close>: the note, looked up in the local copy, or \<open>None\<close>.\<close>

definition keep_get :: "note_id \<Rightarrow> ('x svc_scheme, note_id option) pyst" where
  "keep_get nid s =
     (let s = log_call (ApiGet nid) s in
      ret (if note_labels (local_db (client s)) nid = None then None else Some nid) s)"

text \<open>\<^verbatim>\<open>keep.findLabel(name)\<close>: a local lookup by exact name.\<close>

definition keep_findLabel :: "string \<Rightarrow> ('x svc_scheme, label_id option) pyst" where
  "keep_findLabel name s =
     (let s = log_call (ApiFindLabel name) s in
      ret (find_label (local_db (client s)) name) s)"

text \<open>
  \<^verbatim>\<open>keep.createLabel(name)\<close>: refuses a name already taken (the library's own
  guard of label-name uniqueness); otherwise takes a fresh id and queues the new label.
\<close>

definition keep_createLabel :: "string \<Rightarrow> ('x svc_scheme, label_id) pyst" where
  "keep_createLabel name s =
     (let s = log_call (ApiCreateLabel name) s in
      if find_label (local_db (client s)) name \<noteq> None
      then throw (LabelException ''Label exists'') s
      else (let i = next_id s in
            ret i (record_change (NewLabel i name) (s\<lparr>next_id := Suc i\<rparr>))))"

text \<open>\<^verbatim>\<open>note.labels.add(label)\<close>: set insertion on the local note, queued.\<close>

definition note_labels_add :: "note_id \<Rightarrow> label_id \<Rightarrow> ('x svc_scheme, unit) pyst" where
  "note_labels_add nid i s =
     (let s = log_call (ApiAddLabel nid i) s in
      ret () (record_change (LabelNote nid i) s))"

text \<open>
  \<^verbatim>\<open>keep.sync()\<close>: sends the queued changes and reloads the local copy. It raises
  when the service is unreachable or no session is open, leaving both sides as
  they were.
\<close>

definition keep_sync :: "('x svc_scheme, unit) pyst" where
  "keep_sync s =
     (let s = log_call ApiSync s in
      if \<not> online s \<or> session (client s) = None
      then throw (NetworkError ''sync failed'') s
      else (let r = apply_changes (remote s) (pending (client s)) in
            ret () (s\<lparr>remote := r,
                      client := (client s)\<lparr>local_db := r, pending := []\<rparr>\<rparr>)))"

declare keep_new_def [keep_ops] keep_login_def [keep_ops] keep_get_def [keep_ops]
  keep_findLabel_def [keep_ops] keep_createLabel_def [keep_ops]
  note_labels_add_def [keep_ops] keep_sync_def [keep_ops]

section \<open>Lookups after a change\<close>

text \<open>
  The characteristic equations of \<open>apply_change\<close> seen through the lookups; the
  defining equations are taken out of the simpset so that proofs go through these.
\<close>

lemma db_labels_apply_change [simp]:
  "db_labels (apply_change db c) =
     (case c of NewLabel i n \<Rightarrow> db_labels db @ [(i, n)] | LabelNote _ _ \<Rightarrow> db_labels db)"
  by (cases c) (simp_all split: option.splits)

lemma note_labels_apply_change [simp]:
  "note_labels (apply_change db c) k =
     (case c of
        NewLabel _ _ \<Rightarrow> note_labels db k
      | LabelNote nid i \<Rightarrow>
          if k = nid then map_option (insert i) (note_labels db k) else note_labels db k)"
  by (cases c) (auto simp: note_labels_def split: option.splits)

lemma find_label_apply_change [simp]:
  "find_label (apply_change db c) name =
     (case c of
        NewLabel i n \<Rightarrow>
          (case find_label db name of None \<Rightarrow> if n = name then Some i else None | Some j \<Rightarrow> Some j)
      | LabelNote _ _ \<Rightarrow> find_label db name)"
  by (cases c) (auto simp: find_label_def find_append split: option.splits)

declare apply_change.simps [simp del]

section \<open>Running the operations\<close>

text \<open>Recording a call and queueing a change touch nothing else.\<close>

lemma log_call_simps [simp]:
  "client (log_call c s) = client s" "remote (log_call c s) = remote s"
  "online (log_call c s) = online s" "next_id (log_call c s) = next_id s"
  "acct_email (log_call c s) = acct_email s"
  "acct_password (log_call c s) = acct_password s"
  "calls (log_call c s) = calls s @ [c]"
  by (simp_all add: log_call_def)

lemma record_change_simps [simp]:
  "local_db (client (record_change c s)) = apply_change (local_db (client s)) c"
  "pending (client (record_change c s)) = pending (client s) @ [c]"
  "session (client (record_change c s)) = session (client s)"
  "remote (record_change c s) = remote s" "online (record_change c s) = online s"
  "next_id (record_change c s) = next_id s" "calls (record_change c s) = calls s"
  "acct_email (record_change c s) = acct_email s"
  "acct_password (record_change c s) = acct_password s"
  by (simp_all add: record_change_def)

lemma keep_get_run [pyst_simps]:
  "keep_get nid s =
     (Inr (if note_labels (local_db (client s)) nid = None then None else Some nid),
      log_call (ApiGet nid) s)"
  by (simp add: keep_get_def ret_def)

lemma keep_findLabel_run [pyst_simps]:
  "keep_findLabel name s =
     (Inr (find_label (local_db (client s)) name), log_call (ApiFindLabel name) s)"
  by (simp add: keep_findLabel_def ret_def)

lemma keep_createLabel_fresh [pyst_simps]:
  "find_label (local_db (client s)) name = None \<Longrightarrow>
   keep_createLabel name s =
     (Inr (next_id s),
      record_change (NewLabel (next_id s) name)
        ((log_call (ApiCreateLabel name) s)\<lparr>next_id := Suc (next_id s)\<rparr>))"
  by (simp add: keep_createLabel_def ret_def Let_def)

lemma keep_createLabel_taken:
  "find_label (local_db (client s)) name \<noteq> None \<Longrightarrow>
   keep_createLabel name s =
     (Inl (LabelException ''Label exists''), log_call (ApiCreateLabel name) s)"
  by (simp add: keep_createLabel_def throw_def)

lemma note_labels_add_run [pyst_simps]:
  "note_labels_add nid i s =
     (Inr (), record_change (LabelNote nid i) (log_call (ApiAddLabel nid i) s))"
  by (simp add: note_labels_add_def ret_def)

lemma keep_sync_ok [pyst_simps]:
  "online s \<Longrightarrow> session (client s) \<noteq> None \<Longrightarrow>
   keep_sync s =
     (Inr (),
      (log_call ApiSync s)\<lparr>remote := apply_changes (remote s) (pending (client s)),
         client := (client s)\<lparr>local_db := apply_changes (remote s) (pending (client s)),
                               pending := []\<rparr>\<rparr>)"
  by (cases "session (client s)") (simp_all add: keep_sync_def ret_def Let_def)

lemma keep_sync_fails:
  "\<not> online s \<or> session (client s) = None \<Longrightarrow>
   keep_sync s = (Inl (NetworkError ''sync failed''), log_call ApiSync s)"
  by (auto simp add: keep_sync_def throw_def)

end
