(* ===== verification/Process.thy ===== *)
theory Process
  imports Keep_Service
begin

text \<open>
  The state of the Python process running the script: the service and client of
  \<open>Keep_Service\<close>, extended with what the interpreter gives the script,
  \<^verbatim>\<open>os.environ\<close>, \<^verbatim>\<open>sys.argv[1:]\<close>, and the lines written to standard output and
  standard error, and the program name \<^verbatim>\<open>argparse\<close> takes from
  \<^verbatim>\<open>sys.argv[0]\<close>. The library's operations act on this record unchanged, being
  generic over extensions of \<open>svc\<close>; the statements here read the environment
  (\<^verbatim>\<open>os.environ.get\<close>) and print.
\<close>

record world = svc +
  environ :: "string \<rightharpoonup> string"
  prog :: string
  argv :: "string list"
  stdout :: "string list"
  stderr :: "string list"

text \<open>\<^verbatim>\<open>os.environ.get(key)\<close>: the value, or \<^verbatim>\<open>None\<close> when the variable is unset.\<close>

definition os_getenv :: "string \<Rightarrow> ('x world_scheme, string option) pyst" where
  "os_getenv key = gets (\<lambda>w. environ w key)"

text \<open>\<^verbatim>\<open>print(msg)\<close>: one line on standard output.\<close>

definition print_line :: "string \<Rightarrow> ('x world_scheme, unit) pyst" where
  "print_line msg = modify (\<lambda>w. w\<lparr>stdout := stdout w @ [msg]\<rparr>)"

lemma os_getenv_run [pyst_simps]: "os_getenv key w = (Inr (environ w key), w)"
  by (simp add: os_getenv_def gets_def)

lemma print_line_run [pyst_simps]:
  "print_line msg w = (Inr (), w\<lparr>stdout := stdout w @ [msg]\<rparr>)"
  by (simp add: print_line_def modify_def)

text \<open>The library never touches the process's own fields.\<close>

lemma log_call_world [simp]:
  "environ (log_call c w) = environ w" "argv (log_call c w) = argv w" "prog (log_call c w) = prog w"
  "stdout (log_call c w) = stdout w" "stderr (log_call c w) = stderr w"
  by (simp_all add: log_call_def)

lemma record_change_world [simp]:
  "environ (record_change c w) = environ w" "argv (record_change c w) = argv w"
  "prog (record_change c w) = prog w"
  "stdout (record_change c w) = stdout w" "stderr (record_change c w) = stderr w"
  by (simp_all add: record_change_def)

end
