(* ===== verification/Argparse.thy ===== *)
theory Argparse
  imports Process
begin

text \<open>
  The command line of the script: the parser built in \<^verbatim>\<open>main()\<close> (lines 45--47:
  two required options \<^verbatim>\<open>--note\<close> and \<^verbatim>\<open>--label\<close>) as data,
  \<open>keep_tags_parser\<close>, and the behaviour of the standard library's
  \<^verbatim>\<open>ArgumentParser.parse_args\<close> for a parser of single-valued long options, as
  \<open>argparse\<close>, modelled from the library's documented algorithm:
  \<^item> each token is classified (\<open>classify\<close>): an option given exactly, as
    \<^verbatim>\<open>--opt=value\<close>, or by an unambiguous prefix (\<^verbatim>\<open>--no\<close> for \<^verbatim>\<open>--note\<close>);
    the help option \<^verbatim>\<open>-h\<close>/\<^verbatim>\<open>--help\<close> that every parser has; the separator
    \<^verbatim>\<open>--\<close>; an unknown option; or a plain argument (which includes negative
    numbers and tokens with a space);
  \<^item> tokens are consumed left to right (\<open>consume\<close>): an option takes its explicit
    value or the next token if that is a plain argument, else the parse fails with
    "expected one argument"; a later occurrence overrides an earlier one; help
    stops the parse at once; everything else is collected as extra;
  \<^item> at the end (\<open>finish\<close>) a missing required option is an error, then any
    extra token is ("unrecognized arguments").
  Errors print the usage line and the message on stderr and exit with status 2;
  help prints on stdout and exits with status 0. Ambiguous prefixes cannot arise
  with this parser (its three long options start with different letters) and are
  not modelled; the help text is given line by line without argparse's column
  alignment.
\<close>

record arg_spec =
  opt_flag :: string
  opt_dest :: string
  opt_required :: bool
  opt_help :: string

type_synonym namespace = "(string \<times> string) list"

text \<open>Lines 45--47 of \<^verbatim>\<open>main()\<close>.\<close>

definition keep_tags_description :: string where
  "keep_tags_description = ''Add or modify Google Keep labels''"

definition keep_tags_parser :: "arg_spec list" where
  "keep_tags_parser =
     [\<lparr>opt_flag = ''--note'', opt_dest = ''note'', opt_required = True,
       opt_help = ''ID of the note to modify''\<rparr>,
      \<lparr>opt_flag = ''--label'', opt_dest = ''label'', opt_required = True,
       opt_help = ''Label to add to the note''\<rparr>]"

datatype token_kind =
    TOpt arg_spec "string option"
  | THelp "string option"
  | TSep
  | TUnknown
  | TArg

datatype parse_outcome = ParseHelp | ParseError string | Parsed namespace

definition quote_char :: char where
  "quote_char = CHR 0x27"

text \<open>Python's \<^verbatim>\<open>repr\<close> of a string without quotes or backslashes in it.\<close>

definition py_repr :: "string \<Rightarrow> string" where
  "py_repr s = [quote_char] @ s @ [quote_char]"

fun join_str :: "string \<Rightarrow> string list \<Rightarrow> string" where
  "join_str sep [] = []"
| "join_str sep [x] = x"
| "join_str sep (x # xs) = x @ sep @ join_str sep xs"

definition is_digit :: "char \<Rightarrow> bool" where
  "is_digit c \<longleftrightarrow> c \<in> set ''0123456789''"

text \<open>argparse's \<^verbatim>\<open>^-\d+$|^-\d*\.\d+$\<close>.\<close>

definition is_neg_number :: "string \<Rightarrow> bool" where
  "is_neg_number t \<longleftrightarrow>
     (case t of
        c # ds \<Rightarrow> c = CHR ''-'' \<and> ds \<noteq> [] \<and>
          (list_all is_digit ds \<or>
           (let ip = takeWhile (\<lambda>c. c \<noteq> CHR ''.'') ds; fp = drop (Suc (length ip)) ds in
            length ip < length ds \<and> list_all is_digit ip \<and> fp \<noteq> [] \<and> list_all is_digit fp))
      | [] \<Rightarrow> False)"

text \<open>A token split at its first \<^verbatim>\<open>=\<close>.\<close>

definition split_eq :: "string \<Rightarrow> string \<times> string option" where
  "split_eq t =
     (let f = takeWhile (\<lambda>c. c \<noteq> CHR ''='') t in
      (f, if length f < length t then Some (drop (Suc (length f)) t) else None))"

text \<open>The long option a flag names, exactly or as the only option it is a prefix of.\<close>

definition resolve_long :: "arg_spec list \<Rightarrow> string \<Rightarrow> string option" where
  "resolve_long specs f =
     (let opts = ''--help'' # map opt_flag specs in
      if f \<in> set opts then Some f
      else (case filter (\<lambda>opt. take (length f) opt = f) opts of [opt] \<Rightarrow> Some opt | _ \<Rightarrow> None))"

definition long_kind :: "arg_spec list \<Rightarrow> string \<Rightarrow> string option \<Rightarrow> token_kind" where
  "long_kind specs opt v =
     (if opt = ''--help'' then THelp v
      else (case find (\<lambda>sp. opt_flag sp = opt) specs of Some sp \<Rightarrow> TOpt sp v | None \<Rightarrow> TUnknown))"

definition classify :: "arg_spec list \<Rightarrow> string \<Rightarrow> token_kind" where
  "classify specs t =
     (if t = [] \<or> hd t \<noteq> CHR ''-'' \<or> t = ''-'' then TArg
      else if t = ''--'' then TSep
      else if t = ''-h'' then THelp None
      else if take 2 t = ''--'' then
        (let (f, v) = split_eq t in
         case resolve_long specs f of
           Some opt \<Rightarrow> long_kind specs opt v
         | None \<Rightarrow> if CHR '' '' \<in> set t then TArg else TUnknown)
      else if take 2 t = ''-h'' then
        THelp (Some (if take 3 t = ''-h='' then drop 3 t else drop 2 t))
      else if is_neg_number t \<or> CHR '' '' \<in> set t then TArg
      else TUnknown)"

definition finish :: "arg_spec list \<Rightarrow> namespace \<Rightarrow> string list \<Rightarrow> parse_outcome" where
  "finish specs ns extras =
     (let missing = filter (\<lambda>sp. opt_required sp \<and> map_of ns (opt_dest sp) = None) specs in
      if missing \<noteq> [] then
        ParseError (''the following arguments are required: '' @ join_str '', '' (map opt_flag missing))
      else if extras \<noteq> [] then ParseError (''unrecognized arguments: '' @ join_str '' '' extras)
      else Parsed ns)"

fun consume :: "arg_spec list \<Rightarrow> string list \<Rightarrow> namespace \<Rightarrow> string list \<Rightarrow> parse_outcome" where
  "consume specs [] ns extras = finish specs ns extras"
| "consume specs (t # ts) ns extras =
     (case classify specs t of
        TArg \<Rightarrow> consume specs ts ns (extras @ [t])
      | TUnknown \<Rightarrow> consume specs ts ns (extras @ [t])
      | TSep \<Rightarrow> finish specs ns (extras @ ts)
      | THelp None \<Rightarrow> ParseHelp
      | THelp (Some v) \<Rightarrow>
          ParseError (''argument -h/--help: ignored explicit argument '' @ py_repr v)
      | TOpt sp (Some v) \<Rightarrow> consume specs ts (AList.update (opt_dest sp) v ns) extras
      | TOpt sp None \<Rightarrow>
          (case ts of
             v # ts' \<Rightarrow>
               if classify specs v = TArg
               then consume specs ts' (AList.update (opt_dest sp) v ns) extras
               else ParseError (''argument '' @ opt_flag sp @ '': expected one argument'')
           | [] \<Rightarrow> ParseError (''argument '' @ opt_flag sp @ '': expected one argument'')))"

definition argparse :: "arg_spec list \<Rightarrow> string list \<Rightarrow> parse_outcome" where
  "argparse specs args = consume specs args [] []"

text \<open>C11. For every note id and every label name, whatever characters they hold, the command line \<^verbatim>\<open>--note=<id> --label=<name>\<close> parses back to exactly that id and name.\<close>

theorem argparse_equals_roundtrip:
  "argparse keep_tags_parser [''--note='' @ nid, ''--label='' @ name] =
     Parsed [(''note'', nid), (''label'', name)]"
  by (simp add: argparse_def keep_tags_parser_def classify_def split_eq_def resolve_long_def
        long_kind_def finish_def)

section \<open>Parsing runs\<close>

text \<open>Every unambiguous abbreviation of the two options names it.\<close>

lemma resolve_note_prefix:
  "3 \<le> k \<Longrightarrow> k \<le> 6 \<Longrightarrow> classify keep_tags_parser (take k ''--note'') = TOpt (hd keep_tags_parser) None"
proof -
  assume "3 \<le> k" "k \<le> 6"
  then have "k = 3 \<or> k = 4 \<or> k = 5 \<or> k = 6" by auto
  then show ?thesis
    by (elim disjE) (simp_all add: keep_tags_parser_def classify_def split_eq_def resolve_long_def long_kind_def)
qed

lemma resolve_label_prefix:
  "3 \<le> k \<Longrightarrow> k \<le> 7 \<Longrightarrow> classify keep_tags_parser (take k ''--label'') = TOpt (keep_tags_parser ! 1) None"
proof -
  assume "3 \<le> k" "k \<le> 7"
  then have "k = 3 \<or> k = 4 \<or> k = 5 \<or> k = 6 \<or> k = 7" by auto
  then show ?thesis
    by (elim disjE) (simp_all add: keep_tags_parser_def classify_def split_eq_def resolve_long_def long_kind_def)
qed

text \<open>A successful parse went through \<open>finish\<close>, and its namespace holds only the
  destinations of the parser's options.\<close>

lemma finish_Parsed:
  "finish specs ns0 ex = Parsed ns \<Longrightarrow>
     ns = ns0 \<and> (\<forall>sp \<in> set specs. opt_required sp \<longrightarrow> map_of ns (opt_dest sp) \<noteq> None)"
  by (auto simp: finish_def Let_def filter_empty_conv split: if_splits)

lemma classify_TOpt: "classify specs t = TOpt sp v \<Longrightarrow> sp \<in> set specs"
proof -
  assume c: "classify specs t = TOpt sp v"
  obtain opt w where "long_kind specs opt w = TOpt sp v"
    using c by (auto simp: classify_def split_eq_def Let_def split: if_splits option.splits)
  then show ?thesis
    by (auto simp: long_kind_def dest: find_Some_set split: if_splits option.splits)
qed

lemma finish_Parsed_keys:
  assumes "finish specs ns0 ex = Parsed ns" and "fst ` set ns0 \<subseteq> opt_dest ` set specs"
  shows "(\<exists>ex1. finish specs ns ex1 = Parsed ns) \<and> fst ` set ns \<subseteq> opt_dest ` set specs"
proof -
  from finish_Parsed [OF assms(1)] have "ns = ns0" by simp
  with assms show ?thesis by blast
qed

lemma consume_Parsed:
  "consume specs ts ns0 ex = Parsed ns \<Longrightarrow> fst ` set ns0 \<subseteq> opt_dest ` set specs \<Longrightarrow>
   (\<exists>ex1. finish specs ns ex1 = Parsed ns) \<and> fst ` set ns \<subseteq> opt_dest ` set specs"
proof (induction specs ts ns0 ex rule: consume.induct)
  case (1 specs ns ex)
  then show ?case by (intro finish_Parsed_keys) simp_all
next
  case (2 specs t ts ns0 ex)
  note IH = 2(1-4) and prems = 2(5,6)
  show ?case
  proof (cases "classify specs t")
    case TArg
    with prems show ?thesis by (intro IH(4)) simp_all
  next
    case TUnknown
    with prems show ?thesis by (intro IH(3)) simp_all
  next
    case TSep
    with prems show ?thesis by (intro finish_Parsed_keys) simp_all
  next
    case (THelp v)
    with prems show ?thesis by (cases v) simp_all
  next
    case (TOpt sp v)
    then have sp: "opt_dest sp \<in> opt_dest ` set specs" by (auto dest: classify_TOpt)
    show ?thesis
    proof (cases v)
      case (Some a)
      with TOpt prems sp show ?thesis by (intro IH(2) [OF TOpt Some]) (simp_all add: update_keys)
    next
      case None
      show ?thesis
      proof (cases ts)
        case (Cons a ts')
        with TOpt None prems sp show ?thesis
          by (intro IH(1) [OF TOpt None Cons]) (simp_all add: update_keys split: if_splits)
      qed (use TOpt None prems in simp)
    qed
  qed
qed

lemma argparse_Parsed_keys:
  assumes "argparse keep_tags_parser args = Parsed ns"
  shows "fst ` set ns \<subseteq> {''note'', ''label''} \<and>
         (\<exists>nid. map_of ns ''note'' = Some nid) \<and> (\<exists>name. map_of ns ''label'' = Some name)"
proof -
  from consume_Parsed [of keep_tags_parser args "[]" "[]" ns] assms
  obtain ex1 where f: "finish keep_tags_parser ns ex1 = Parsed ns"
    and k: "fst ` set ns \<subseteq> {''note'', ''label''}"
    by (auto simp: argparse_def keep_tags_parser_def)
  from finish_Parsed [OF f] k show ?thesis by (simp add: keep_tags_parser_def)
qed

text \<open>C16. For every note id and label name that argparse takes as a plain argument (not starting with \<^verbatim>\<open>-\<close>, a negative number, or containing a space), the space-separated command line \<^verbatim>\<open>--note <id> --label <name>\<close> parses to that id and name, and so does every abbreviation of the two options down to \<^verbatim>\<open>--n\<close> and \<^verbatim>\<open>--l\<close>.\<close>

theorem argparse_space_roundtrip:
  assumes "3 \<le> k" "k \<le> 6" "3 \<le> j" "j \<le> 7"
    and "classify keep_tags_parser nid = TArg" "classify keep_tags_parser name = TArg"
  shows "argparse keep_tags_parser [take k ''--note'', nid, take j ''--label'', name] =
           Parsed [(''note'', nid), (''label'', name)]"
  using assms resolve_note_prefix [OF assms(1,2)] resolve_label_prefix [OF assms(3,4)]
  by (simp add: argparse_def finish_def keep_tags_parser_def)

text \<open>C17. A command line that argparse accepts yields a namespace with exactly the attributes \<^verbatim>\<open>note\<close> and \<^verbatim>\<open>label\<close>, so the attribute reads \<^verbatim>\<open>args.note\<close> and \<^verbatim>\<open>args.label\<close> of \<^verbatim>\<open>main()\<close> (\<open>ns_attr\<close>) never fail.\<close>

theorem argparse_parsed_attrs:
  assumes "argparse keep_tags_parser args = Parsed ns"
  shows "dom (map_of ns) = {''note'', ''label''}"
  using argparse_Parsed_keys [OF assms]
  by (auto simp: dom_map_of_conv_image_fst dest: map_of_SomeD intro: rev_image_eqI)

text \<open>C24. The boundary inputs of the command line fail with argparse's messages: no argument at all names both required options in declaration order; either option alone names the other; an option without a value is reported as expecting one argument. (Each makes the script exit with status 2, by C12.)\<close>

theorem argparse_missing_options:
  assumes "classify keep_tags_parser v = TArg"
  shows "argparse keep_tags_parser [] =
           ParseError ''the following arguments are required: --note, --label'' \<and>
         argparse keep_tags_parser [''--note'', v] =
           ParseError ''the following arguments are required: --label'' \<and>
         argparse keep_tags_parser [''--label'', v] =
           ParseError ''the following arguments are required: --note'' \<and>
         argparse keep_tags_parser [''--label'', v, ''--note''] =
           ParseError ''argument --note: expected one argument''"
  using assms
  by (simp add: argparse_def keep_tags_parser_def classify_def split_eq_def resolve_long_def
        long_kind_def finish_def)

end
