(* ===== verification/Keep_Invariant.thy ===== *)
theory Keep_Invariant
  imports Keep_Service
begin

text \<open>
  The invariant of the collaborator model and its preservation, one lemma per
  library call, in the style of an atomic-step invariant proof.
  \<^item> \<open>wf_db n db\<close>: the account is well formed: note ids are unique (a
    dictionary), label ids and label names are unique (spec section 3: label names
    are unique within an account), every label id is below the generator \<open>n\<close>,
    and every note refers to existing labels only;
  \<^item> \<open>svc_inv s\<close>: both the stored account and the client's copy are well formed,
    and, once a session is open, the client's copy is the stored account with the
    pending changes applied.
  The last conjunct is what makes \<^verbatim>\<open>sync\<close> correct: sending the pending changes
  makes the service hold exactly what the client shows. \<open>grows db db'\<close>: the account
  \<open>db'\<close> extends \<open>db\<close> (labels appended, the same notes, no label taken off a note);
  applying any list of changes only lets an account grow.
\<close>

definition wf_db :: "nat \<Rightarrow> keep_db \<Rightarrow> bool" where
  "wf_db fresh db \<longleftrightarrow>
     distinct (map fst (db_notes db)) \<and>
     distinct (map fst (db_labels db)) \<and>
     distinct (map snd (db_labels db)) \<and>
     (\<forall>i \<in> label_ids db. i < fresh) \<and>
     (\<forall>p \<in> set (db_notes db). snd p \<subseteq> label_ids db)"

definition svc_inv :: "'x svc_scheme \<Rightarrow> bool" where
  "svc_inv s \<longleftrightarrow>
     wf_db (next_id s) (remote s) \<and> wf_db (next_id s) (local_db (client s)) \<and>
     (session (client s) \<noteq> None \<longrightarrow>
        local_db (client s) = apply_changes (remote s) (pending (client s)))"

text \<open>
  One account grows into another: its label list is extended at the end, its notes
  are the same keys in the same order, and each note keeps its labels.
\<close>

definition grows :: "keep_db \<Rightarrow> keep_db \<Rightarrow> bool" where
  "grows db db' \<longleftrightarrow>
     (\<exists>ys. db_labels db' = db_labels db @ ys) \<and>
     map fst (db_notes db') = map fst (db_notes db) \<and>
     (\<forall>nid ls. note_labels db nid = Some ls \<longrightarrow>
        (\<exists>ls'. note_labels db' nid = Some ls' \<and> ls \<subseteq> ls'))"

section \<open>Changes and lookups\<close>

lemma apply_changes_Nil [simp]: "apply_changes db [] = db"
  by (simp add: apply_changes_def)

lemma apply_changes_append [simp]:
  "apply_changes db (xs @ ys) = apply_changes (apply_changes db xs) ys"
  by (simp add: apply_changes_def)

lemma apply_changes_Cons [simp]:
  "apply_changes db (c # cs) = apply_changes (apply_change db c) cs"
  by (simp add: apply_changes_def)

lemma find_label_None_iff: "find_label db name = None \<longleftrightarrow> name \<notin> snd ` set (db_labels db)"
  by (auto simp: find_label_def find_None_iff image_iff)

lemma find_label_Some: "find_label db name = Some i \<Longrightarrow> (i, name) \<in> set (db_labels db)"
  by (auto simp: find_label_def dest: find_Some_set)

lemma find_label_Some_ids: "find_label db name = Some i \<Longrightarrow> i \<in> label_ids db"
  by (force simp: label_ids_def dest: find_label_Some)

lemma label_ids_apply_change: "label_ids db \<subseteq> label_ids (apply_change db c)"
  by (cases c) (auto simp: label_ids_def apply_change.simps split: option.splits)

section \<open>Well-formedness of an account\<close>

lemma wf_empty_db [simp]: "wf_db n empty_db"
  by (simp add: wf_db_def empty_db_def label_ids_def)

lemma wf_db_mono: "wf_db n db \<Longrightarrow> n \<le> m \<Longrightarrow> wf_db m db"
  by (auto simp: wf_db_def)

lemma wf_db_new_label:
  assumes "wf_db n db" and "name \<notin> snd ` set (db_labels db)"
  shows "wf_db (Suc n) (apply_change db (NewLabel n name))"
proof -
  from assms(1) have "n \<notin> fst ` set (db_labels db)"
    by (auto simp: wf_db_def label_ids_def)
  with assms show ?thesis
    by (auto simp: wf_db_def label_ids_def apply_change.simps)
qed

lemma wf_db_label_note:
  assumes "wf_db n db" and "i \<in> label_ids db"
  shows "wf_db n (apply_change db (LabelNote nid i))"
proof (cases "map_of (db_notes db) nid")
  case (Some ls)
  then have "(nid, ls) \<in> set (db_notes db)" by (rule map_of_SomeD)
  with assms(1) have "ls \<subseteq> label_ids db" by (force simp: wf_db_def)
  with assms(2) have "insert i ls \<subseteq> label_ids db" by simp
  have "\<forall>p \<in> set (AList.update nid (insert i ls) (db_notes db)). snd p \<subseteq> label_ids db"
  proof
    fix p assume "p \<in> set (AList.update nid (insert i ls) (db_notes db))"
    then have "p = (nid, insert i ls) \<or> p \<in> set (db_notes db)"
      using set_update_subset [of nid "insert i ls" "db_notes db"] by blast
    with \<open>insert i ls \<subseteq> label_ids db\<close> assms(1) show "snd p \<subseteq> label_ids db"
      by (auto simp: wf_db_def)
  qed
  with Some assms(1) show ?thesis
    by (simp add: wf_db_def distinct_update label_ids_def apply_change.simps)
qed (use assms in \<open>simp add: apply_change.simps\<close>)

section \<open>Preservation by each call\<close>

lemma svc_inv_log_call [simp]: "svc_inv (log_call c s) = svc_inv s"
  by (simp add: svc_inv_def)

lemma keep_new_inv: "preserves svc_inv keep_new"
  by (rule preservesI) (simp add: keep_new_def svc_inv_def keep_init_def)

lemma keep_login_inv: "preserves svc_inv (keep_login email password)"
  by (rule preservesI) (auto simp: keep_login_def svc_inv_def pyst_simps Let_def)

lemma keep_get_inv: "preserves svc_inv (keep_get nid)"
  by (rule preservesI) (simp add: pyst_simps)

lemma keep_findLabel_inv: "preserves svc_inv (keep_findLabel name)"
  by (rule preservesI) (simp add: pyst_simps)

text \<open>A new label takes the next id, so both copies stay below the generator.\<close>

lemma svc_inv_new_label:
  assumes "svc_inv s" and "find_label (local_db (client s)) name = None"
  shows "svc_inv (record_change (NewLabel (next_id s) name) (s\<lparr>next_id := Suc (next_id s)\<rparr>))"
proof -
  have "wf_db (Suc (next_id s))
      (apply_change (local_db (client s)) (NewLabel (next_id s) name))"
    by (rule wf_db_new_label) (use assms in \<open>simp_all add: svc_inv_def find_label_None_iff\<close>)
  moreover from assms(1) have "wf_db (Suc (next_id s)) (remote s)"
    by (auto simp: svc_inv_def intro: wf_db_mono)
  ultimately show ?thesis using assms(1) by (simp add: svc_inv_def)
qed

lemma keep_createLabel_inv: "preserves svc_inv (keep_createLabel name)"
proof
  fix s :: "'x svc_scheme" assume inv: "svc_inv s"
  show "svc_inv (snd (keep_createLabel name s))"
  proof (cases "find_label (local_db (client s)) name")
    case None
    with inv show ?thesis
      using svc_inv_new_label [of "log_call (ApiCreateLabel name) s" name]
      by (simp add: keep_createLabel_fresh)
  qed (simp add: inv keep_createLabel_taken)
qed

lemma svc_inv_label_note:
  assumes "svc_inv s" and "i \<in> label_ids (local_db (client s))"
  shows "svc_inv (record_change (LabelNote nid i) s)"
proof -
  have "wf_db (next_id s) (apply_change (local_db (client s)) (LabelNote nid i))"
    by (rule wf_db_label_note) (use assms in \<open>simp_all add: svc_inv_def\<close>)
  then show ?thesis using assms(1) by (simp add: svc_inv_def)
qed

lemma note_labels_add_inv:
  "svc_inv s \<Longrightarrow> i \<in> label_ids (local_db (client s)) \<Longrightarrow>
   svc_inv (snd (note_labels_add nid i s))"
  by (simp add: pyst_simps svc_inv_label_note)

lemma keep_sync_inv: "preserves svc_inv keep_sync"
proof
  fix s :: "'x svc_scheme" assume inv: "svc_inv s"
  show "svc_inv (snd (keep_sync s))"
  proof (cases "online s \<and> session (client s) \<noteq> None")
    case True
    with inv show ?thesis by (auto simp: keep_sync_ok svc_inv_def)
  next
    case False
    with inv show ?thesis by (auto simp: keep_sync_fails)
  qed
qed

section \<open>The stored account grows\<close>

lemma grows_refl [simp]: "grows db db"
  by (auto simp: grows_def)

lemma grows_trans: "grows db1 db2 \<Longrightarrow> grows db2 db3 \<Longrightarrow> grows db1 db3"
  unfolding grows_def by (metis append.assoc order_trans)

lemma grows_apply_change: "grows db (apply_change db c)"
proof (cases c)
  case (LabelNote nid i)
  show ?thesis
  proof (cases "map_of (db_notes db) nid")
    case (Some ls0)
    then have "nid \<in> fst ` set (db_notes db)"
      by (auto dest: map_of_SomeD intro: rev_image_eqI)
    with Some LabelNote show ?thesis
      by (auto simp: grows_def apply_change.simps note_labels_def update_existing_keys
            update_conv')
  qed (simp add: LabelNote apply_change.simps)
qed (simp add: grows_def apply_change.simps note_labels_def)

lemma grows_apply_changes: "grows db (apply_changes db cs)"
proof (induction cs arbitrary: db)
  case (Cons c cs)
  then show ?case
    using grows_trans [OF grows_apply_change [of db c]] by simp
qed simp

end
