(* ===== verification/Login.thy ===== *)
theory Login
  imports Process Keep_Invariant
begin

text \<open>
  \<^verbatim>\<open>login()\<close> of \<^verbatim>\<open>src/google_keep_tags.py\<close> (lines 21--30): read
  \<^verbatim>\<open>KEEP_EMAIL\<close> and \<^verbatim>\<open>KEEP_PASSWORD\<close>, raise \<^verbatim>\<open>ValueError\<close> when either is
  unset or empty, create the client, log in, raise \<^verbatim>\<open>RuntimeError\<close> when the
  service rejects the credentials. The client object it returns is the process's one
  client (the \<open>client\<close> field), so the model returns unit. The theorems give each
  exit of the function: no credentials (nothing is called), credentials rejected,
  service unreachable, and success; \<open>login_preserves\<close> gives the collaborator's
  invariant after it, which the end-to-end proofs use.
\<close>

definition login :: "('x world_scheme, unit) pyst" where
  "login =
     bindE (os_getenv ''KEEP_EMAIL'') (\<lambda>email.
     bindE (os_getenv ''KEEP_PASSWORD'') (\<lambda>password.
     if \<not> py_truthy email \<or> \<not> py_truthy password
     then throw (ValueError ''KEEP_EMAIL and KEEP_PASSWORD must be set'')
     else
       bindE keep_new (\<lambda>_.
       bindE (keep_login (the email) (the password)) (\<lambda>success.
       if \<not> success then throw (RuntimeError ''Login to Google Keep failed'')
       else ret ()))))"

text \<open>Both variables set to non-empty strings.\<close>

definition creds_set :: "'x world_scheme \<Rightarrow> string \<Rightarrow> string \<Rightarrow> bool" where
  "creds_set w email password \<longleftrightarrow>
     environ w ''KEEP_EMAIL'' = Some email \<and> environ w ''KEEP_PASSWORD'' = Some password \<and>
     email \<noteq> [] \<and> password \<noteq> []"

text \<open>The state after the client is created and has sent its login request.\<close>

definition login_sent :: "string \<Rightarrow> 'x world_scheme \<Rightarrow> 'x world_scheme" where
  "login_sent email w = (log_call (ApiLogin email) ((log_call ApiNew w)\<lparr>client := keep_init\<rparr>))"

text \<open>The state after a successful login.\<close>

definition logged_in :: "string \<Rightarrow> 'x world_scheme \<Rightarrow> 'x world_scheme" where
  "logged_in email w =
     (login_sent email w)\<lparr>client := \<lparr>session = Some email, local_db = remote w, pending = []\<rparr>\<rparr>"

lemma login_creds_run:
  assumes "creds_set w email password"
  shows "login w = bindE (keep_login email password)
           (\<lambda>success. if \<not> success then throw (RuntimeError ''Login to Google Keep failed'')
                      else ret ()) ((log_call ApiNew w)\<lparr>client := keep_init\<rparr>)"
  using assms by (simp add: login_def creds_set_def keep_new_def pyst_simps)

lemma login_ok:
  assumes "creds_set w email password" and "online w"
    and "email = acct_email w" and "password = acct_password w"
  shows "login w = (Inr (), logged_in email w)"
  using assms
  by (simp add: login_creds_run keep_login_def pyst_simps Let_def logged_in_def login_sent_def)

lemma logged_in_simps [simp]:
  "client (logged_in email w) = \<lparr>session = Some email, local_db = remote w, pending = []\<rparr>"
  "remote (logged_in email w) = remote w" "online (logged_in email w) = online w"
  "next_id (logged_in email w) = next_id w"
  "calls (logged_in email w) = calls w @ [ApiNew, ApiLogin email]"
  "stdout (logged_in email w) = stdout w" "stderr (logged_in email w) = stderr w"
  "argv (logged_in email w) = argv w" "prog (logged_in email w) = prog w"
  by (simp_all add: logged_in_def login_sent_def)

text \<open>C3. When \<^verbatim>\<open>KEEP_EMAIL\<close> or \<^verbatim>\<open>KEEP_PASSWORD\<close> is unset or empty, \<^verbatim>\<open>login\<close> raises \<^verbatim>\<open>ValueError\<close> and changes nothing: no client is created and no call, in particular no network call, reaches the library.\<close>

theorem login_missing_credentials:
  assumes "\<not> py_truthy (environ w ''KEEP_EMAIL'') \<or> \<not> py_truthy (environ w ''KEEP_PASSWORD'')"
  shows "login w = (Inl (ValueError ''KEEP_EMAIL and KEEP_PASSWORD must be set''), w)"
  using assms by (simp add: login_def pyst_simps)

text \<open>C4. With both variables set, a reachable service that rejects the credentials makes \<^verbatim>\<open>login\<close> raise \<^verbatim>\<open>RuntimeError\<close> after exactly one login request, with no session opened and the stored account untouched.\<close>

theorem login_rejected:
  assumes "creds_set w email password" and "online w"
    and "email \<noteq> acct_email w \<or> password \<noteq> acct_password w"
  shows "\<exists>w'. login w = (Inl (RuntimeError ''Login to Google Keep failed''), w') \<and>
           calls w' = calls w @ [ApiNew, ApiLogin email] \<and>
           session (client w') = None \<and> remote w' = remote w"
  using assms
  by (auto simp: login_creds_run keep_login_def keep_init_def pyst_simps Let_def)

text \<open>C9. With both variables set to the account's credentials and the service reachable, \<^verbatim>\<open>login\<close> returns after one login request, with a session for that account and the client's copy equal to the stored account.\<close>

theorem login_success:
  assumes "creds_set w email password" and "online w"
    and "email = acct_email w" and "password = acct_password w"
  shows "\<exists>w'. login w = (Inr (), w') \<and>
           calls w' = calls w @ [ApiNew, ApiLogin email] \<and>
           client w' = \<lparr>session = Some email, local_db = remote w, pending = []\<rparr> \<and>
           remote w' = remote w \<and> online w' = online w"
  using login_ok [OF assms] by simp

text \<open>An unreachable service: the library's error propagates unchanged.\<close>

lemma login_unreachable:
  assumes "creds_set w email password" and "\<not> online w"
  shows "\<exists>w'. login w = (Inl (NetworkError ''login: service unreachable''), w') \<and>
           calls w' = calls w @ [ApiNew, ApiLogin email]"
  using assms by (simp add: login_creds_run keep_login_def pyst_simps Let_def)

lemma login_preserves: "preserves svc_inv login"
  unfolding login_def os_getenv_def
  by (intro preserves_bindE preserves_if preserves_gets preserves_ret preserves_throw
        keep_new_inv keep_login_inv)

end
