(* ===== verification/Add_Label.thy ===== *)
theory Add_Label
  imports Keep_Invariant
begin

text \<open>
  \<^verbatim>\<open>add_label(keep, note_id, label_name)\<close> of \<^verbatim>\<open>src/google_keep_tags.py\<close>
  (lines 33--41): look the note up, raise \<open>ValueError\<close> if it is absent, find the
  label by name or create it, add it to the note and synchronise. The client object
  \<^verbatim>\<open>keep\<close> is the one client of the process, the \<open>client\<close> field of the state,
  so it is not an argument of the model. The theory gives the run of the operation
  on each branch (\<open>add_label_missing\<close>, \<open>add_label_to_sync\<close>), with the
  changes it queues and the calls it makes written out by \<open>label_changes\<close> and
  \<open>add_label_calls\<close>; the contract of spec section 4.2 as the predicate
  \<open>label_applied\<close>, and the theorems that the operation meets it, keeps the
  collaborator's invariant, fails without side effects on a missing note, never
  duplicates a label, is idempotent, and what is left when the sync fails.
\<close>

definition add_label :: "note_id \<Rightarrow> string \<Rightarrow> ('x svc_scheme, unit) pyst" where
  "add_label note_id label_name =
     bindE (keep_get note_id) (\<lambda>note.
     case note of
       None \<Rightarrow> throw (ValueError (''Note '' @ note_id @ '' not found''))
     | Some note \<Rightarrow>
         bindE (bindE (keep_findLabel label_name) (\<lambda>label.
                case label of
                  None \<Rightarrow> keep_createLabel label_name
                | Some label \<Rightarrow> ret label)) (\<lambda>label.
         bindE (note_labels_add note label) (\<lambda>_.
         keep_sync)))"

section \<open>What one call queues and records\<close>

text \<open>The id the label resolves to: the existing one, or the next fresh id.\<close>

definition resolved_label :: "keep_db \<Rightarrow> nat \<Rightarrow> string \<Rightarrow> label_id" where
  "resolved_label db fresh name =
     (case find_label db name of Some i \<Rightarrow> i | None \<Rightarrow> fresh)"

definition label_changes :: "keep_db \<Rightarrow> nat \<Rightarrow> note_id \<Rightarrow> string \<Rightarrow> change list" where
  "label_changes db fresh nid name =
     (if find_label db name = None then [NewLabel fresh name] else [])
     @ [LabelNote nid (resolved_label db fresh name)]"

text \<open>The calls made before the sync.\<close>

definition add_label_calls :: "keep_db \<Rightarrow> nat \<Rightarrow> note_id \<Rightarrow> string \<Rightarrow> api_call list" where
  "add_label_calls db fresh nid name =
     [ApiGet nid, ApiFindLabel name]
     @ (if find_label db name = None then [ApiCreateLabel name] else [])
     @ [ApiAddLabel nid (resolved_label db fresh name)]"

text \<open>The state after the label is resolved and added, before the sync.\<close>

definition add_label_local :: "note_id \<Rightarrow> string \<Rightarrow> 'x svc_scheme \<Rightarrow> 'x svc_scheme" where
  "add_label_local nid name s =
     (let db = local_db (client s); cs = label_changes db (next_id s) nid name in
      s\<lparr>next_id := (if find_label db name = None then Suc (next_id s) else next_id s),
        calls := calls s @ add_label_calls db (next_id s) nid name,
        client := (client s)\<lparr>local_db := apply_changes db cs,
                              pending := pending (client s) @ cs\<rparr>\<rparr>)"

section \<open>The contract\<close>

text \<open>
  Spec section 4.2 between the account before and after: the note exists, a label
  with the name exists afterwards and is among the note's labels, the note's other
  labels and all other notes are unchanged, and the label list is unchanged when
  the name existed and grows by exactly that label otherwise.
\<close>

definition label_applied :: "keep_db \<Rightarrow> keep_db \<Rightarrow> note_id \<Rightarrow> string \<Rightarrow> bool" where
  "label_applied db db' nid name \<longleftrightarrow>
     (\<exists>i ls. note_labels db nid = Some ls \<and> find_label db' name = Some i \<and>
        note_labels db' nid = Some (insert i ls) \<and>
        (\<forall>k. k \<noteq> nid \<longrightarrow> note_labels db' k = note_labels db k) \<and>
        db_labels db' = db_labels db @ (if find_label db name = None then [(i, name)] else []))"

section \<open>Runs\<close>

lemma add_label_missing:
  assumes "note_labels (local_db (client s)) nid = None"
  shows "add_label nid name s =
           (Inl (ValueError (''Note '' @ nid @ '' not found'')), log_call (ApiGet nid) s)"
  using assms by (simp add: add_label_def pyst_simps)

lemma add_label_to_sync:
  assumes "note_labels (local_db (client s)) nid = Some ls"
  shows "add_label nid name s = keep_sync (add_label_local nid name s)"
  using assms
  by (cases "find_label (local_db (client s)) name")
     (simp_all add: add_label_def add_label_local_def label_changes_def
        add_label_calls_def resolved_label_def record_change_def log_call_def
        apply_changes_def note_labels_def pyst_simps Let_def)

section \<open>Meeting the contract\<close>

lemma label_changes_applied:
  assumes "note_labels db nid = Some ls"
  shows "label_applied db (apply_changes db (label_changes db n nid name)) nid name"
  using assms
  by (cases "find_label db name")
     (auto simp: label_applied_def label_changes_def resolved_label_def)

section \<open>Invariant\<close>

text \<open>Queueing changes that keep the client's copy well formed keeps the invariant.\<close>

lemma svc_inv_queue:
  assumes "svc_inv s" and "next_id s \<le> n"
    and "wf_db n (apply_changes (local_db (client s)) cs)"
  shows "svc_inv (s\<lparr>next_id := n, calls := cl,
                    client := (client s)\<lparr>local_db := apply_changes (local_db (client s)) cs,
                                          pending := pending (client s) @ cs\<rparr>\<rparr>)"
  using assms by (auto simp: svc_inv_def intro: wf_db_mono)

lemma wf_label_changes:
  assumes "wf_db n db"
  shows "wf_db (if find_label db name = None then Suc n else n)
           (apply_changes db (label_changes db n nid name))"
proof (cases "find_label db name")
  case None
  let ?db1 = "apply_change db (NewLabel n name)"
  have "wf_db (Suc n) ?db1"
    using assms None by (simp add: wf_db_new_label find_label_None_iff)
  moreover have "n \<in> label_ids ?db1" by (simp add: label_ids_def)
  ultimately have "wf_db (Suc n) (apply_change ?db1 (LabelNote nid n))"
    by (rule wf_db_label_note)
  with None show ?thesis by (simp add: label_changes_def resolved_label_def)
next
  case (Some i)
  then have "wf_db n (apply_change db (LabelNote nid i))"
    using assms by (simp add: wf_db_label_note find_label_Some_ids)
  with Some show ?thesis by (simp add: label_changes_def resolved_label_def)
qed

lemma add_label_local_inv: "svc_inv s \<Longrightarrow> svc_inv (add_label_local nid name s)"
  unfolding add_label_local_def Let_def
  by (rule svc_inv_queue) (simp_all add: svc_inv_def wf_label_changes)

lemma add_label_preserves: "preserves svc_inv (add_label nid name)"
proof
  fix s :: "'x svc_scheme" assume inv: "svc_inv s"
  show "svc_inv (snd (add_label nid name s))"
  proof (cases "note_labels (local_db (client s)) nid")
    case None
    with inv show ?thesis by (simp add: add_label_missing)
  next
    case (Some ls)
    from inv have "svc_inv (add_label_local nid name s)" by (rule add_label_local_inv)
    then show ?thesis by (simp add: add_label_to_sync [OF Some] preservesD [OF keep_sync_inv])
  qed
qed

section \<open>Behaviour on each branch\<close>

lemma add_label_local_simps [simp]:
  "online (add_label_local nid name s) = online s"
  "session (client (add_label_local nid name s)) = session (client s)"
  "remote (add_label_local nid name s) = remote s"
  by (simp_all add: add_label_local_def Let_def)

text \<open>The state reached when the note exists and the sync succeeds.\<close>

lemma add_label_synced:
  fixes name :: string
  assumes "svc_inv s" and "note_labels (local_db (client s)) nid = Some ls"
    and "online s" and "session (client s) \<noteq> None"
  defines "db \<equiv> local_db (client s)"
  defines "db' \<equiv> apply_changes db (label_changes db (next_id s) nid name)"
  shows "add_label nid name s =
           (Inr (), (log_call ApiSync (add_label_local nid name s))\<lparr>remote := db',
              client := (client (add_label_local nid name s))\<lparr>local_db := db', pending := []\<rparr>\<rparr>)"
proof -
  from assms(1,4) have "db = apply_changes (remote s) (pending (client s))"
    by (simp add: svc_inv_def db_def)
  then have "apply_changes (remote s) (pending (client (add_label_local nid name s))) = db'"
    by (simp add: add_label_local_def db_def db'_def Let_def)
  with assms(3,4) show ?thesis
    by (simp add: add_label_to_sync [OF assms(2)] keep_sync_ok)
qed

text \<open>C1. When the note exists and the service is reachable, \<^verbatim>\<open>add_label\<close> returns normally, the account stored by the service meets the contract of spec section 4.2 with respect to the account the client saw, and nothing is left pending.\<close>

theorem add_label_success:
  assumes "svc_inv s" and "note_labels (local_db (client s)) nid = Some ls"
    and "online s" and "session (client s) \<noteq> None"
  shows "\<exists>s'. add_label nid name s = (Inr (), s') \<and>
           label_applied (local_db (client s)) (remote s') nid name \<and>
           local_db (client s') = remote s' \<and> pending (client s') = []"
  using add_label_synced [OF assms] label_changes_applied [OF assms(2)] by simp

text \<open>C2. When the note does not exist, \<^verbatim>\<open>add_label\<close> raises \<^verbatim>\<open>ValueError(f"Note {note_id} not found")\<close> after the lookup alone: no label is created, nothing is synchronised, and neither the client nor the service changes.\<close>

theorem add_label_not_found:
  assumes "note_labels (local_db (client s)) nid = None"
  shows "\<exists>s'. add_label nid name s = (Inl (ValueError (''Note '' @ nid @ '' not found'')), s') \<and>
           calls s' = calls s @ [ApiGet nid] \<and> client s' = client s \<and>
           remote s' = remote s \<and> next_id s' = next_id s"
  using assms by (simp add: add_label_missing)

text \<open>Adding a label the note already has changes nothing.\<close>

lemma apply_change_LabelNote_present:
  assumes "note_labels db nid = Some ls" and "i \<in> ls"
  shows "apply_change db (LabelNote nid i) = db"
  using assms by (simp add: apply_change.simps note_labels_def insert_absorb update_triv)

text \<open>C7. When a label with the name already exists, \<^verbatim>\<open>add_label\<close> reuses it: no label is created, the account's label list is the one the client saw, and the calls are the lookup, the label lookup, the addition and the sync.\<close>

theorem add_label_existing_label:
  assumes "svc_inv s" and "note_labels (local_db (client s)) nid = Some ls"
    and "online s" and "session (client s) \<noteq> None"
    and "find_label (local_db (client s)) name = Some i"
  shows "\<exists>s'. add_label nid name s = (Inr (), s') \<and>
           db_labels (remote s') = db_labels (local_db (client s)) \<and>
           next_id s' = next_id s \<and>
           calls s' = calls s @ [ApiGet nid, ApiFindLabel name, ApiAddLabel nid i, ApiSync]"
  using add_label_synced [OF assms(1-4), of name] assms(5)
  by (simp add: add_label_local_def label_changes_def add_label_calls_def resolved_label_def)

text \<open>C8. Running \<^verbatim>\<open>add_label\<close> a second time with the same note and label, after a first run that succeeded, leaves the stored account as it was and creates nothing, but still calls the sync.\<close>

theorem add_label_twice:
  assumes "svc_inv s" and "note_labels (local_db (client s)) nid = Some ls"
    and "online s" and "session (client s) \<noteq> None"
    and run1: "add_label nid name s = (Inr (), s1)"
  shows "\<exists>s2 i. add_label nid name s1 = (Inr (), s2) \<and> remote s2 = remote s1 \<and>
           calls s2 = calls s1 @ [ApiGet nid, ApiFindLabel name, ApiAddLabel nid i, ApiSync]"
proof -
  let ?db = "local_db (client s)"
  let ?db' = "apply_changes ?db (label_changes ?db (next_id s) nid name)"
  have s1: "s1 = (log_call ApiSync (add_label_local nid name s))\<lparr>remote := ?db',
              client := (client (add_label_local nid name s))\<lparr>local_db := ?db', pending := []\<rparr>\<rparr>"
    using add_label_synced [OF assms(1-4), of name] run1 by simp
  have inv1: "svc_inv s1"
    using preservesD [OF add_label_preserves assms(1), of nid name] run1 by simp
  from label_changes_applied [OF assms(2), of "next_id s" name]
  obtain i where i: "find_label ?db' name = Some i"
    and nt: "note_labels ?db' nid = Some (insert i ls)"
    using assms(2) by (auto simp: label_applied_def)
  have loc: "local_db (client s1) = ?db'" and rem: "remote s1 = ?db'" by (simp_all add: s1)
  have on: "online s1" and ses: "session (client s1) \<noteq> None"
    using assms(3,4) by (simp_all add: s1)
  have note1: "note_labels (local_db (client s1)) nid = Some (insert i ls)"
    using nt loc by simp
  have "apply_change ?db' (LabelNote nid i) = ?db'"
    using nt by (rule apply_change_LabelNote_present) simp
  then show ?thesis
    using add_label_synced [OF inv1 note1 on ses, of name] i loc rem
    by (simp add: add_label_local_def label_changes_def add_label_calls_def resolved_label_def)
qed

text \<open>C10. When the service is unreachable at the sync, \<^verbatim>\<open>add_label\<close> raises the library's error after the label has been applied to the client's copy only: the stored account is unchanged and the change stays pending, the partial state spec section 4.2 says the program cannot detect.\<close>

theorem add_label_sync_failure:
  assumes "note_labels (local_db (client s)) nid = Some ls" and "\<not> online s"
  shows "\<exists>s'. add_label nid name s = (Inl (NetworkError ''sync failed''), s') \<and>
           remote s' = remote s \<and>
           label_applied (local_db (client s)) (local_db (client s')) nid name \<and>
           pending (client s') \<noteq> []"
  using assms label_changes_applied [OF assms(1), of "next_id s" name]
  by (simp add: add_label_to_sync [OF assms(1)] keep_sync_fails add_label_local_def
        Let_def label_changes_def)

end
