(* ===== verification/Cli.thy ===== *)
theory Cli
  imports Argparse Login Add_Label
begin

text \<open>
  The script as a program: \<^verbatim>\<open>main()\<close> (lines 44--52) parses the command line,
  logs in, adds the label and prints the confirmation; the module's last lines
  (55--56) call it, and the interpreter turns the outcome into an exit status:
  0 on return, the code of a \<^verbatim>\<open>SystemExit\<close> (argparse's 0 for help and 2 for a
  usage error), and 1 with a traceback on stderr for any other exception.
  \<open>parse_args\<close> lifts \<open>argparse\<close> to a statement on the process (help to stdout,
  usage and error message to stderr). The traceback is recorded as its first and
  last lines; the frames in between are not modelled.
\<close>

definition metavar :: "arg_spec \<Rightarrow> string" where
  "metavar sp = map (\<lambda>c. if c \<in> set ''abcdefghijklmnopqrstuvwxyz''
                        then char_of (of_char c - (32::nat)) else c) (opt_dest sp)"

definition usage_line :: "string \<Rightarrow> arg_spec list \<Rightarrow> string" where
  "usage_line p specs =
     ''usage: '' @ p @ '' [-h]'' @
     concat (map (\<lambda>sp. '' '' @ opt_flag sp @ '' '' @ metavar sp) specs)"

definition help_lines :: "string \<Rightarrow> string \<Rightarrow> arg_spec list \<Rightarrow> string list" where
  "help_lines p descr specs =
     [usage_line p specs, [], descr, [], ''options:'',
      ''  -h, --help  show this help message and exit'']
     @ map (\<lambda>sp. ''  '' @ opt_flag sp @ '' '' @ metavar sp @ ''  '' @ opt_help sp) specs"

text \<open>\<^verbatim>\<open>parser.parse_args()\<close> on \<^verbatim>\<open>sys.argv[1:]\<close>.\<close>

definition parse_args :: "string \<Rightarrow> arg_spec list \<Rightarrow> ('x world_scheme, namespace) pyst" where
  "parse_args descr specs w =
     (case argparse specs (argv w) of
        ParseHelp \<Rightarrow> (Inl (SystemExit 0), w\<lparr>stdout := stdout w @ help_lines (prog w) descr specs\<rparr>)
      | ParseError msg \<Rightarrow>
          (Inl (SystemExit 2),
           w\<lparr>stderr := stderr w @ [usage_line (prog w) specs, prog w @ '': error: '' @ msg]\<rparr>)
      | Parsed ns \<Rightarrow> (Inr ns, w))"

text \<open>\<^verbatim>\<open>args.note\<close>, \<^verbatim>\<open>args.label\<close>: the attribute of the namespace.\<close>

definition ns_attr :: "namespace \<Rightarrow> string \<Rightarrow> string" where
  "ns_attr ns dest = the (map_of ns dest)"

text \<open>\<^verbatim>\<open>f"Label '{args.label}' added to note {args.note}"\<close>.\<close>

definition label_added_msg :: "string \<Rightarrow> string \<Rightarrow> string" where
  "label_added_msg label note =
     ''Label '' @ [quote_char] @ label @ [quote_char] @ '' added to note '' @ note"

definition main :: "('x world_scheme, unit) pyst" where
  "main =
     bindE (parse_args keep_tags_description keep_tags_parser) (\<lambda>args.
     bindE login (\<lambda>_.
     bindE (add_label (ns_attr args ''note'') (ns_attr args ''label'')) (\<lambda>_.
     print_line (label_added_msg (ns_attr args ''label'') (ns_attr args ''note'')))))"

text \<open>The last line of the traceback the interpreter prints for an exception.\<close>

fun exc_report :: "exc \<Rightarrow> string" where
  "exc_report (ValueError m) = ''ValueError: '' @ m"
| "exc_report (RuntimeError m) = ''RuntimeError: '' @ m"
| "exc_report (LabelException m) = ''gkeepapi.exception.LabelException: '' @ m"
| "exc_report (NetworkError m) = ''gkeepapi.exception.APIException: '' @ m"
| "exc_report (SystemExit c) = []"

text \<open>\<^verbatim>\<open>if __name__ == "__main__": main()\<close>, run by the interpreter: exit status and final state.\<close>

definition run_script :: "'x world_scheme \<Rightarrow> int \<times> 'x world_scheme" where
  "run_script w =
     (case main w of
        (Inr _, w') \<Rightarrow> (0, w')
      | (Inl (SystemExit c), w') \<Rightarrow> (c, w')
      | (Inl e, w') \<Rightarrow>
          (1, w'\<lparr>stderr := stderr w' @ [''Traceback (most recent call last):'', exc_report e]\<rparr>))"

lemma parse_args_ok:
  "argparse specs (argv w) = Parsed ns \<Longrightarrow> parse_args d specs w = (Inr ns, w)"
  by (simp add: parse_args_def)

lemma parse_args_error:
  "argparse specs (argv w) = ParseError msg \<Longrightarrow>
   parse_args d specs w =
     (Inl (SystemExit 2),
      w\<lparr>stderr := stderr w @ [usage_line (prog w) specs, prog w @ '': error: '' @ msg]\<rparr>)"
  by (simp add: parse_args_def)

lemma parse_args_help:
  "argparse specs (argv w) = ParseHelp \<Longrightarrow>
   parse_args d specs w = (Inl (SystemExit 0), w\<lparr>stdout := stdout w @ help_lines (prog w) d specs\<rparr>)"
  by (simp add: parse_args_def)

lemma main_parsed:
  assumes "argparse keep_tags_parser (argv w) = Parsed ns"
    and "map_of ns ''note'' = Some nid" and "map_of ns ''label'' = Some name"
  shows "main w =
           bindE login (\<lambda>_. bindE (add_label nid name) (\<lambda>_.
             print_line (label_added_msg name nid))) w"
  using assms by (simp add: main_def parse_args_ok ns_attr_def)

lemma run_script_return: "main w = (Inr (), w') \<Longrightarrow> run_script w = (0, w')"
  by (simp add: run_script_def)

lemma run_script_exit: "main w = (Inl (SystemExit c), w') \<Longrightarrow> run_script w = (c, w')"
  by (simp add: run_script_def)

lemma run_script_raise:
  "main w = (Inl e, w') \<Longrightarrow> (\<And>c. e \<noteq> SystemExit c) \<Longrightarrow>
   run_script w =
     (1, w'\<lparr>stderr := stderr w' @ [''Traceback (most recent call last):'', exc_report e]\<rparr>)"
  by (cases e) (auto simp: run_script_def)

end
