(* ===== verification/Scenarios.thy ===== *)
theory Scenarios
  imports Cli
begin

text \<open>
  Concrete states for the scenarios of spec section 8, and the closed instances of
  the component theorems on them: each applies a theorem where its hypotheses hold,
  evaluating the definitions by \<open>simp\<close>. The account holds the notes
  \<^verbatim>\<open>abc123\<close> (labelled \<^verbatim>\<open>Work\<close>) and \<^verbatim>\<open>todo\<close> (no label); the label
  \<^verbatim>\<open>Urgent\<close> does not exist yet.
\<close>

definition acct_db :: keep_db where
  "acct_db = \<lparr>db_notes = [(''abc123'', {0}), (''todo'', {})], db_labels = [(0, ''Work'')]\<rparr>"

text \<open>A client logged in to the account, with nothing pending.\<close>

definition session_svc :: svc where
  "session_svc =
     \<lparr>acct_email = ''me@example.com'', acct_password = ''app-pass'', online = True,
      remote = acct_db,
      client = \<lparr>session = Some ''me@example.com'', local_db = acct_db, pending = []\<rparr>,
      next_id = 1, calls = []\<rparr>"

definition good_env :: "string \<rightharpoonup> string" where
  "good_env = [''KEEP_EMAIL'' \<mapsto> ''me@example.com'', ''KEEP_PASSWORD'' \<mapsto> ''app-pass'']"

text \<open>The process before \<^verbatim>\<open>main()\<close>: a command line and an environment.\<close>

definition keep_world :: "string list \<Rightarrow> (string \<rightharpoonup> string) \<Rightarrow> world" where
  "keep_world args env =
     \<lparr>acct_email = ''me@example.com'', acct_password = ''app-pass'', online = True,
      remote = acct_db, client = keep_init, next_id = 1, calls = [],
      environ = env, prog = ''google_keep_tags.py'', argv = args, stdout = [], stderr = []\<rparr>"

lemmas scenario_defs = acct_db_def session_svc_def good_env_def keep_world_def keep_init_def
  empty_db_def

lemmas inv_defs = svc_inv_def wf_db_def label_ids_def note_labels_def find_label_def

lemma session_svc_inv: "svc_inv session_svc"
  by (simp add: scenario_defs inv_defs)

lemma keep_world_inv: "svc_inv (keep_world args env)"
  by (simp add: scenario_defs inv_defs)

text \<open>Witness of C1.\<close>

theorem add_label_success_witness:
  "svc_inv session_svc \<and> note_labels (local_db (client session_svc)) ''todo'' = Some {} \<and>
   online session_svc \<and> session (client session_svc) \<noteq> None \<and>
   (\<exists>s'. add_label ''todo'' ''Urgent'' session_svc = (Inr (), s') \<and>
      label_applied (local_db (client session_svc)) (remote s') ''todo'' ''Urgent'' \<and>
      local_db (client s') = remote s' \<and> pending (client s') = [])"
proof -
  have h: "note_labels (local_db (client session_svc)) ''todo'' = Some {}"
    "online session_svc" "session (client session_svc) \<noteq> None"
    by (simp_all add: scenario_defs note_labels_def)
  show ?thesis using session_svc_inv h add_label_success [OF session_svc_inv h] by blast
qed

text \<open>Witness of C2.\<close>

theorem add_label_not_found_witness:
  "note_labels (local_db (client session_svc)) ''missing'' = None \<and>
   (\<exists>s'. add_label ''missing'' ''Urgent'' session_svc =
           (Inl (ValueError (''Note '' @ ''missing'' @ '' not found'')), s') \<and>
         calls s' = calls session_svc @ [ApiGet ''missing''] \<and>
         client s' = client session_svc \<and> remote s' = remote session_svc \<and>
         next_id s' = next_id session_svc)"
proof -
  have h: "note_labels (local_db (client session_svc)) ''missing'' = None"
    by (simp add: scenario_defs note_labels_def)
  show ?thesis using h add_label_not_found [OF h] by blast
qed

text \<open>Witness of C3: no environment at all.\<close>

theorem login_missing_credentials_witness:
  "environ (keep_world [] Map.empty) ''KEEP_EMAIL'' = None \<and>
   login (keep_world [] Map.empty) =
     (Inl (ValueError ''KEEP_EMAIL and KEEP_PASSWORD must be set''), keep_world [] Map.empty)"
proof -
  have h: "\<not> py_truthy (environ (keep_world [] Map.empty) ''KEEP_EMAIL'') \<or>
           \<not> py_truthy (environ (keep_world [] Map.empty) ''KEEP_PASSWORD'')"
    by (simp add: keep_world_def)
  show ?thesis using login_missing_credentials [OF h] by (simp add: keep_world_def)
qed

text \<open>Witness of C4: the right address with a wrong password.\<close>

theorem login_rejected_witness:
  "creds_set (keep_world [] (good_env(''KEEP_PASSWORD'' \<mapsto> ''wrong''))) ''me@example.com'' ''wrong'' \<and>
   online (keep_world [] (good_env(''KEEP_PASSWORD'' \<mapsto> ''wrong''))) \<and>
   acct_password (keep_world [] (good_env(''KEEP_PASSWORD'' \<mapsto> ''wrong''))) = ''app-pass'' \<and>
   (\<exists>w'. login (keep_world [] (good_env(''KEEP_PASSWORD'' \<mapsto> ''wrong''))) =
           (Inl (RuntimeError ''Login to Google Keep failed''), w') \<and>
         calls w' = calls (keep_world [] (good_env(''KEEP_PASSWORD'' \<mapsto> ''wrong''))) @
                    [ApiNew, ApiLogin ''me@example.com''] \<and>
         session (client w') = None \<and>
         remote w' = remote (keep_world [] (good_env(''KEEP_PASSWORD'' \<mapsto> ''wrong''))))"
proof -
  let ?w = "keep_world [] (good_env(''KEEP_PASSWORD'' \<mapsto> ''wrong''))"
  have h: "creds_set ?w ''me@example.com'' ''wrong''" "online ?w"
    "''me@example.com'' \<noteq> acct_email ?w \<or> ''wrong'' \<noteq> acct_password ?w"
    by (simp_all add: scenario_defs creds_set_def)
  show ?thesis using h login_rejected [OF h] by (simp add: keep_world_def)
qed

text \<open>Witness of C7: the label \<^verbatim>\<open>Work\<close> exists with id 0.\<close>

theorem add_label_existing_label_witness:
  "svc_inv session_svc \<and> note_labels (local_db (client session_svc)) ''todo'' = Some {} \<and>
   online session_svc \<and> session (client session_svc) \<noteq> None \<and>
   find_label (local_db (client session_svc)) ''Work'' = Some 0 \<and>
   (\<exists>s'. add_label ''todo'' ''Work'' session_svc = (Inr (), s') \<and>
      db_labels (remote s') = db_labels (local_db (client session_svc)) \<and>
      next_id s' = next_id session_svc \<and>
      calls s' = calls session_svc @
        [ApiGet ''todo'', ApiFindLabel ''Work'', ApiAddLabel ''todo'' 0, ApiSync])"
proof -
  have h: "note_labels (local_db (client session_svc)) ''todo'' = Some {}"
    "online session_svc" "session (client session_svc) \<noteq> None"
    "find_label (local_db (client session_svc)) ''Work'' = Some 0"
    by (simp_all add: scenario_defs note_labels_def find_label_def)
  show ?thesis using session_svc_inv h add_label_existing_label [OF session_svc_inv h] by blast
qed

text \<open>Witness of C8: \<^verbatim>\<open>Urgent\<close> added to \<^verbatim>\<open>todo\<close> twice.\<close>

theorem add_label_twice_witness:
  "svc_inv session_svc \<and> note_labels (local_db (client session_svc)) ''todo'' = Some {} \<and>
   online session_svc \<and> session (client session_svc) \<noteq> None \<and>
   add_label ''todo'' ''Urgent'' session_svc =
     (Inr (), snd (add_label ''todo'' ''Urgent'' session_svc)) \<and>
   (\<exists>s2 i. add_label ''todo'' ''Urgent'' (snd (add_label ''todo'' ''Urgent'' session_svc)) =
             (Inr (), s2) \<and>
           remote s2 = remote (snd (add_label ''todo'' ''Urgent'' session_svc)) \<and>
           calls s2 = calls (snd (add_label ''todo'' ''Urgent'' session_svc)) @
             [ApiGet ''todo'', ApiFindLabel ''Urgent'', ApiAddLabel ''todo'' i, ApiSync])"
proof -
  have h: "note_labels (local_db (client session_svc)) ''todo'' = Some {}"
    "online session_svc" "session (client session_svc) \<noteq> None"
    "add_label ''todo'' ''Urgent'' session_svc =
       (Inr (), snd (add_label ''todo'' ''Urgent'' session_svc))"
    by (simp_all add: scenario_defs note_labels_def)
      (simp add: add_label_def pyst_simps note_labels_def find_label_def keep_sync_ok)
  show ?thesis using session_svc_inv h add_label_twice [OF session_svc_inv h] by blast
qed

text \<open>Witness of C9.\<close>

theorem login_success_witness:
  "creds_set (keep_world [] good_env) ''me@example.com'' ''app-pass'' \<and>
   online (keep_world [] good_env) \<and>
   ''me@example.com'' = acct_email (keep_world [] good_env) \<and>
   ''app-pass'' = acct_password (keep_world [] good_env) \<and>
   (\<exists>w'. login (keep_world [] good_env) = (Inr (), w') \<and>
      calls w' = calls (keep_world [] good_env) @ [ApiNew, ApiLogin ''me@example.com''] \<and>
      client w' = \<lparr>session = Some ''me@example.com'', local_db = remote (keep_world [] good_env),
                    pending = []\<rparr> \<and>
      remote w' = remote (keep_world [] good_env) \<and>
      online w' = online (keep_world [] good_env))"
proof -
  have h: "creds_set (keep_world [] good_env) ''me@example.com'' ''app-pass''"
    "online (keep_world [] good_env)" "''me@example.com'' = acct_email (keep_world [] good_env)"
    "''app-pass'' = acct_password (keep_world [] good_env)"
    by (simp_all add: scenario_defs creds_set_def)
  show ?thesis using h login_success [OF h] by blast
qed

text \<open>Witness of C10: the same client, with the service unreachable.\<close>

theorem add_label_sync_failure_witness:
  "note_labels (local_db (client (session_svc\<lparr>online := False\<rparr>))) ''todo'' = Some {} \<and>
   \<not> online (session_svc\<lparr>online := False\<rparr>) \<and>
   (\<exists>s'. add_label ''todo'' ''Urgent'' (session_svc\<lparr>online := False\<rparr>) =
           (Inl (NetworkError ''sync failed''), s') \<and>
         remote s' = remote (session_svc\<lparr>online := False\<rparr>) \<and>
         label_applied (local_db (client (session_svc\<lparr>online := False\<rparr>)))
           (local_db (client s')) ''todo'' ''Urgent'' \<and>
         pending (client s') \<noteq> [])"
proof -
  have h: "note_labels (local_db (client (session_svc\<lparr>online := False\<rparr>))) ''todo'' = Some {}"
    "\<not> online (session_svc\<lparr>online := False\<rparr>)"
    by (simp_all add: scenario_defs note_labels_def)
  show ?thesis using h add_label_sync_failure [OF h] by blast
qed

text \<open>Witness of C16: \<^verbatim>\<open>--no abc123 --lab Urgent\<close>.\<close>

theorem argparse_space_roundtrip_witness:
  "argparse keep_tags_parser [''--no'', ''abc123'', ''--lab'', ''Urgent''] =
     Parsed [(''note'', ''abc123''), (''label'', ''Urgent'')]"
  using argparse_space_roundtrip [of 4 5 "''abc123''" "''Urgent''"] by (simp add: classify_def)

text \<open>Witness of C17: the namespace of \<^verbatim>\<open>--label Work --note=todo\<close>.\<close>

theorem argparse_parsed_attrs_witness:
  "argparse keep_tags_parser [''--label'', ''Work'', ''--note=todo''] =
     Parsed [(''label'', ''Work''), (''note'', ''todo'')] \<and>
   dom (map_of [(''label'', ''Work''), (''note'', ''todo'')]) = {''note'', ''label''}"
proof -
  have h: "argparse keep_tags_parser [''--label'', ''Work'', ''--note=todo''] =
             Parsed [(''label'', ''Work''), (''note'', ''todo'')]"
    by (simp add: argparse_def keep_tags_parser_def classify_def split_eq_def resolve_long_def
          long_kind_def finish_def)
  show ?thesis using h argparse_parsed_attrs [OF h] by simp
qed

text \<open>Witness of C24: the value \<^verbatim>\<open>abc123\<close>.\<close>

theorem argparse_missing_options_witness:
  "classify keep_tags_parser ''abc123'' = TArg \<and>
   argparse keep_tags_parser [''--note'', ''abc123''] =
     ParseError ''the following arguments are required: --label''"
proof -
  have h: "classify keep_tags_parser ''abc123'' = TArg" by (simp add: classify_def)
  show ?thesis using h argparse_missing_options [OF h] by simp
qed

end
