(* ===== verification/Outcomes.thy ===== *)
theory Outcomes
  imports Cli "HOL-Library.Sublist"
begin

text \<open>
  Observable outcomes of a whole run of the script:
  \<^item> which exceptions each statement can raise (\<open>raises_only\<close>): the library and
    the script's own functions never raise \<^verbatim>\<open>SystemExit\<close>, and after a parsed
    command line only the five errors of \<open>script_error\<close> can end a run (C19);
  \<^item> the order of the calls the script makes to the library: on every run they are a
    prefix of \<open>script_calls\<close>, the constructor, the login, the note lookup, the
    label lookup, the label creation if the name is new, the addition and the sync,
    so that a run stops calling at its first error (C14);
  \<^item> the run with a missing credential, end to end (C15);
  \<^item> the output streams (\<open>keeps_output\<close>: the library, \<open>login\<close> and
    \<open>add_label\<close> write nothing), so that after a parsed command line the
    confirmation is printed exactly when the status is 0 (C18).
\<close>

fun not_exit :: "exc \<Rightarrow> bool" where
  "not_exit (SystemExit _) = False"
| "not_exit _ = True"

text \<open>
  The exceptions that can end a run whose command line parsed: the missing
  credentials, the unreachable service at login, the rejected login, the missing note,
  the failed sync.
\<close>

definition script_error :: "note_id \<Rightarrow> exc \<Rightarrow> bool" where
  "script_error nid e \<longleftrightarrow>
     e = ValueError ''KEEP_EMAIL and KEEP_PASSWORD must be set'' \<or>
     e = NetworkError ''login: service unreachable'' \<or>
     e = RuntimeError ''Login to Google Keep failed'' \<or>
     e = ValueError (''Note '' @ nid @ '' not found'') \<or>
     e = NetworkError ''sync failed''"

text \<open>The calls of a complete run, for the account the login loads.\<close>

definition script_calls :: "string \<Rightarrow> keep_db \<Rightarrow> nat \<Rightarrow> note_id \<Rightarrow> string \<Rightarrow> api_call list" where
  "script_calls email db fresh nid name =
     [ApiNew, ApiLogin email] @ add_label_calls db fresh nid name @ [ApiSync]"

text \<open>A statement that writes nothing to stdout or stderr.\<close>

definition keeps_output :: "('x world_scheme, 'a) pyst \<Rightarrow> bool" where
  "keeps_output m \<longleftrightarrow> (\<forall>w. stdout (snd (m w)) = stdout w \<and> stderr (snd (m w)) = stderr w)"

section \<open>Exceptions\<close>

lemma raises_only_mono: "raises_only P m \<Longrightarrow> (\<And>e. P e \<Longrightarrow> Q e) \<Longrightarrow> raises_only Q m"
  by (auto simp: raises_only_def)

lemma keep_sync_raises: "raises_only (\<lambda>e. e = NetworkError ''sync failed'') keep_sync"
  by (auto simp: raises_only_def keep_sync_def pyst_simps Let_def split: if_splits)

lemma login_raises: "raises_only (script_error nid) login"
proof -
  have "raises_only (script_error nid) (keep_login em p)" for em p
    by (auto simp: raises_only_def keep_login_def pyst_simps Let_def script_error_def
          split: if_splits)
  moreover have "raises_only (script_error nid) keep_new"
    by (simp add: raises_only_def keep_new_def)
  ultimately show ?thesis
    unfolding login_def os_getenv_def
    by (intro raises_only_bindE raises_only_if raises_only_gets raises_only_ret)
       (simp_all add: script_error_def)
qed

lemma login_not_exit: "raises_only not_exit login"
  by (rule raises_only_mono [OF login_raises]) (auto simp: script_error_def)

lemma keep_ops_not_exit:
  "raises_only not_exit (keep_get nid)" "raises_only not_exit (keep_findLabel n)"
  "raises_only not_exit (keep_createLabel n)" "raises_only not_exit (note_labels_add nid i)"
  "raises_only not_exit keep_sync"
  by (auto simp: raises_only_def keep_ops pyst_simps Let_def split: if_splits)

lemma add_label_not_exit: "raises_only not_exit (add_label nid name)"
  unfolding add_label_def
  by (intro raises_only_bindE raises_only_case_option raises_only_ret keep_ops_not_exit) simp

text \<open>C19. Once the command line parses, a run that exits with status 1 has raised one of the five errors of \<open>script_error\<close>: missing credentials, unreachable service, rejected login, missing note, failed sync (spec section 7). Its traceback ends with that exception. In particular, creating the label never raises, because \<^verbatim>\<open>createLabel\<close> is called only after \<^verbatim>\<open>findLabel\<close> found no label of that name.\<close>

theorem run_script_error_kinds:
  assumes "argparse keep_tags_parser (argv w) = Parsed ns"
    and "map_of ns ''note'' = Some nid" and "map_of ns ''label'' = Some name"
    and "run_script w = (1, w')"
  shows "\<exists>e w''. script_error nid e \<and> main w = (Inl e, w'') \<and>
           w' = w''\<lparr>stderr := stderr w'' @ [''Traceback (most recent call last):'', exc_report e]\<rparr>"
proof -
  let ?m = "bindE login (\<lambda>_.
             bindE (add_label nid name) (\<lambda>_. print_line (label_added_msg name nid)))"
  have "raises_only (script_error nid) (add_label nid name)"
  proof
    fix s e s'
    assume r: "add_label nid name s = (Inl e, s')"
    show "script_error nid e"
    proof (cases "note_labels (local_db (client s)) nid")
      case None
      with r show ?thesis by (simp add: add_label_missing script_error_def)
    next
      case (Some ls)
      with r have "keep_sync (add_label_local nid name s) = (Inl e, s')"
        by (simp add: add_label_to_sync)
      then show ?thesis using raises_onlyD [OF keep_sync_raises] by (auto simp: script_error_def)
    qed
  qed
  then have ro: "raises_only (script_error nid) ?m"
    using login_raises by (intro raises_only_bindE) (simp_all add: print_line_def)
  have main: "main w = ?m w" by (rule main_parsed [OF assms(1-3)])
  obtain r w'' where mw: "main w = (r, w'')" by (cases "main w")
  show ?thesis
  proof (cases r)
    case (Inl e)
    with main mw have "script_error nid e" using raises_onlyD [OF ro] by metis
    moreover from this have "run_script w =
        (1, w''\<lparr>stderr := stderr w'' @ [''Traceback (most recent call last):'', exc_report e]\<rparr>)"
      using mw Inl by (intro run_script_raise) (auto simp: script_error_def)
    ultimately show ?thesis using assms(4) mw Inl by auto
  next
    case (Inr a)
    with mw assms(4) show ?thesis by (simp add: run_script_def)
  qed
qed

section \<open>The exits of login\<close>

lemma login_no_creds:
  "\<not> py_truthy (environ w ''KEEP_EMAIL'') \<or> \<not> py_truthy (environ w ''KEEP_PASSWORD'') \<Longrightarrow>
   login w = (Inl (ValueError ''KEEP_EMAIL and KEEP_PASSWORD must be set''), w)"
  by (auto simp: login_def pyst_simps)

lemma login_fails_creds:
  assumes "creds_set w email password"
    and "\<not> (online w \<and> email = acct_email w \<and> password = acct_password w)"
  shows "\<exists>e w'. login w = (Inl e, w') \<and> calls w' = calls w @ [ApiNew, ApiLogin email]"
  using assms(2)
  by (auto simp: login_creds_run [OF assms(1)] keep_login_def bindE_def pyst_simps Let_def)

section \<open>Order of the calls\<close>

lemma calls_bindE_frame:
  assumes "\<And>a s. calls (snd (f a s)) = calls s"
  shows "calls (snd (bindE m f s)) = calls (snd (m s))"
  using assms by (cases rule: bindE_cases [of m s f]) auto

lemma calls_bindE_cong:
  assumes "\<And>a s. calls (snd (f a s)) = calls (snd (g a s))"
  shows "calls (snd (bindE m f s)) = calls (snd (bindE m g s))"
  using assms by (cases rule: bindE_cases [of m s f]) (auto simp: bindE_def)

lemma keep_sync_calls: "calls (snd (keep_sync s)) = calls s @ [ApiSync]"
  by (simp add: keep_sync_def pyst_simps Let_def)

lemma add_label_local_calls [simp]:
  "calls (add_label_local nid name s) =
     calls s @ add_label_calls (local_db (client s)) (next_id s) nid name"
  by (simp add: add_label_local_def Let_def)

lemma run_script_calls: "calls (snd (run_script w)) = calls (snd (main w))"
  by (simp add: run_script_def split: prod.splits sum.splits exc.splits)

lemma main_calls:
  assumes "argparse keep_tags_parser (argv w) = Parsed ns"
    and "map_of ns ''note'' = Some nid" and "map_of ns ''label'' = Some name"
  shows "calls (snd (main w)) = calls (snd (bindE login (\<lambda>_. add_label nid name) w))"
  unfolding main_parsed [OF assms]
  by (intro calls_bindE_cong calls_bindE_frame) (simp add: print_line_def pyst_simps)

text \<open>C14. Whenever the command line parses and \<^verbatim>\<open>KEEP_EMAIL\<close> is set, the calls a run of the script makes to the library are a prefix of the complete sequence: constructor, login, note lookup, label lookup, label creation when the name is new, addition, sync. Every run stops calling at its first error, and nothing is called out of this order.\<close>

theorem run_script_call_order:
  assumes "argparse keep_tags_parser (argv w) = Parsed ns"
    and "map_of ns ''note'' = Some nid" and "map_of ns ''label'' = Some name"
    and "environ w ''KEEP_EMAIL'' = Some email"
  shows "\<exists>t. calls (snd (run_script w)) = calls w @ t \<and>
             prefix t (script_calls email (remote w) (next_id w) nid name)"
proof -
  let ?full = "script_calls email (remote w) (next_id w) nid name"
  have main: "calls (snd (run_script w)) = calls (snd (bindE login (\<lambda>_. add_label nid name) w))"
    by (simp add: run_script_calls main_calls [OF assms(1-3)])
  show ?thesis
  proof (cases "py_truthy (environ w ''KEEP_EMAIL'') \<and> py_truthy (environ w ''KEEP_PASSWORD'')")
    case False
    with main show ?thesis by (intro exI [of _ "[]"]) (simp add: login_no_creds)
  next
    case True
    then obtain password where cs: "creds_set w email password"
      using assms(4) by (cases "environ w ''KEEP_PASSWORD''") (auto simp: creds_set_def)
    show ?thesis
    proof (cases "online w \<and> email = acct_email w \<and> password = acct_password w")
      case False
      then obtain e w' where "login w = (Inl e, w')" "calls w' = calls w @ [ApiNew, ApiLogin email]"
        using login_fails_creds [OF cs] by blast
      with main show ?thesis
        by (intro exI [of _ "[ApiNew, ApiLogin email]"]) (simp add: script_calls_def)
    next
      case True
      let ?w1 = "logged_in email w"
      have login: "login w = (Inr (), ?w1)" using True login_ok [OF cs] by blast
      show ?thesis
      proof (cases "note_labels (remote w) nid")
        case None
        then have "note_labels (local_db (client ?w1)) nid = None" by simp
        with main login show ?thesis
          by (intro exI [of _ "[ApiNew, ApiLogin email, ApiGet nid]"])
             (simp add: add_label_missing script_calls_def add_label_calls_def)
      next
        case (Some ls)
        then have "note_labels (local_db (client ?w1)) nid = Some ls" by simp
        with main login show ?thesis
          by (intro exI [of _ ?full])
             (simp add: add_label_to_sync keep_sync_calls script_calls_def)
      qed
    qed
  qed
qed

section \<open>Missing credentials, end to end\<close>

text \<open>C15. When the command line parses but \<^verbatim>\<open>KEEP_EMAIL\<close> or \<^verbatim>\<open>KEEP_PASSWORD\<close> is unset or empty, the script exits with status 1 and a \<^verbatim>\<open>ValueError\<close> traceback, and the process is otherwise unchanged: no client, no call to the library, nothing on stdout (spec section 8: session establishment fails before any network call).\<close>

theorem main_missing_credentials:
  assumes "argparse keep_tags_parser (argv w) = Parsed ns"
    and "\<not> py_truthy (environ w ''KEEP_EMAIL'') \<or> \<not> py_truthy (environ w ''KEEP_PASSWORD'')"
  shows "run_script w =
           (1, w\<lparr>stderr := stderr w @ [''Traceback (most recent call last):'',
                                       ''ValueError: KEEP_EMAIL and KEEP_PASSWORD must be set'']\<rparr>)"
proof -
  have "login w = (Inl (ValueError ''KEEP_EMAIL and KEEP_PASSWORD must be set''), w)"
    using assms(2) by (auto simp: login_def pyst_simps)
  then show ?thesis
    by (simp add: run_script_def main_def parse_args_ok [OF assms(1)])
qed

section \<open>Output streams\<close>

lemma keeps_outputI: "(\<And>w. stdout (snd (m w)) = stdout w \<and> stderr (snd (m w)) = stderr w) \<Longrightarrow> keeps_output m"
  by (simp add: keeps_output_def)

lemma keeps_outputD:
  "keeps_output m \<Longrightarrow> m w = (r, w') \<Longrightarrow> stdout w' = stdout w \<and> stderr w' = stderr w"
  unfolding keeps_output_def by (metis snd_conv)

lemma keeps_output_bindE [intro]:
  assumes "keeps_output m" and "\<And>a. keeps_output (f a)"
  shows "keeps_output (bindE m f)"
proof (rule keeps_outputI)
  fix w
  show "stdout (snd (bindE m f w)) = stdout w \<and> stderr (snd (bindE m f w)) = stderr w"
  proof (cases rule: bindE_cases [of m w f])
    case (1 e w')
    with keeps_outputD [OF assms(1)] show ?thesis by simp
  next
    case (2 a w')
    with keeps_outputD [OF assms(1)] keeps_outputD [OF assms(2)] show ?thesis
      by (cases "f a w'") fastforce
  qed
qed

lemma keeps_output_if [intro]: "keeps_output m1 \<Longrightarrow> keeps_output m2 \<Longrightarrow> keeps_output (if b then m1 else m2)"
  by simp

lemma keeps_output_case_option [intro]:
  "keeps_output m1 \<Longrightarrow> (\<And>a. keeps_output (m2 a)) \<Longrightarrow> keeps_output (case x of None \<Rightarrow> m1 | Some a \<Rightarrow> m2 a)"
  by (simp split: option.splits)

lemma keeps_output_basic [simp]:
  "keeps_output (ret a)" "keeps_output (throw e)" "keeps_output (os_getenv k)"
  "keeps_output keep_new" "keeps_output (keep_login em p)"
  "keeps_output (keep_get nid)" "keeps_output (keep_findLabel n)"
  "keeps_output (keep_createLabel n)" "keeps_output (note_labels_add nid i)"
  "keeps_output keep_sync"
  by (auto simp: keeps_output_def keep_ops pyst_simps Let_def record_change_def log_call_def)

lemma login_keeps_output: "keeps_output login"
  unfolding login_def by (intro keeps_output_bindE keeps_output_if keeps_output_basic)

lemma add_label_keeps_output: "keeps_output (add_label nid name)"
  unfolding add_label_def
  by (intro keeps_output_bindE keeps_output_case_option keeps_output_basic)

text \<open>C18. Once the command line parses, the script exits with status 0 or 1, and it prints exactly one line on stdout, the confirmation \<^verbatim>\<open>Label '<name>' added to note <id>\<close>, when and only when it exits with status 0: no failure of the login, the lookup or the sync is reported as a success.\<close>

theorem run_script_output:
  assumes "argparse keep_tags_parser (argv w) = Parsed ns"
    and "map_of ns ''note'' = Some nid" and "map_of ns ''label'' = Some name"
  shows "fst (run_script w) \<in> {0, 1} \<and>
         stdout (snd (run_script w)) =
           stdout w @ (if fst (run_script w) = 0 then [label_added_msg name nid] else [])"
proof -
  let ?m = "bindE login (\<lambda>_. add_label nid name)"
  have ko: "keeps_output ?m" using login_keeps_output add_label_keeps_output by blast
  have ne: "raises_only not_exit ?m" using login_not_exit add_label_not_exit by blast
  have main: "main w = bindE ?m (\<lambda>_. print_line (label_added_msg name nid)) w"
    by (simp add: main_parsed [OF assms] bindE_assoc)
  show ?thesis
  proof (cases rule: bindE_cases [of ?m w "\<lambda>_. print_line (label_added_msg name nid)"])
    case (1 e w')
    have "not_exit e" using raises_onlyD [OF ne 1(1)] .
    moreover have "stdout w' = stdout w" using keeps_outputD [OF ko 1(1)] by simp
    ultimately show ?thesis using 1(2) main by (cases e) (simp_all add: run_script_def)
  next
    case (2 a w')
    have "stdout w' = stdout w" using keeps_outputD [OF ko 2(1)] by simp
    then show ?thesis using 2(2) main by (simp add: run_script_def pyst_simps)
  qed
qed

end
