(* ===== verification/Refinement.thy ===== *)
theory Refinement
  imports Outcomes
begin

text \<open>
  An abstract specification of the whole script and the theorem that the code
  implements it. The specification is a decision table in the terms of the spec
  (sections 4.1, 4.2, 6 and 7), \<open>spec_outcome\<close>: the command line is rejected
  (usage error) or asks for help; else the credentials are missing, the service is
  unreachable, the login is rejected, the note is missing, or the label is applied.
  Each outcome fixes the exit status (\<open>outcome_status\<close>), what is printed on
  stdout (\<open>spec_stdout\<close>), the stored account afterwards
  (\<open>spec_account\<close>) and the calls made to the library (\<open>spec_calls\<close>). On success the account is updated directly by
  \<open>abs_apply_label\<close>: the label of that name, or a new one with the next id
  appended to the label list, is inserted in the note's label set.

  \<open>run_script_refines\<close> (C20) states that a run of the script, with its
  exception propagation, its change queue and its sync, yields exactly these four
  observations in every process state. It holds with no hypothesis: the invariant is
  not needed because the login reloads the client's copy from the service.
\<close>

datatype outcome =
    OutUsage
  | OutHelp
  | OutConfig
  | OutUnreachable
  | OutRejected
  | OutNoteMissing note_id
  | OutDone note_id string

text \<open>The exit status the spec assigns to each outcome.\<close>

fun outcome_status :: "outcome \<Rightarrow> int" where
  "outcome_status OutUsage = 2"
| "outcome_status OutHelp = 0"
| "outcome_status (OutDone _ _) = 0"
| "outcome_status _ = 1"

text \<open>Spec section 4.2 applied directly to the stored account.\<close>

definition abs_apply_label :: "keep_db \<Rightarrow> nat \<Rightarrow> note_id \<Rightarrow> string \<Rightarrow> keep_db" where
  "abs_apply_label db fresh nid name =
     (case find_label db name of
        Some i \<Rightarrow> db\<lparr>db_notes := AList.update nid (insert i (the (note_labels db nid))) (db_notes db)\<rparr>
      | None \<Rightarrow> db\<lparr>db_notes := AList.update nid (insert fresh (the (note_labels db nid))) (db_notes db),
                  db_labels := db_labels db @ [(fresh, name)]\<rparr>)"

definition spec_outcome :: "'x world_scheme \<Rightarrow> outcome" where
  "spec_outcome w =
     (case argparse keep_tags_parser (argv w) of
        ParseError _ \<Rightarrow> OutUsage
      | ParseHelp \<Rightarrow> OutHelp
      | Parsed ns \<Rightarrow>
          (let email = environ w ''KEEP_EMAIL''; password = environ w ''KEEP_PASSWORD'';
               nid = ns_attr ns ''note''; name = ns_attr ns ''label'' in
           if \<not> py_truthy email \<or> \<not> py_truthy password then OutConfig
           else if \<not> online w then OutUnreachable
           else if the email \<noteq> acct_email w \<or> the password \<noteq> acct_password w then OutRejected
           else if note_labels (remote w) nid = None then OutNoteMissing nid
           else OutDone nid name))"

definition spec_stdout :: "'x world_scheme \<Rightarrow> string list" where
  "spec_stdout w =
     (case spec_outcome w of
        OutHelp \<Rightarrow> help_lines (prog w) keep_tags_description keep_tags_parser
      | OutDone nid name \<Rightarrow> [label_added_msg name nid]
      | _ \<Rightarrow> [])"

text \<open>
  The calls each outcome makes, by the contract of spec section 6: none before the
  credentials are checked, then the client and the login, then the note lookup,
  then the label lookup, creation, addition and sync.
\<close>

definition spec_calls :: "'x world_scheme \<Rightarrow> api_call list" where
  "spec_calls w =
     (case spec_outcome w of
        OutUnreachable \<Rightarrow> [ApiNew, ApiLogin (the (environ w ''KEEP_EMAIL''))]
      | OutRejected \<Rightarrow> [ApiNew, ApiLogin (the (environ w ''KEEP_EMAIL''))]
      | OutNoteMissing nid \<Rightarrow> [ApiNew, ApiLogin (acct_email w), ApiGet nid]
      | OutDone nid name \<Rightarrow> script_calls (acct_email w) (remote w) (next_id w) nid name
      | _ \<Rightarrow> [])"

definition spec_account :: "'x world_scheme \<Rightarrow> keep_db" where
  "spec_account w =
     (case spec_outcome w of
        OutDone nid name \<Rightarrow> abs_apply_label (remote w) (next_id w) nid name
      | _ \<Rightarrow> remote w)"

section \<open>Refinement\<close>

text \<open>The queued changes, once synchronised, are the direct update.\<close>

lemma label_changes_abs:
  assumes "note_labels db nid = Some ls"
  shows "apply_changes db (label_changes db fresh nid name) = abs_apply_label db fresh nid name"
  using assms
  by (cases "find_label db name")
     (simp_all add: label_changes_def resolved_label_def abs_apply_label_def apply_change.simps
        note_labels_def)

lemma login_keeps_remote: "preserves (\<lambda>s. remote s = r) login"
  unfolding login_def os_getenv_def
  by (intro preserves_bindE preserves_if preserves_gets preserves_ret preserves_throw)
     (simp_all add: preserves_def keep_new_def keep_login_def pyst_simps Let_def)

lemma login_fails:
  assumes "login w = (Inl e, w')"
  shows "remote w' = remote w \<and> stdout w' = stdout w \<and> not_exit e"
  using preservesD [OF login_keeps_remote, of w "remote w"] keeps_outputD [OF login_keeps_output assms]
    raises_onlyD [OF login_not_exit assms] assms
  by simp

lemma run_parsed_login_fails:
  assumes "main w = bindE login f w" and "login w = (Inl e, w')"
  shows "fst (run_script w) = 1 \<and> remote (snd (run_script w)) = remote w \<and>
         stdout (snd (run_script w)) = stdout w \<and> calls (snd (run_script w)) = calls w'"
proof -
  from login_fails [OF assms(2)] have "not_exit e" "remote w' = remote w" "stdout w' = stdout w"
    by simp_all
  moreover have "main w = (Inl e, w')" using assms by simp
  ultimately show ?thesis by (cases e) (simp_all add: run_script_def)
qed

lemma spec_outcome_parsed:
  assumes "argparse keep_tags_parser (argv w) = Parsed ns"
    and "map_of ns ''note'' = Some nid" and "map_of ns ''label'' = Some name"
  shows "spec_outcome w =
    (if \<not> py_truthy (environ w ''KEEP_EMAIL'') \<or> \<not> py_truthy (environ w ''KEEP_PASSWORD'')
     then OutConfig
     else if \<not> online w then OutUnreachable
     else if the (environ w ''KEEP_EMAIL'') \<noteq> acct_email w \<or>
             the (environ w ''KEEP_PASSWORD'') \<noteq> acct_password w then OutRejected
     else if note_labels (remote w) nid = None then OutNoteMissing nid
     else OutDone nid name)"
  using assms by (simp add: spec_outcome_def ns_attr_def Let_def)

lemma run_parsed_refines:
  assumes "argparse keep_tags_parser (argv w) = Parsed ns"
    and "map_of ns ''note'' = Some nid" and "map_of ns ''label'' = Some name"
  shows "fst (run_script w) = outcome_status (spec_outcome w) \<and>
         stdout (snd (run_script w)) = stdout w @ spec_stdout w \<and>
         remote (snd (run_script w)) = spec_account w \<and>
         calls (snd (run_script w)) = calls w @ spec_calls w"
proof -
  let ?f = "\<lambda>_. bindE (add_label nid name) (\<lambda>_. print_line (label_added_msg name nid))"
  have main: "main w = bindE login ?f w" by (rule main_parsed [OF assms])
  note so = spec_outcome_parsed [OF assms]
  show ?thesis
  proof (cases "py_truthy (environ w ''KEEP_EMAIL'') \<and> py_truthy (environ w ''KEEP_PASSWORD'')")
    case False
    with run_parsed_login_fails [OF main login_no_creds] show ?thesis
      by (simp add: so spec_stdout_def spec_account_def spec_calls_def)
  next
    case True
    then obtain email password where cs: "creds_set w email password"
      by (cases "environ w ''KEEP_EMAIL''"; cases "environ w ''KEEP_PASSWORD''")
         (auto simp: creds_set_def)
    then have ep: "environ w ''KEEP_EMAIL'' = Some email" "environ w ''KEEP_PASSWORD'' = Some password"
      by (simp_all add: creds_set_def)
    show ?thesis
    proof (cases "online w \<and> email = acct_email w \<and> password = acct_password w")
      case False
      then obtain e w' where "login w = (Inl e, w')" "calls w' = calls w @ [ApiNew, ApiLogin email]"
        using login_fails_creds [OF cs] by blast
      with run_parsed_login_fails [OF main] True False show ?thesis
        by (auto simp: so ep spec_stdout_def spec_account_def spec_calls_def)
    next
      case ok: True
      let ?w1 = "logged_in email w"
      have login: "login w = (Inr (), ?w1)" using ok login_ok [OF cs] by blast
      show ?thesis
      proof (cases "note_labels (remote w) nid")
        case None
        then have "main w = (Inl (ValueError (''Note '' @ nid @ '' not found'')), log_call (ApiGet nid) ?w1)"
          using main login by (simp add: add_label_missing)
        with True ok None show ?thesis
          by (simp add: run_script_def so ep spec_stdout_def spec_account_def spec_calls_def)
      next
        case (Some ls)
        let ?s = "add_label_local nid name ?w1"
        have "main w = print_line (label_added_msg name nid) (snd (keep_sync ?s))"
          using main login ok Some
          by (simp add: add_label_to_sync keep_sync_ok add_label_local_def Let_def)
        moreover have "remote (snd (keep_sync ?s)) = abs_apply_label (remote w) (next_id w) nid name"
          using ok Some
          by (simp add: keep_sync_ok add_label_local_def Let_def label_changes_abs)
        moreover have "stdout (snd (keep_sync ?s)) = stdout w"
          using ok by (simp add: keep_sync_ok add_label_local_def Let_def)
        ultimately show ?thesis using True ok Some
          by (simp add: run_script_def so ep spec_stdout_def spec_account_def spec_calls_def
                script_calls_def pyst_simps)
      qed
    qed
  qed
qed

text \<open>C20. Every run of the script refines the specification: its exit status, the lines it adds to stdout, the account the service stores afterwards and the calls it makes to the library are those that \<open>spec_outcome\<close> assigns to the command line, the environment, the reachability and credentials of the service and the account before the run. In particular the account changes only when the status is 0 and the label is applied, and then it is updated exactly as spec section 4.2 says.\<close>

theorem run_script_refines:
  "fst (run_script w) = outcome_status (spec_outcome w) \<and>
   stdout (snd (run_script w)) = stdout w @ spec_stdout w \<and>
   remote (snd (run_script w)) = spec_account w \<and>
   calls (snd (run_script w)) = calls w @ spec_calls w"
proof (cases "argparse keep_tags_parser (argv w)")
  case (ParseError msg)
  then show ?thesis
    by (simp add: run_script_def main_def parse_args_error spec_outcome_def spec_stdout_def
          spec_account_def spec_calls_def)
next
  case ParseHelp
  then show ?thesis
    by (simp add: run_script_def main_def parse_args_help spec_outcome_def spec_stdout_def
          spec_account_def spec_calls_def)
next
  case (Parsed ns)
  with argparse_Parsed_keys obtain nid name
    where "map_of ns ''note'' = Some nid" "map_of ns ''label'' = Some name" by blast
  with Parsed show ?thesis by (rule run_parsed_refines)
qed

lemma update_existing_length:
  "k \<in> fst ` set al \<Longrightarrow> length (AList.update k v al) = length al"
  using update_existing_keys [of k al v] by (metis length_map)

lemma length_spec_calls: "length (spec_calls w) \<le> 7"
  by (simp add: spec_calls_def script_calls_def add_label_calls_def split: outcome.splits)

lemma spec_account_sizes:
  "length (db_labels (spec_account w)) \<le> Suc (length (db_labels (remote w))) \<and>
   length (db_notes (spec_account w)) = length (db_notes (remote w))"
proof (cases "spec_outcome w")
  case (OutDone nid name)
  then have "note_labels (remote w) nid \<noteq> None"
    by (auto simp: spec_outcome_def Let_def split: parse_outcome.splits if_splits)
  then have "nid \<in> fst ` set (db_notes (remote w))"
    by (auto simp: note_labels_def dest: map_of_SomeD intro: rev_image_eqI)
  with OutDone show ?thesis
    by (simp add: spec_account_def abs_apply_label_def update_existing_length
          split: option.splits)
qed (simp_all add: spec_account_def)

text \<open>C22. One run of the script is bounded: it makes at most seven calls to the library (the constructor, the login, the note lookup, the label lookup, the creation, the addition and the sync), it adds at most one label to the stored account, and it never changes the number of notes.\<close>

theorem run_script_bounds:
  "length (calls (snd (run_script w))) \<le> length (calls w) + 7 \<and>
   length (db_labels (remote (snd (run_script w)))) \<le> Suc (length (db_labels (remote w))) \<and>
   length (db_notes (remote (snd (run_script w)))) = length (db_notes (remote w))"
proof (cases "argparse keep_tags_parser (argv w)")
  case (Parsed ns)
  with argparse_Parsed_keys obtain nid name
    where "map_of ns ''note'' = Some nid" "map_of ns ''label'' = Some name" by blast
  from run_parsed_refines [OF Parsed this] length_spec_calls [of w] spec_account_sizes [of w]
  show ?thesis by simp
qed (simp_all add: run_script_def main_def parse_args_error parse_args_help)

end
