(* ===== verification/Usage_Doc.thy ===== *)
theory Usage_Doc
  imports Refinement
begin

text \<open>
  The module docstring of \<^verbatim>\<open>src/google_keep_tags.py\<close> (lines 2--14) as data, and
  its agreement with the code:
  \<^item> \<open>doc_env_vars\<close> (lines 7--8): the variables the user is told to set;
  \<^item> \<open>doc_invocation\<close> (line 10): the documented command line, with its
    placeholders;
  \<^item> \<open>doc_steps\<close> (lines 12--13): what the script is said to do, in order: log in,
    find or create the label, apply it to the note; \<open>doc_view\<close> says which library
    call performs which step.
  \<open>Frames\<close> proves that the documented variables are the only ones the script
  reads (C21); this theory proves that the documented invocation is accepted and
  that a successful run performs the documented steps in the documented order (C23).
  The installation line (line 6) is about the environment, not the program, and is
  not modelled.
\<close>

text \<open>Lines 7--8: \<^verbatim>\<open>Set environment variables KEEP_EMAIL and KEEP_PASSWORD\<close>.\<close>

definition doc_env_vars :: "string list" where
  "doc_env_vars = [''KEEP_EMAIL'', ''KEEP_PASSWORD'']"

text \<open>Line 10: \<^verbatim>\<open>python google_keep_tags.py --note NOTE_ID --label LABEL\<close>.\<close>

definition doc_invocation :: "string list" where
  "doc_invocation = [''--note'', ''NOTE_ID'', ''--label'', ''LABEL'']"

text \<open>Lines 12--13: \<^verbatim>\<open>logs in to Google Keep, finds or creates the given label, then applies it to the specified note\<close>.\<close>

datatype doc_step = DocLogin | DocFindOrCreate | DocApply

definition doc_steps :: "doc_step list" where
  "doc_steps = [DocLogin, DocFindOrCreate, DocApply]"

fun doc_view :: "api_call \<Rightarrow> doc_step option" where
  "doc_view (ApiLogin _) = Some DocLogin"
| "doc_view (ApiFindLabel _) = Some DocFindOrCreate"
| "doc_view (ApiCreateLabel _) = Some DocFindOrCreate"
| "doc_view (ApiAddLabel _ _) = Some DocApply"
| "doc_view _ = None"

section \<open>The documented steps\<close>

lemma script_calls_doc_steps:
  "remdups_adj (List.map_filter doc_view (script_calls email db fresh nid name)) = doc_steps"
  by (simp add: script_calls_def add_label_calls_def doc_steps_def map_filter_simps)

lemma run_status_0_done:
  assumes "argparse keep_tags_parser (argv w) = Parsed ns"
    and "map_of ns ''note'' = Some nid" and "map_of ns ''label'' = Some name"
    and "outcome_status (spec_outcome w) = 0"
  shows "spec_outcome w = OutDone nid name"
  using assms(4) by (simp add: spec_outcome_parsed [OF assms(1-3)] split: if_splits)

text \<open>C23. The docstring agrees with the code: the documented invocation is accepted with its two placeholders as the note id and the label name, and every run whose command line parses and which exits with status 0 makes its library calls in the documented order of steps: log in, find or create the label, apply it to the note.\<close>

theorem documented_usage:
  assumes "argparse keep_tags_parser (argv w) = Parsed ns" and "fst (run_script w) = 0"
  shows "argparse keep_tags_parser doc_invocation = Parsed [(''note'', ''NOTE_ID''), (''label'', ''LABEL'')] \<and>
         (\<exists>t. calls (snd (run_script w)) = calls w @ t \<and>
              remdups_adj (List.map_filter doc_view t) = doc_steps)"
proof -
  obtain nid name where n: "map_of ns ''note'' = Some nid" "map_of ns ''label'' = Some name"
    using argparse_Parsed_keys [OF assms(1)] by blast
  note obs = run_parsed_refines [OF assms(1) n]
  with assms(2) have "spec_outcome w = OutDone nid name"
    by (intro run_status_0_done [OF assms(1) n]) simp
  with obs have "calls (snd (run_script w)) =
      calls w @ script_calls (acct_email w) (remote w) (next_id w) nid name"
    by (simp add: spec_calls_def)
  then show ?thesis
    using script_calls_doc_steps
    by (auto simp: doc_invocation_def argparse_def keep_tags_parser_def classify_def split_eq_def
          resolve_long_def long_kind_def finish_def)
qed

end
