(* ===== verification/Frames.thy ===== *)
theory Frames
  imports Usage_Doc
begin

text \<open>
  What a run does not depend on, in the style of an unwinding proof. \<open>commutes u m\<close>
  says that running the statement \<open>m\<close> after the state change \<open>u\<close> gives the same
  result and the state \<open>m\<close> leaves, changed by \<open>u\<close>: the statement neither reads
  nor writes what \<open>u\<close> changes. The rule for \<open>bindE\<close> composes it. The change
  considered is \<open>env_outside ks e\<close>: every environment variable outside \<open>ks\<close> is
  replaced by its value in \<open>e\<close>. The library, argparse and printing never read the
  environment, and \<^verbatim>\<open>login()\<close> reads exactly the two documented variables, so
  the whole run ignores all others (C21).
\<close>

text \<open>The statement ignores the state change \<open>u\<close> and keeps it.\<close>

definition commutes :: "('s \<Rightarrow> 's) \<Rightarrow> ('s, 'a) pyst \<Rightarrow> bool" where
  "commutes u m \<longleftrightarrow> (\<forall>w. m (u w) = (fst (m w), u (snd (m w))))"

text \<open>Every environment variable outside \<open>ks\<close> takes its value in \<open>e\<close>.\<close>

definition env_outside :: "string list \<Rightarrow> (string \<rightharpoonup> string) \<Rightarrow> 'x world_scheme \<Rightarrow> 'x world_scheme" where
  "env_outside ks e w = w\<lparr>environ := (e |` (- set ks)) ++ (environ w |` set ks)\<rparr>"

section \<open>Composition\<close>

lemmas frame_defs = commutes_def keep_ops pyst_simps Let_def record_change_def log_call_def
  print_line_def modify_def

lemma commutesI: "(\<And>w. m (u w) = (fst (m w), u (snd (m w)))) \<Longrightarrow> commutes u m"
  by (simp add: commutes_def)

lemma commutesD: "commutes u m \<Longrightarrow> m w = (r, w') \<Longrightarrow> m (u w) = (r, u w')"
  by (simp add: commutes_def)

lemma commutes_apply: "commutes u m \<Longrightarrow> m (u w) = (fst (m w), u (snd (m w)))"
  by (simp add: commutes_def)

lemma commutes_bindE [intro]:
  assumes "commutes u m" and "\<And>a. commutes u (f a)"
  shows "commutes u (bindE m f)"
proof (rule commutesI)
  fix w
  obtain r w' where mw: "m w = (r, w')" by (cases "m w")
  show "bindE m f (u w) = (fst (bindE m f w), u (snd (bindE m f w)))"
  proof (cases r)
    case (Inl e)
    with mw commutesD [OF assms(1) mw] show ?thesis by (simp add: bindE_def)
  next
    case (Inr a)
    obtain r' w'' where fw: "f a w' = (r', w'')" by (cases "f a w'")
    with Inr mw commutesD [OF assms(1) mw] commutesD [OF assms(2) fw] show ?thesis
      by (simp add: bindE_def)
  qed
qed

lemma commutes_if [intro]: "commutes u m1 \<Longrightarrow> commutes u m2 \<Longrightarrow> commutes u (if b then m1 else m2)"
  by simp

lemma commutes_case_option [intro]:
  "commutes u m1 \<Longrightarrow> (\<And>a. commutes u (m2 a)) \<Longrightarrow> commutes u (case x of None \<Rightarrow> m1 | Some a \<Rightarrow> m2 a)"
  by (simp split: option.splits)

lemma commutes_ret [simp]: "commutes u (ret a)"
  and commutes_throw [simp]: "commutes u (throw e)"
  by (simp_all add: commutes_def pyst_simps)

lemma keep_ops_commute_env:
  "commutes (env_outside ks e) keep_new" "commutes (env_outside ks e) (keep_login em p)"
  "commutes (env_outside ks e) (keep_get nid)" "commutes (env_outside ks e) (keep_findLabel n)"
  "commutes (env_outside ks e) (keep_createLabel n)"
  "commutes (env_outside ks e) (note_labels_add nid i)" "commutes (env_outside ks e) keep_sync"
  "commutes (env_outside ks e) (print_line msg)"
  by (simp_all add: frame_defs env_outside_def)

lemma env_outside_keep [simp]: "k \<in> set ks \<Longrightarrow> environ (env_outside ks e w) k = environ w k"
  by (simp add: env_outside_def map_add_def restrict_map_def split: option.splits)

lemma os_getenv_commutes: "k \<in> set ks \<Longrightarrow> commutes (env_outside ks e) (os_getenv k)"
  by (simp add: commutes_def pyst_simps)

lemma add_label_commutes: "commutes (env_outside ks e) (add_label nid name)"
  unfolding add_label_def
  by (intro commutes_bindE commutes_case_option commutes_ret commutes_throw keep_ops_commute_env)

lemma parse_args_commutes_env: "commutes (env_outside ks e) (parse_args d specs)"
  by (simp add: commutes_def parse_args_def env_outside_def split: parse_outcome.splits)

lemma run_script_commutes:
  assumes "main (u w) = (fst (main w), u (snd (main w)))"
    and "\<And>w x. u (w\<lparr>stderr := x\<rparr>) = (u w)\<lparr>stderr := x\<rparr>" and "\<And>w. stderr (u w) = stderr w"
  shows "run_script (u w) = (fst (run_script w), u (snd (run_script w)))"
proof -
  obtain r w' where mw: "main w = (r, w')" by (cases "main w")
  from assms(1) mw assms(2,3) show ?thesis
    by (simp add: run_script_def split: sum.splits exc.splits)
qed

text \<open>C21. The script reads no environment variable other than the two that the docstring tells the user to set (\<open>doc_env_vars\<close>, lines 7--8): changing, adding or removing any other variable before a run changes nothing in the run, neither its exit status nor any effect on the service, the output streams or the calls made.\<close>

theorem run_script_env_independent:
  "run_script (env_outside doc_env_vars e w) =
     (fst (run_script w), env_outside doc_env_vars e (snd (run_script w)))"
proof -
  have "commutes (env_outside doc_env_vars e) main"
    unfolding main_def login_def
    by (intro commutes_bindE commutes_if commutes_ret commutes_throw parse_args_commutes_env
          os_getenv_commutes add_label_commutes keep_ops_commute_env)
       (simp_all add: doc_env_vars_def)
  then show ?thesis
    by (rule run_script_commutes [OF commutes_apply]) (simp_all add: env_outside_def)
qed

end
