(* ===== verification/Script_Steps.thy ===== *)
theory Script_Steps
  imports Frames
begin

text \<open>
  The script as a small-step machine: one step per statement of \<^verbatim>\<open>main()\<close>,
  \<^verbatim>\<open>login()\<close> and \<^verbatim>\<open>add_label()\<close>, inlined in the order the calls make them
  (\<open>pc\<close>), with the local variables of the three functions in a \<open>frame\<close>, and
  the interpreter's handling of an uncaught exception as two more steps
  (\<open>PUnwind\<close>, then \<open>PExit\<close>). Each step runs the same statement of the
  model as the big-step definitions (\<open>parse_args\<close>, \<open>os_getenv\<close>, the
  library calls, \<open>print_line\<close>); a raise jumps to \<open>PUnwind\<close>. Every step
  lowers \<open>rank\<close> until an exit, so the execution from the first statement has
  exited after 16 steps, where \<open>run_script\<close> ends (\<open>small_step_equiv\<close>): the
  big-step model of \<open>Cli\<close> is the execution of this machine, and the properties
  of \<open>Script_Events\<close> are about the same program as those of \<open>Cli\<close>.
\<close>

text \<open>Program points: the next statement to run, lines 48, 22--29, 34--41, 52.\<close>

datatype pc =
    PParse
  | PGetEmail
  | PGetPassword
  | PCheckCreds
  | PNew
  | PLogin
  | PCheckLogin
  | PGet
  | PCheckNote
  | PFind
  | PCheckLabel
  | PCreate
  | PAdd
  | PSync
  | PPrint
  | PUnwind exc
  | PExit int

text \<open>The locals: \<^verbatim>\<open>args\<close>, \<^verbatim>\<open>email\<close>, \<^verbatim>\<open>password\<close>, \<^verbatim>\<open>success\<close>,
  \<^verbatim>\<open>note\<close> (the id the lookup returned) and \<^verbatim>\<open>label\<close>.\<close>

record frame =
  f_args :: namespace
  f_email :: "string option"
  f_password :: "string option"
  f_success :: bool
  f_note :: "note_id option"
  f_label :: "label_id option"

type_synonym 'x cfg = "pc \<times> frame \<times> 'x world_scheme"

definition frame0 :: frame where
  "frame0 = \<lparr>f_args = [], f_email = None, f_password = None, f_success = False,
             f_note = None, f_label = None\<rparr>"

text \<open>A statement that may raise: its result goes to the continuation \<open>k\<close>, which
  sets the next program point and the locals; a raise starts the unwinding.\<close>

definition exec :: "('x world_scheme, 'a) pyst \<Rightarrow> ('a \<Rightarrow> frame \<Rightarrow> pc \<times> frame) \<Rightarrow>
    frame \<Rightarrow> 'x world_scheme \<Rightarrow> 'x cfg" where
  "exec m k fr w =
     (case m w of
        (Inl e, w') \<Rightarrow> (PUnwind e, fr, w')
      | (Inr a, w') \<Rightarrow> (fst (k a fr), snd (k a fr), w'))"

fun step :: "'x cfg \<Rightarrow> 'x cfg" where
  "step (PParse, fr, w) =
     exec (parse_args keep_tags_description keep_tags_parser)
       (\<lambda>ns fr. (PGetEmail, fr\<lparr>f_args := ns\<rparr>)) fr w"
| "step (PGetEmail, fr, w) =
     exec (os_getenv ''KEEP_EMAIL'') (\<lambda>v fr. (PGetPassword, fr\<lparr>f_email := v\<rparr>)) fr w"
| "step (PGetPassword, fr, w) =
     exec (os_getenv ''KEEP_PASSWORD'') (\<lambda>v fr. (PCheckCreds, fr\<lparr>f_password := v\<rparr>)) fr w"
| "step (PCheckCreds, fr, w) =
     (if \<not> py_truthy (f_email fr) \<or> \<not> py_truthy (f_password fr)
      then (PUnwind (ValueError ''KEEP_EMAIL and KEEP_PASSWORD must be set''), fr, w)
      else (PNew, fr, w))"
| "step (PNew, fr, w) = exec keep_new (\<lambda>_ fr. (PLogin, fr)) fr w"
| "step (PLogin, fr, w) =
     exec (keep_login (the (f_email fr)) (the (f_password fr)))
       (\<lambda>b fr. (PCheckLogin, fr\<lparr>f_success := b\<rparr>)) fr w"
| "step (PCheckLogin, fr, w) =
     (if \<not> f_success fr then (PUnwind (RuntimeError ''Login to Google Keep failed''), fr, w)
      else (PGet, fr, w))"
| "step (PGet, fr, w) =
     exec (keep_get (ns_attr (f_args fr) ''note'')) (\<lambda>n fr. (PCheckNote, fr\<lparr>f_note := n\<rparr>)) fr w"
| "step (PCheckNote, fr, w) =
     (case f_note fr of
        None \<Rightarrow> (PUnwind (ValueError (''Note '' @ ns_attr (f_args fr) ''note'' @ '' not found'')), fr, w)
      | Some _ \<Rightarrow> (PFind, fr, w))"
| "step (PFind, fr, w) =
     exec (keep_findLabel (ns_attr (f_args fr) ''label''))
       (\<lambda>l fr. (PCheckLabel, fr\<lparr>f_label := l\<rparr>)) fr w"
| "step (PCheckLabel, fr, w) =
     (case f_label fr of None \<Rightarrow> (PCreate, fr, w) | Some _ \<Rightarrow> (PAdd, fr, w))"
| "step (PCreate, fr, w) =
     exec (keep_createLabel (ns_attr (f_args fr) ''label''))
       (\<lambda>i fr. (PAdd, fr\<lparr>f_label := Some i\<rparr>)) fr w"
| "step (PAdd, fr, w) =
     exec (note_labels_add (the (f_note fr)) (the (f_label fr))) (\<lambda>_ fr. (PSync, fr)) fr w"
| "step (PSync, fr, w) = exec keep_sync (\<lambda>_ fr. (PPrint, fr)) fr w"
| "step (PPrint, fr, w) =
     exec (print_line (label_added_msg (ns_attr (f_args fr) ''label'') (ns_attr (f_args fr) ''note'')))
       (\<lambda>_ fr. (PExit 0, fr)) fr w"
| "step (PUnwind (SystemExit c), fr, w) = (PExit c, fr, w)"
| "step (PUnwind e, fr, w) =
     (PExit 1, fr, w\<lparr>stderr := stderr w @ [''Traceback (most recent call last):'', exc_report e]\<rparr>)"
| "step (PExit c, fr, w) = (PExit c, fr, w)"

text \<open>The number of steps left at most: the program has no loop.\<close>

fun rank :: "pc \<Rightarrow> nat" where
  "rank PParse = 16"
| "rank PGetEmail = 15"
| "rank PGetPassword = 14"
| "rank PCheckCreds = 13"
| "rank PNew = 12"
| "rank PLogin = 11"
| "rank PCheckLogin = 10"
| "rank PGet = 9"
| "rank PCheckNote = 8"
| "rank PFind = 7"
| "rank PCheckLabel = 6"
| "rank PCreate = 5"
| "rank PAdd = 4"
| "rank PSync = 3"
| "rank PPrint = 2"
| "rank (PUnwind _) = 1"
| "rank (PExit _) = 0"

fun is_exit :: "pc \<Rightarrow> bool" where
  "is_exit (PExit _) = True"
| "is_exit _ = False"

text \<open>
  \<open>runs c c'\<close>: the execution from \<open>c\<close> reaches \<open>c'\<close> (the reflexive-transitive
  closure of \<open>step\<close>); \<open>obs\<close> is what the big-step model determines of a
  configuration: the program point, the parsed namespace and the process state.
\<close>

inductive runs :: "'x cfg \<Rightarrow> 'x cfg \<Rightarrow> bool" where
  runs_refl: "runs c c"
| runs_step: "runs (step c) c' \<Longrightarrow> runs c c'"

definition obs :: "'x cfg \<Rightarrow> pc \<times> namespace \<times> 'x world_scheme" where
  "obs c = (fst c, f_args (fst (snd c)), snd (snd c))"

lemma rank_step:
  assumes "\<not> is_exit (fst c)"
  shows "rank (fst (step c)) < rank (fst c)"
proof (cases c)
  case (fields pc fr w)
  with assms show ?thesis
    by (cases "(pc, fr, w)" rule: step.cases)
       (auto simp: exec_def split: prod.splits sum.splits if_splits option.splits)
qed

lemma runs_funpow: "runs c ((step ^^ n) c)"
proof (induction n arbitrary: c)
  case (Suc n)
  have "(step ^^ Suc n) c = (step ^^ n) (step c)" by (simp only: funpow_Suc_right comp_def)
  with Suc [of "step c"] show ?case by (simp add: runs_step)
qed (simp add: runs_refl)

lemma runs_obs: "obs ((step ^^ n) c) = t \<Longrightarrow> \<exists>c'. runs c c' \<and> obs c' = t"
  using runs_funpow by blast

lemma runs_trans: "runs c1 c2 \<Longrightarrow> runs c2 c3 \<Longrightarrow> runs c1 c3"
  by (induction rule: runs.induct) (auto intro: runs_step)

lemma login_steps:
  "\<exists>c'. runs (PGetEmail, fr, w) c' \<and>
     obs c' = (case login w of (Inl e, w') \<Rightarrow> (PUnwind e, f_args fr, w') | (Inr _, w') \<Rightarrow> (PGet, f_args fr, w'))"
proof (cases "py_truthy (environ w ''KEEP_EMAIL'') \<and> py_truthy (environ w ''KEEP_PASSWORD'')")
  case False
  then show ?thesis
    by (intro runs_obs [where n = 3])
       (auto simp: obs_def login_no_creds exec_def pyst_simps numeral_3_eq_3)
next
  case True
  then obtain email password where cs: "creds_set w email password"
    by (cases "environ w ''KEEP_EMAIL''"; cases "environ w ''KEEP_PASSWORD''")
       (auto simp: creds_set_def)
  then have ep: "environ w ''KEEP_EMAIL'' = Some email" "environ w ''KEEP_PASSWORD'' = Some password"
    "email \<noteq> []" "password \<noteq> []"
    by (simp_all add: creds_set_def)
  show ?thesis
  proof (cases "online w")
    case True
    then show ?thesis
      by (intro runs_obs [where n = 6])
         (auto simp: obs_def login_creds_run [OF cs] exec_def pyst_simps ep
            eval_nat_numeral keep_new_def keep_login_def bindE_def Let_def)
  next
    case False
    then show ?thesis
      by (intro runs_obs [where n = 5])
         (auto simp: obs_def login_creds_run [OF cs] exec_def pyst_simps ep
            eval_nat_numeral keep_new_def keep_login_def bindE_def Let_def)
  qed
qed

lemma add_label_steps:
  fixes fr defines "nid \<equiv> ns_attr (f_args fr) ''note''" and "name \<equiv> ns_attr (f_args fr) ''label''"
  shows "\<exists>c'. runs (PGet, fr, w) c' \<and>
     obs c' = (case add_label nid name w of
                 (Inl e, w') \<Rightarrow> (PUnwind e, f_args fr, w') | (Inr _, w') \<Rightarrow> (PPrint, f_args fr, w'))"
proof (cases "note_labels (local_db (client w)) nid")
  case None
  then show ?thesis
    by (intro runs_obs [where n = 2])
       (simp add: obs_def add_label_missing exec_def pyst_simps eval_nat_numeral nid_def)
next
  case (Some ls)
  show ?thesis
  proof (cases "find_label (local_db (client w)) name")
    case (Some i)
    with \<open>note_labels _ nid = Some ls\<close> show ?thesis
      by (intro runs_obs [where n = 6])
         (simp add: obs_def add_label_def exec_def pyst_simps eval_nat_numeral nid_def name_def
            bindE_def split: prod.splits sum.splits)
  next
    case None
    with \<open>note_labels _ nid = Some ls\<close> show ?thesis
      by (intro runs_obs [where n = 7])
         (simp add: obs_def add_label_def exec_def pyst_simps eval_nat_numeral nid_def name_def
            bindE_def split: prod.splits sum.splits)
  qed
qed

lemma main_steps:
  "\<exists>c'. runs (PParse, frame0, w) c' \<and>
     (fst c', snd (snd c')) = (case main w of (Inl e, w') \<Rightarrow> (PUnwind e, w') | (Inr _, w') \<Rightarrow> (PExit 0, w'))"
proof (cases "argparse keep_tags_parser (argv w)")
  case (Parsed ns)
  with argparse_Parsed_keys obtain nid name
    where n: "map_of ns ''note'' = Some nid" "map_of ns ''label'' = Some name" by blast
  let ?fr1 = "frame0\<lparr>f_args := ns\<rparr>"
  have r1: "runs (PParse, frame0, w) (PGetEmail, ?fr1, w)"
    using Parsed by (rule_tac runs_step) (simp add: exec_def parse_args_ok runs_refl)
  have attrs: "ns_attr ns ''note'' = nid" "ns_attr ns ''label'' = name"
    using n by (simp_all add: ns_attr_def)
  have main: "main w = bindE login (\<lambda>_. bindE (add_label nid name)
                 (\<lambda>_. print_line (label_added_msg name nid))) w"
    by (rule main_parsed [OF Parsed n])
  have fa: "f_args ?fr1 = ns" by simp
  have "\<exists>c2. runs (PGetEmail, ?fr1, w) c2 \<and>
      obs c2 = (case login w of (Inl e, w') \<Rightarrow> (PUnwind e, ns, w') | (Inr _, w') \<Rightarrow> (PGet, ns, w'))"
    using login_steps [of ?fr1 w] unfolding fa .
  then obtain c2 where r2: "runs (PGetEmail, ?fr1, w) c2"
    and o2: "obs c2 = (case login w of (Inl e, w') \<Rightarrow> (PUnwind e, ns, w') | (Inr _, w') \<Rightarrow> (PGet, ns, w'))"
    by blast
  obtain pc2 fr2 w2 where c2: "c2 = (pc2, fr2, w2)" by (cases c2)
  show ?thesis
  proof (cases "login w")
    case (Pair r w')
    show ?thesis
    proof (cases r)
      case (Inl e)
      with Pair o2 c2 have "c2 = (PUnwind e, fr2, w')" by (simp add: obs_def)
      moreover have "runs (PParse, frame0, w) c2" by (rule runs_trans [OF r1 r2])
      ultimately show ?thesis using main Pair Inl by (intro exI [of _ c2]) simp
    next
      case (Inr u)
      with Pair o2 c2 have c2': "c2 = (PGet, fr2, w')" "f_args fr2 = ns" by (auto simp: obs_def)
      have "\<exists>c3. runs (PGet, fr2, w') c3 \<and> obs c3 = (case add_label nid name w' of
                   (Inl e, w'') \<Rightarrow> (PUnwind e, ns, w'') | (Inr _, w'') \<Rightarrow> (PPrint, ns, w''))"
        using add_label_steps [of fr2 w'] unfolding c2'(2) attrs .
      then obtain c3 where r3: "runs (PGet, fr2, w') c3"
        and o3: "obs c3 = (case add_label nid name w' of
                   (Inl e, w'') \<Rightarrow> (PUnwind e, ns, w'') | (Inr _, w'') \<Rightarrow> (PPrint, ns, w''))"
        by blast
      obtain pc3 fr3 w3 where c3: "c3 = (pc3, fr3, w3)" by (cases c3)
      have r13: "runs (PParse, frame0, w) (PGet, fr2, w')"
        using runs_trans [OF r1 r2] c2' by simp
      show ?thesis
      proof (cases "add_label nid name w'")
        case (Pair r' w'')
        show ?thesis
        proof (cases r')
          case (Inl e)
          with Pair o3 c3 have "c3 = (PUnwind e, fr3, w'')" by (simp add: obs_def)
          moreover have "runs (PParse, frame0, w) c3" by (rule runs_trans [OF r13 r3])
          ultimately show ?thesis
            using main \<open>login w = (r, w')\<close> \<open>r = Inr u\<close> Pair Inl
            by (intro exI [of _ c3]) simp
        next
          case (Inr u')
          with Pair o3 c3 have c3': "c3 = (PPrint, fr3, w'')" "f_args fr3 = ns" by (auto simp: obs_def)
          let ?c4 = "step c3"
          have "runs (PParse, frame0, w) ?c4"
            using runs_trans [OF r13 r3] runs_step [OF runs_refl, of c3] runs_trans by blast
          moreover have "fst ?c4 = PExit 0 \<and>
              snd (snd ?c4) = w''\<lparr>stdout := stdout w'' @ [label_added_msg name nid]\<rparr>"
            using c3' attrs by (simp add: exec_def pyst_simps)
          ultimately show ?thesis
            using \<open>login w = (r, w')\<close> \<open>r = Inr u\<close> Inr Pair main
            by (intro exI [of _ ?c4]) (simp add: pyst_simps)
        qed
      qed
    qed
  qed
next
  case ParseHelp
  then show ?thesis
    by (intro exI [of _ "step (PParse, frame0, w)"])
       (simp add: main_def parse_args_help exec_def runs_step runs_refl)
next
  case (ParseError msg)
  then show ?thesis
    by (intro exI [of _ "step (PParse, frame0, w)"])
       (simp add: main_def parse_args_error exec_def runs_step runs_refl)
qed

text \<open>
  A function on configurations that lowers the rank of every configuration not at an
  exit, and leaves exits in place, reaches an exit within as many steps as the rank.
\<close>

lemma rank_funpow:
  assumes dec: "\<And>c. \<not> is_exit (fst c) \<Longrightarrow> rank (fst (f c)) < rank (fst c)"
    and fixp: "\<And>c. is_exit (fst c) \<Longrightarrow> f c = c"
    and le: "rank (fst c) \<le> n"
  shows "is_exit (fst ((f ^^ n) c))"
proof -
  have disj: "rank (fst ((f ^^ n) c)) \<le> rank (fst c) - n \<or> is_exit (fst ((f ^^ n) c))" for n
  proof (induction n)
    case (Suc n)
    show ?case
    proof (cases "is_exit (fst ((f ^^ n) c))")
      case True
      then show ?thesis using fixp by simp
    next
      case False
      with Suc dec [OF False] show ?thesis by auto
    qed
  qed simp
  have "rank pc = 0 \<Longrightarrow> is_exit pc" for pc by (cases pc) simp_all
  then show ?thesis using disj [of n] le by auto
qed

lemma step_exit: "is_exit (fst c) \<Longrightarrow> step c = c"
  by (cases c rule: prod_cases3) (auto elim: is_exit.elims)

lemma exit_within: "rank (fst c) \<le> n \<Longrightarrow> is_exit (fst ((step ^^ n) c))"
  by (rule rank_funpow [OF rank_step step_exit])

lemma exit_fix: "is_exit (fst c) \<Longrightarrow> (step ^^ k) c = c"
  by (induction k) (simp_all add: step_exit)

lemma runs_funpow_ex: "runs c c' \<Longrightarrow> \<exists>m. c' = (step ^^ m) c"
proof (induction rule: runs.induct)
  case (runs_refl c)
  show ?case by (rule exI [of _ 0]) simp
next
  case (runs_step c c')
  then obtain m where "c' = (step ^^ m) (step c)" by blast
  then show ?case by (intro exI [of _ "Suc m"]) (simp only: funpow_Suc_right comp_def)
qed

text \<open>A run that reaches an exit within \<open>n\<close> steps ends there.\<close>

lemma funpow_split: "m \<le> n \<Longrightarrow> (f ^^ n) x = (f ^^ (n - m)) ((f ^^ m) x)"
  by (metis funpow_add le_add_diff_inverse2 comp_apply)

lemma runs_exit_funpow:
  assumes "runs c c'" and "is_exit (fst c')" and "is_exit (fst ((step ^^ n) c))"
  shows "(step ^^ n) c = c'"
proof -
  obtain m where m: "c' = (step ^^ m) c" using runs_funpow_ex [OF assms(1)] by blast
  show ?thesis
  proof (cases "m \<le> n")
    case True
    then have "(step ^^ n) c = (step ^^ (n - m)) ((step ^^ m) c)"
      by (rule funpow_split)
    with m assms(2) show ?thesis by (simp add: exit_fix)
  next
    case False
    then have "c' = (step ^^ (m - n)) ((step ^^ n) c)" using m funpow_split [of n m] by simp
    with assms(3) show ?thesis by (simp add: exit_fix)
  qed
qed

text \<open>The small-step machine agrees with the big-step model: after 16 steps from
  the first statement, the execution has exited with the status \<open>run_script\<close> gives, in
  the same final process state (output streams, stored account, client, trace of
  calls); in particular the traceback of an uncaught exception and the status of a
  \<^verbatim>\<open>SystemExit\<close> are the interpreter's.\<close>

lemma small_step_equiv:
  "fst ((step ^^ 16) (PParse, frame0, w)) = PExit (fst (run_script w)) \<and>
   snd (snd ((step ^^ 16) (PParse, frame0, w))) = snd (run_script w)"
proof -
  obtain c1 where r1: "runs (PParse, frame0, w) c1"
    and o1: "(fst c1, snd (snd c1)) =
               (case main w of (Inl e, w') \<Rightarrow> (PUnwind e, w') | (Inr _, w') \<Rightarrow> (PExit 0, w'))"
    using main_steps by blast
  obtain pc1 fr1 w1 where c1: "c1 = (pc1, fr1, w1)" by (cases c1)
  obtain r w' where mw: "main w = (r, w')" by (cases "main w")
  obtain c' where r: "runs (PParse, frame0, w) c'"
    and c': "fst c' = PExit (fst (run_script w))" "snd (snd c') = snd (run_script w)"
  proof (cases r)
    case (Inr u)
    with o1 c1 mw r1 show ?thesis by (intro that [of c1]) (simp_all add: run_script_def)
  next
    case (Inl e)
    with o1 c1 mw have c1': "c1 = (PUnwind e, fr1, w')" by simp
    have "runs (PParse, frame0, w) (step c1)"
      using runs_trans [OF r1 runs_step [OF runs_refl]] .
    moreover have "fst (step c1) = PExit (fst (run_script w))"
      using c1' mw Inl by (cases e) (simp_all add: run_script_def)
    moreover have "snd (snd (step c1)) = snd (run_script w)"
      using c1' mw Inl by (cases e) (simp_all add: run_script_def)
    ultimately show ?thesis using that by blast
  qed
  have "(step ^^ 16) (PParse, frame0, w) = c'"
    by (rule runs_exit_funpow [OF r]) (simp_all add: c' exit_within)
  with c' show ?thesis by simp
qed

end
