(* ===== verification/Script_Events.thy ===== *)
theory Script_Events
  imports Script_Steps
begin

text \<open>
  The script's steps interleaved with changes of its environment: the service may
  become unreachable (\<open>Outage\<close>) or reachable again (\<open>Restore\<close>) between any
  two statements, a schedule being a list of events in which \<open>Tick\<close> is one step of
  the script. Whatever the schedule: the service invariant holds, and the label the
  script adds to the note is one the client holds (C25); an outage just before the
  sync makes the script fail with the change left pending in the client (C26); a run
  makes at most seven library calls and only lets the stored account grow (C27); and
  the confirmation is printed only once the change has reached the service (C28).
\<close>

datatype event = Tick | Outage | Restore

fun env_event :: "event \<Rightarrow> 'x cfg \<Rightarrow> 'x cfg" where
  "env_event Tick c = step c"
| "env_event Outage (p, fr, w) = (p, fr, w\<lparr>online := False\<rparr>)"
| "env_event Restore (p, fr, w) = (p, fr, w\<lparr>online := True\<rparr>)"

definition interleave :: "event list \<Rightarrow> 'x cfg \<Rightarrow> 'x cfg" where
  "interleave evs c = fold env_event evs c"

text \<open>
  The frame's part of the invariant: after \<^verbatim>\<open>findLabel\<close> (line 37) the label found,
  if any, and at \<^verbatim>\<open>note.labels.add\<close> (line 40) the label to add, is a label of the
  client's local copy.
\<close>

fun label_known :: "pc \<Rightarrow> frame \<Rightarrow> 'x world_scheme \<Rightarrow> bool" where
  "label_known PCheckLabel fr w =
     (case f_label fr of None \<Rightarrow> True | Some i \<Rightarrow> i \<in> label_ids (local_db (client w)))"
| "label_known PAdd fr w =
     (case f_label fr of None \<Rightarrow> False | Some i \<Rightarrow> i \<in> label_ids (local_db (client w)))"
| "label_known _ fr w = True"

definition cfg_inv :: "'x cfg \<Rightarrow> bool" where
  "cfg_inv c \<longleftrightarrow> svc_inv (snd (snd c)) \<and> label_known (fst c) (fst (snd c)) (snd (snd c))"

text \<open>
  The library calls the script can still make from a program point, at most: one each
  at \<^verbatim>\<open>gkeepapi.Keep()\<close>, \<^verbatim>\<open>login\<close>, \<^verbatim>\<open>get\<close>, \<^verbatim>\<open>findLabel\<close>,
  \<^verbatim>\<open>createLabel\<close>, \<^verbatim>\<open>labels.add\<close> and \<^verbatim>\<open>sync\<close> still ahead.
\<close>

fun call_budget :: "pc \<Rightarrow> nat" where
  "call_budget PParse = 7"
| "call_budget PGetEmail = 7"
| "call_budget PGetPassword = 7"
| "call_budget PCheckCreds = 7"
| "call_budget PNew = 7"
| "call_budget PLogin = 6"
| "call_budget PCheckLogin = 5"
| "call_budget PGet = 5"
| "call_budget PCheckNote = 4"
| "call_budget PFind = 4"
| "call_budget PCheckLabel = 3"
| "call_budget PCreate = 3"
| "call_budget PAdd = 2"
| "call_budget PSync = 1"
| "call_budget _ = 0"

text \<open>The client's copy and the stored account agree, with nothing pending: what
  \<^verbatim>\<open>keep.sync()\<close> (line 41) establishes when it returns.\<close>

definition synced :: "'x world_scheme \<Rightarrow> bool" where
  "synced w \<longleftrightarrow> pending (client w) = [] \<and> local_db (client w) = remote w"

text \<open>What unfolds one step on a symbolic configuration.\<close>

lemmas step_unfold = exec_def keep_ops pyst_simps parse_args_def Let_def record_change_def
  log_call_def

lemmas step_splits = prod.splits sum.splits if_splits option.splits parse_outcome.splits

lemma svc_inv_world_only [simp]:
  "svc_inv (w\<lparr>stdout := out\<rparr>) = svc_inv w" "svc_inv (w\<lparr>stderr := e\<rparr>) = svc_inv w"
  "svc_inv (w\<lparr>online := b\<rparr>) = svc_inv w"
  by (simp_all add: svc_inv_def)

lemma label_known_online [simp]: "label_known p fr (w\<lparr>online := b\<rparr>) = label_known p fr w"
  by (cases "(p, fr, w)" rule: label_known.cases) (simp_all split: option.splits)

lemma world_ops_inv:
  "preserves svc_inv (parse_args d specs)" "preserves svc_inv (os_getenv k)"
  "preserves svc_inv (print_line msg)"
  by (auto intro!: preservesI simp: pyst_simps parse_args_def split: parse_outcome.splits)

lemma cfg_inv_triple: "cfg_inv (p, fr, w) \<longleftrightarrow> svc_inv w \<and> label_known p fr w"
  by (simp add: cfg_inv_def)

lemma exec_inv:
  assumes "preserves svc_inv m" and "svc_inv w"
    and "\<And>a w'. m w = (Inr a, w') \<Longrightarrow> label_known (fst (k a fr)) (snd (k a fr)) w'"
  shows "cfg_inv (exec m k fr w)"
  using preservesD [OF assms(1,2)] assms(3)
  by (auto simp: exec_def cfg_inv_def split: prod.splits sum.splits)

lemma find_label_known:
  "keep_findLabel name w = (Inr l, w') \<Longrightarrow>
   (case l of None \<Rightarrow> True | Some i \<Rightarrow> i \<in> label_ids (local_db (client w')))"
  by (auto simp: pyst_simps find_label_Some_ids split: option.splits)

lemma create_label_known:
  "keep_createLabel name w = (Inr i, w') \<Longrightarrow> i \<in> label_ids (local_db (client w'))"
  by (auto simp: keep_createLabel_def pyst_simps Let_def label_ids_def record_change_def
        log_call_def split: if_splits)

lemma add_step_inv:
  assumes "svc_inv w" and "label_known PAdd fr w"
  shows "cfg_inv (exec (note_labels_add (the (f_note fr)) (the (f_label fr))) (\<lambda>_ fr. (PSync, fr)) fr w)"
  using assms note_labels_add_inv [of w "the (f_label fr)" "the (f_note fr)"]
  by (auto simp: exec_def cfg_inv_def pyst_simps split: option.splits)

lemma step_inv: "cfg_inv c \<Longrightarrow> cfg_inv (step c)"
proof (induction c rule: step.induct)
  case (13 fr w)
  then show ?case unfolding step.simps by (intro add_step_inv) (simp_all add: cfg_inv_def)
qed (simp_all only: step.simps, auto simp: cfg_inv_triple find_label_known create_label_known
      intro!: exec_inv world_ops_inv keep_new_inv keep_login_inv keep_get_inv keep_findLabel_inv
      keep_createLabel_inv keep_sync_inv split: option.splits)

lemma env_event_inv: "cfg_inv c \<Longrightarrow> cfg_inv (env_event e c)"
  by (cases "(e, c)" rule: env_event.cases) (simp add: step_inv, simp_all add: cfg_inv_def)

lemma interleave_Cons [simp]: "interleave (e # evs) c = interleave evs (env_event e c)"
  by (simp add: interleave_def)

lemma interleave_Nil [simp]: "interleave [] c = c"
  by (simp add: interleave_def)

lemma interleave_inv: "cfg_inv c \<Longrightarrow> cfg_inv (interleave evs c)"
  by (induction evs arbitrary: c) (simp_all add: env_event_inv)

text \<open>C25. Invariant under any interleaving: from a process whose service satisfies
  \<open>svc_inv\<close>, every configuration that any schedule of script steps, outages and
  restorations reaches satisfies \<open>svc_inv\<close>, and when the script is at
  \<^verbatim>\<open>note.labels.add\<close> its label is one of the client's local copy.\<close>

theorem interleave_keeps_inv:
  assumes "svc_inv w"
  shows "cfg_inv (interleave evs (PParse, frame0, w))"
  using assms by (intro interleave_inv) (simp add: cfg_inv_def)

lemma interleave_append: "interleave (xs @ ys) c = interleave ys (interleave xs c)"
  by (simp add: interleave_def)

lemma interleave_ticks: "interleave (replicate n Tick) c = (step ^^ n) c"
  by (induction n arbitrary: c) (simp_all add: funpow_swap1)

lemmas script_run_defs = numeral_eq_Suc exec_def parse_args_ok creds_set_def pyst_simps ns_attr_def
  keep_ops Let_def add_label_local_def logged_in_def login_sent_def label_changes_def
  add_label_calls_def resolved_label_def record_change_def log_call_def apply_changes_def

lemma steps_to_sync:
  assumes "creds_set w (acct_email w) (acct_password w)" and "online w"
    and "argparse keep_tags_parser (argv w) = Parsed ns"
    and "map_of ns ''note'' = Some nid" and "map_of ns ''label'' = Some name"
    and "note_labels (remote w) nid = Some ls"
  shows "\<exists>fr. (step ^^ (if find_label (remote w) name = None then 13 else 12)) (PParse, frame0, w) =
           (PSync, fr, add_label_local nid name (logged_in (acct_email w) w))"
  using assms by (cases "find_label (remote w) name") (simp_all add: script_run_defs)

text \<open>C26. An outage between the login and the sync, at script level: on the run of
  the first end-to-end scenario (C5), if the service becomes unreachable just before
  \<^verbatim>\<open>keep.sync()\<close>, the script exits with status 1 and a traceback naming the library's
  \<^verbatim>\<open>APIException\<close>, prints no confirmation, and leaves the stored account unchanged, while
  the client's copy has the label applied and the change is still pending.\<close>

theorem outage_before_sync:
  assumes "creds_set w (acct_email w) (acct_password w)" and "online w"
    and "argparse keep_tags_parser (argv w) = Parsed ns"
    and "map_of ns ''note'' = Some nid" and "map_of ns ''label'' = Some name"
    and "note_labels (remote w) nid = Some ls"
  shows "\<exists>fr w'. interleave (replicate (if find_label (remote w) name = None then 13 else 12) Tick @
                     [Outage, Tick, Tick]) (PParse, frame0, w) = (PExit 1, fr, w') \<and>
           remote w' = remote w \<and> stdout w' = stdout w \<and>
           stderr w' = stderr w @ [''Traceback (most recent call last):'',
                                   exc_report (NetworkError ''sync failed'')] \<and>
           label_applied (remote w) (local_db (client w')) nid name \<and> pending (client w') \<noteq> []"
proof -
  let ?s = "add_label_local nid name (logged_in (acct_email w) w)"
  obtain fr where s: "(step ^^ (if find_label (remote w) name = None then 13 else 12))
      (PParse, frame0, w) = (PSync, fr, ?s)"
    using steps_to_sync [OF assms] by blast
  have sync: "keep_sync (?s\<lparr>online := False\<rparr>) =
      (Inl (NetworkError ''sync failed''), log_call ApiSync (?s\<lparr>online := False\<rparr>))"
    by (simp add: keep_sync_fails)
  show ?thesis
    using label_changes_applied [OF assms(6), of "next_id w" name]
    by (simp add: interleave_append interleave_ticks s exec_def sync)
       (simp add: add_label_local_def Let_def label_changes_def)
qed

lemma step_grows: "grows (remote (snd (snd c))) (remote (snd (snd (step c))))"
  by (cases c rule: step.cases) (auto simp: step_unfold grows_apply_changes split: step_splits)

text \<open>C27. Bounds of a run under any interleaving: whatever outages and restorations
  happen between the statements, and however many steps the schedule gives the
  script, it makes at most seven calls to the library, and the stored account only
  grows (labels are appended, no note is created or removed, no label is taken off a
  note). Each step's calls are paid for by the budget of its program point.\<close>

theorem interleave_bounds:
  "length (calls (snd (snd (interleave evs (PParse, frame0, w))))) \<le> length (calls w) + 7 \<and>
   grows (remote w) (remote (snd (snd (interleave evs (PParse, frame0, w)))))"
proof -
  have pot: "length (calls (snd (snd (step c)))) + call_budget (fst (step c)) \<le>
             length (calls (snd (snd c))) + call_budget (fst c)" for c :: "'x cfg"
    by (cases c rule: step.cases) (auto simp: step_unfold split: step_splits)
  have "length (calls (snd (snd (interleave evs c)))) + call_budget (fst (interleave evs c)) \<le>
          length (calls (snd (snd c))) + call_budget (fst c) \<and>
        grows (remote (snd (snd c))) (remote (snd (snd (interleave evs c))))" for c :: "'x cfg"
  proof (induction evs arbitrary: c)
    case (Cons e evs)
    have "length (calls (snd (snd (env_event e c)))) + call_budget (fst (env_event e c)) \<le>
            length (calls (snd (snd c))) + call_budget (fst c) \<and>
          grows (remote (snd (snd c))) (remote (snd (snd (env_event e c))))"
      using pot [of c] step_grows [of c] by (cases "(e, c)" rule: env_event.cases) simp_all
    with Cons [of "env_event e c"] show ?case by (auto intro: grows_trans)
  qed simp
  from this [of "(PParse, frame0, w)"] show ?thesis by simp
qed

text \<open>C28. The confirmation is printed only after the change has reached the service,
  under any interleaving: on a command line that parses, whatever outages and
  restorations happen and however far the schedule lets the script run, once
  \<^verbatim>\<open>print\<close> (line 52) has written to stdout the sync has returned, nothing is
  pending in the client and the client's copy is the stored account.\<close>

theorem confirmation_after_sync:
  fixes w :: "'x world_scheme"
  assumes "argparse keep_tags_parser (argv w) = Parsed ns"
  shows "stdout (snd (snd (interleave evs (PParse, frame0, w)))) \<noteq> stdout w \<longrightarrow>
         synced (snd (snd (interleave evs (PParse, frame0, w))))"
proof -
  define I where "I c \<longleftrightarrow> argv (snd (snd c)) = argv w \<and>
      (fst c = PPrint \<longrightarrow> synced (snd (snd c))) \<and>
      (stdout (snd (snd c)) \<noteq> stdout w \<longrightarrow> fst c = PExit 0 \<and> synced (snd (snd c)))"
    for c :: "'x cfg"
  have step: "I (step c)" if "I c" for c
    using that assms
    by (cases c rule: step.cases)
       (auto simp: I_def synced_def step_unfold parse_args_def split: step_splits)
  have "I (interleave evs c)" if "I c" for c
    using that
  proof (induction evs arbitrary: c)
    case (Cons e evs)
    have "I (env_event e c)"
      using Cons.prems step [OF Cons.prems]
      by (cases "(e, c)" rule: env_event.cases) (simp_all add: I_def synced_def)
    then show ?case using Cons.IH by simp
  qed simp
  from this [of "(PParse, frame0, w)"] show ?thesis by (simp add: I_def)
qed

end
