(* ===== verification/Spec2Isabelle.thy ===== *)
theory Spec2Isabelle
  imports Scenarios Outcomes Refinement Usage_Doc Frames Script_Events
begin

text \<open>
  \<^bold>\<open>Verification of \<^verbatim>\<open>src/google_keep_tags.py\<close>.\<close>

  \<^emph>\<open>The program.\<close> A command-line script that labels one note of a note-taking
  service. \<^verbatim>\<open>main()\<close> (lines 44--52) parses \<^verbatim>\<open>--note\<close> and \<^verbatim>\<open>--label\<close> with
  argparse, calls \<^verbatim>\<open>login()\<close> (lines 21--30: read \<^verbatim>\<open>KEEP_EMAIL\<close> and
  \<^verbatim>\<open>KEEP_PASSWORD\<close>, create the client, log in) and \<^verbatim>\<open>add_label()\<close> (lines 33--41:
  look the note up, find or create the label, add it to the note, synchronise), then
  prints a confirmation. Lines 55--56 run \<^verbatim>\<open>main()\<close>; the interpreter turns an
  uncaught exception into status 1. All state lives in the client library
  \<^verbatim>\<open>gkeepapi\<close> and the service behind it, which are not part of the repository.

  \<^emph>\<open>The library.\<close>
  \<^item> \<open>Prelude\<close>: Python statements as functions from a state to a result and the
    next state, \<open>('s, 'a) pyst\<close>, with \<open>Inl\<close> of the raised exception
    (\<open>exc\<close>) and the state at the raise; \<open>bindE\<close> sequences statements,
    \<open>preserves\<close> states that a statement keeps an invariant and
    \<open>raises_only\<close> which exceptions it can raise, with rules that compose
    them; Python truthiness; list and dictionary (association list) lemmas.
  \<^item> \<open>Keep_Service\<close>: the collaborator, modelled from the contract of spec
    section 6. An account (\<open>keep_db\<close>: notes with their label-id sets, labels with
    id and name); the client object (\<open>keep\<close>: session, local copy, pending
    changes); the service and process-wide client (\<open>svc\<close>: credentials,
    reachability, stored account, id generator, trace of calls as
    \<open>api_call\<close> values). One definition per call the script makes:
    \<open>keep_new\<close>, \<open>keep_login\<close>, \<open>keep_get\<close>, \<open>keep_findLabel\<close>,
    \<open>keep_createLabel\<close>, \<open>note_labels_add\<close>, \<open>keep_sync\<close>. The library's
    random label ids are a counter (\<open>next_id\<close>): only their freshness matters.
  \<^item> \<open>Keep_Invariant\<close>: \<open>wf_db\<close> (unique note keys, unique label ids and names,
    ids below the generator, notes refer to existing labels) and \<open>svc_inv\<close>
    (both copies well formed; with a session open, the client's copy is the stored
    account with the pending changes applied); one preservation lemma per call;
    \<open>grows\<close>, one account extending another, which applying changes keeps.
  \<^item> \<open>Process\<close>: the interpreter's state as an extension of \<open>svc\<close>
    (\<open>world\<close>: \<^verbatim>\<open>os.environ\<close>, program name, \<^verbatim>\<open>sys.argv[1:]\<close>, stdout,
    stderr), \<^verbatim>\<open>os.environ.get\<close> and \<^verbatim>\<open>print\<close>.
  \<^item> \<open>Login\<close>: \<open>login\<close>; its exits (missing credentials C3, rejected C4,
    unreachable, success C9).
  \<^item> \<open>Add_Label\<close>: \<open>add_label\<close>; the contract of spec section 4.2 as
    \<open>label_applied\<close>; success C1, missing note C2, existing label reused C7,
    idempotence C8, failed sync leaves a partial state C10.
  \<^item> \<open>Argparse\<close>: the parser of lines 45--47 as data (\<open>keep_tags_parser\<close>)
    and argparse's parsing for it (\<open>argparse\<close>, modelled from the library's
    documented algorithm: exact, \<^verbatim>\<open>=\<close> and abbreviated long options, help,
    \<^verbatim>\<open>--\<close>, negative numbers as values, required and unrecognized checks); the
    round trips C11 (\<^verbatim>\<open>=\<close> form) and C16 (space-separated, every abbreviation);
    a parsed namespace has exactly the attributes \<^verbatim>\<open>note\<close> and \<^verbatim>\<open>label\<close> C17;
    the boundary command lines (empty, one option missing, a value missing) fail with
    argparse's messages C24.
  \<^item> \<open>Cli\<close>: \<open>parse_args\<close>, \<open>main\<close>, the confirmation message and
    \<open>run_script\<close> (exit status and traceback).
  \<^item> \<open>Outcomes\<close>: which exceptions each statement can raise
    (\<open>raises_only\<close>), hence the
    five errors a status-1 run can report (\<open>script_error\<close>) C19; the order of
    the library calls on every run, a prefix of \<open>script_calls\<close> C14; the run with
    a missing credential C15; the output streams (\<open>keeps_output\<close>): after a
    parsed command line the confirmation is printed exactly when the status is 0 C18.
  \<^item> \<open>Refinement\<close>: the abstract specification of the whole script, a decision
    table in the spec's terms (\<open>spec_outcome\<close>) with the status, stdout lines,
    stored account and library calls each outcome prescribes (\<open>outcome_status\<close>,
    \<open>spec_stdout\<close>, \<open>spec_account\<close>, \<open>spec_calls\<close>, the direct update
    \<open>abs_apply_label\<close>), and the refinement theorem: every run of the script
    produces exactly these observations C20; the bounds of one run (at most seven
    calls, at most one new label, no note created or removed) C22.
  \<^item> \<open>Usage_Doc\<close>: the module docstring (lines 2--14) as data: the documented
    environment variables (\<open>doc_env_vars\<close>), invocation (\<open>doc_invocation\<close>)
    and steps (\<open>doc_steps\<close>); the documented invocation parses, and a successful
    run makes its calls in the documented order C23.
  \<^item> \<open>Frames\<close>: what a run does not depend on (\<open>commutes\<close>, composed through
    \<open>bindE\<close>): the script reads no environment variable but the two documented
    ones C21.
  \<^item> \<open>Script_Steps\<close>: the script as a small-step machine, one step per
    statement of \<^verbatim>\<open>login()\<close>, \<^verbatim>\<open>add_label()\<close> and \<^verbatim>\<open>main()\<close> in call
    order (\<open>pc\<close>, the program points; \<open>frame\<close>, the locals; \<open>step\<close>, one
    statement, a raise jumping to the interpreter's unwinding \<open>PUnwind\<close> and then to
    \<open>PExit\<close>); \<open>runs\<close>, its reflexive-transitive closure. Every step before an
    exit lowers \<open>rank\<close>, so the execution has ended after 16 steps, with the status
    and process state of \<open>run_script\<close> (\<open>small_step_equiv\<close>): the machine is
    the program of \<open>Cli\<close>, statement by statement.
  \<^item> \<open>Script_Events\<close>: the steps interleaved with the environment's events, an
    outage or a restoration of the service between any two statements (\<open>event\<close>,
    \<open>env_event\<close>, \<open>interleave\<close>). Under every schedule: \<open>svc_inv\<close> holds and
    the label added to the note is one the client holds (\<open>cfg_inv\<close>) C25. On the
    successful run of C5, an outage just before the sync makes the script exit 1 with
    the library's error, the label applied in the client only and still pending C26:
    the partial state of C10, at script level. A run makes at most seven library calls
    and the stored account only grows C27 (a potential argument: \<open>call_budget\<close>
    counts the calls still ahead of a program point); this covers runs whose sync
    fails, which \<open>run_script\<close> with a fixed reachability cannot show. The
    confirmation is printed only once the sync has returned, with nothing pending
    (\<open>synced\<close>) C28.
  \<^item> \<open>Scenarios\<close>: the concrete account and processes of spec section 8, and the
    closed instances (witnesses) of the component theorems.
  \<^item> This theory: the properties of the whole script, end to end: success C5, missing
    note C6, usage error C12, help C13, and the witnesses of the claims of
    \<open>Outcomes\<close> and \<open>Script_Events\<close>.

  \<^emph>\<open>Correspondence.\<close> The process-wide client \<^verbatim>\<open>keep\<close> is the \<open>client\<close>
  field of the state; \<^verbatim>\<open>login()\<close> therefore returns unit and \<^verbatim>\<open>add_label\<close> takes
  no client argument. Every \<^verbatim>\<open>raise\<close> and early exit of the source is an
  \<open>Inl\<close> branch. No loop of the program is unbounded: the only recursions
  (\<open>consume\<close> over the command line, one or two tokens per step, and
  \<open>apply_changes\<close>, a fold over the pending changes) decrease the length of a
  list, so no fuel is needed and every definition is total.

  \<^emph>\<open>Not modelled.\<close> The wire protocol, authentication tokens and the library's
  internal retries (spec section 1 puts them out of scope); concurrent changes to the
  account by other clients (the process is single-threaded and the spec assumes
  none), so a sync sends the pending changes and reloads the result; the frames of a
  traceback and the column layout of argparse's help; argparse's ambiguous-prefix
  error, which this parser cannot produce; the installation step of the docstring
  (lines 5--6), which concerns the environment and not the program. The program has no
  loop: the statement-level execution ends within 16 steps, the rank of the first
  statement (one step for each of the 15 statements on the longest path and one for
  the unwinding), so no fuel is needed and no termination property is stated apart
  from that bound.

  A failed sync cannot arise in a run of \<open>run_script\<close>, where the service's
  reachability (\<open>online\<close>) is fixed for the run and a successful login needs it; the
  sync failure is stated for \<open>add_label\<close> (C10), and the interleavings of
  \<open>Script_Events\<close> let an outage fall between the login and the sync.

  The library (\<^verbatim>\<open>gkeepapi\<close>) and argparse are modelled only as far as the
  script uses them, from their documented behaviour, hence their status \<open>partly\<close>:
  the calls of \<open>Keep_Service\<close> and the parsing of two required string options.
  The imports (lines 16--18) and the docstring's summary line (line 2) and
  installation step (lines 5--6) translate to nothing in the model.
\<close>

text \<open>C5. End to end (spec section 8, first scenario): with both credential variables set to the account's credentials, a reachable service, a command line that parses to a note id and a label name, and the note present in the account, the script exits with status 0, prints \<^verbatim>\<open>Label '<name>' added to note <id>\<close> and nothing on stderr, and the service stores the account with the label applied as spec section 4.2 requires.\<close>

theorem main_success:
  assumes "svc_inv w" and "creds_set w (acct_email w) (acct_password w)" and "online w"
    and "argparse keep_tags_parser (argv w) = Parsed ns"
    and "map_of ns ''note'' = Some nid" and "map_of ns ''label'' = Some name"
    and "note_labels (remote w) nid = Some ls"
  shows "\<exists>w'. run_script w = (0, w') \<and>
           stdout w' = stdout w @ [label_added_msg name nid] \<and> stderr w' = stderr w \<and>
           label_applied (remote w) (remote w') nid name"
proof -
  let ?w1 = "logged_in (acct_email w) w"
  have login: "login w = (Inr (), ?w1)" by (rule login_ok [OF assms(2,3) refl refl])
  have inv1: "svc_inv ?w1" using preservesD [OF login_preserves assms(1)] login by simp
  have n1: "note_labels (local_db (client ?w1)) nid = Some ls" using assms(7) by simp
  have on1: "online ?w1" and ses1: "session (client ?w1) \<noteq> None" using assms(3) by simp_all
  show ?thesis
    using add_label_synced [OF inv1 n1 on1 ses1, of name]
      label_changes_applied [OF assms(7), of "next_id w" name]
    by (simp add: main_parsed [OF assms(4-6)] login run_script_def pyst_simps
          add_label_local_def Let_def)
qed

text \<open>C6. End to end (spec section 8, second scenario): when the note does not exist, the script exits with status 1 and a \<^verbatim>\<open>ValueError\<close> traceback, after calling only the client's constructor, the login and the note lookup: no label is created and nothing is synchronised, so the stored account is unchanged.\<close>

theorem main_note_missing:
  assumes "creds_set w (acct_email w) (acct_password w)" and "online w"
    and "argparse keep_tags_parser (argv w) = Parsed ns"
    and "map_of ns ''note'' = Some nid" and "map_of ns ''label'' = Some name"
    and "note_labels (remote w) nid = None"
  shows "\<exists>w'. run_script w = (1, w') \<and>
           calls w' = calls w @ [ApiNew, ApiLogin (acct_email w), ApiGet nid] \<and>
           remote w' = remote w \<and> stdout w' = stdout w \<and>
           stderr w' = stderr w @ [''Traceback (most recent call last):'',
                                   ''ValueError: Note '' @ nid @ '' not found'']"
proof -
  let ?w1 = "logged_in (acct_email w) w"
  have login: "login w = (Inr (), ?w1)" by (rule login_ok [OF assms(1,2) refl refl])
  have n1: "note_labels (local_db (client ?w1)) nid = None" using assms(6) by simp
  show ?thesis
    by (simp add: main_parsed [OF assms(3-5)] login add_label_missing [OF n1] run_script_def)
qed

text \<open>C12. A command line that argparse rejects (a missing flag, a flag without its value, an unknown argument) ends the script with status 2 and the usage line and error message on stderr, before any credential is read or any call reaches the library.\<close>

theorem main_usage_error:
  assumes "argparse keep_tags_parser (argv w) = ParseError msg"
  shows "run_script w =
           (2, w\<lparr>stderr := stderr w @ [usage_line (prog w) keep_tags_parser,
                                       prog w @ '': error: '' @ msg]\<rparr>)"
  using assms by (simp add: run_script_def main_def parse_args_error)

text \<open>C13. A command line on which argparse meets \<^verbatim>\<open>-h\<close> or \<^verbatim>\<open>--help\<close> first ends the script with status 0 after printing the help on stdout, without the confirmation line, without reading the credentials and without any call to the library.\<close>

theorem main_help:
  assumes "argparse keep_tags_parser (argv w) = ParseHelp"
  shows "run_script w =
           (0, w\<lparr>stdout := stdout w @ help_lines (prog w) keep_tags_description keep_tags_parser\<rparr>)"
  using assms by (simp add: run_script_def main_def parse_args_help)

text \<open>Witness of C5: \<^verbatim>\<open>--note abc123 --label Urgent\<close> with valid credentials.\<close>

theorem main_success_witness:
  "svc_inv (keep_world [''--note'', ''abc123'', ''--label'', ''Urgent''] good_env) \<and>
   creds_set (keep_world [''--note'', ''abc123'', ''--label'', ''Urgent''] good_env)
     ''me@example.com'' ''app-pass'' \<and>
   online (keep_world [''--note'', ''abc123'', ''--label'', ''Urgent''] good_env) \<and>
   argparse keep_tags_parser [''--note'', ''abc123'', ''--label'', ''Urgent''] =
     Parsed [(''note'', ''abc123''), (''label'', ''Urgent'')] \<and>
   note_labels acct_db ''abc123'' = Some {0} \<and>
   (\<exists>w'. run_script (keep_world [''--note'', ''abc123'', ''--label'', ''Urgent''] good_env) = (0, w') \<and>
      stdout w' = [label_added_msg ''Urgent'' ''abc123''] \<and> stderr w' = [] \<and>
      label_applied acct_db (remote w') ''abc123'' ''Urgent'')"
proof -
  let ?w = "keep_world [''--note'', ''abc123'', ''--label'', ''Urgent''] good_env"
  have h: "creds_set ?w (acct_email ?w) (acct_password ?w)" "online ?w"
    "argparse keep_tags_parser (argv ?w) = Parsed [(''note'', ''abc123''), (''label'', ''Urgent'')]"
    "map_of [(''note'', ''abc123''), (''label'', ''Urgent'')] ''note'' = Some ''abc123''"
    "map_of [(''note'', ''abc123''), (''label'', ''Urgent'')] ''label'' = Some ''Urgent''"
    "note_labels (remote ?w) ''abc123'' = Some {0}"
    by (simp_all add: scenario_defs creds_set_def note_labels_def)
      (simp add: argparse_def keep_tags_parser_def classify_def split_eq_def resolve_long_def
         long_kind_def finish_def)
  show ?thesis
    using keep_world_inv h main_success [OF keep_world_inv h]
    by (simp add: scenario_defs creds_set_def note_labels_def)
qed

text \<open>Witness of C6: \<^verbatim>\<open>--note missing --label Urgent\<close>.\<close>

theorem main_note_missing_witness:
  "argparse keep_tags_parser [''--note'', ''missing'', ''--label'', ''Urgent''] =
     Parsed [(''note'', ''missing''), (''label'', ''Urgent'')] \<and>
   note_labels acct_db ''missing'' = None \<and>
   (\<exists>w'. run_script (keep_world [''--note'', ''missing'', ''--label'', ''Urgent''] good_env) = (1, w') \<and>
      calls w' = [ApiNew, ApiLogin ''me@example.com'', ApiGet ''missing''] \<and>
      remote w' = acct_db \<and> stdout w' = [] \<and>
      stderr w' = [''Traceback (most recent call last):'', ''ValueError: Note missing not found''])"
proof -
  let ?w = "keep_world [''--note'', ''missing'', ''--label'', ''Urgent''] good_env"
  have h: "creds_set ?w (acct_email ?w) (acct_password ?w)" "online ?w"
    "argparse keep_tags_parser (argv ?w) = Parsed [(''note'', ''missing''), (''label'', ''Urgent'')]"
    "map_of [(''note'', ''missing''), (''label'', ''Urgent'')] ''note'' = Some ''missing''"
    "map_of [(''note'', ''missing''), (''label'', ''Urgent'')] ''label'' = Some ''Urgent''"
    "note_labels (remote ?w) ''missing'' = None"
    by (simp_all add: scenario_defs creds_set_def note_labels_def)
      (simp add: argparse_def keep_tags_parser_def classify_def split_eq_def resolve_long_def
         long_kind_def finish_def)
  show ?thesis
    using h main_note_missing [OF h]
    by (simp add: scenario_defs creds_set_def note_labels_def)
qed

text \<open>Witness of C12: \<^verbatim>\<open>--note abc123\<close> without \<^verbatim>\<open>--label\<close>.\<close>

theorem main_usage_error_witness:
  "argparse keep_tags_parser [''--note'', ''abc123''] =
     ParseError ''the following arguments are required: --label'' \<and>
   run_script (keep_world [''--note'', ''abc123''] good_env) =
     (2, (keep_world [''--note'', ''abc123''] good_env)\<lparr>stderr :=
        [''usage: google_keep_tags.py [-h] --note NOTE --label LABEL'',
         ''google_keep_tags.py: error: the following arguments are required: --label'']\<rparr>)"
proof -
  let ?w = "keep_world [''--note'', ''abc123''] good_env"
  have h: "argparse keep_tags_parser (argv ?w) =
             ParseError ''the following arguments are required: --label''"
    by (simp add: keep_world_def argparse_def keep_tags_parser_def classify_def split_eq_def
          resolve_long_def long_kind_def finish_def)
  have u: "usage_line (prog ?w) keep_tags_parser =
             ''usage: google_keep_tags.py [-h] --note NOTE --label LABEL''"
    by code_simp
  show ?thesis
    using h u main_usage_error [OF h] by (simp add: keep_world_def)
qed

text \<open>Witness of C13: \<^verbatim>\<open>--note abc123 -h\<close>.\<close>

theorem main_help_witness:
  "argparse keep_tags_parser [''--note'', ''abc123'', ''-h''] = ParseHelp \<and>
   fst (run_script (keep_world [''--note'', ''abc123'', ''-h''] good_env)) = 0 \<and>
   calls (snd (run_script (keep_world [''--note'', ''abc123'', ''-h''] good_env))) = []"
proof -
  let ?w = "keep_world [''--note'', ''abc123'', ''-h''] good_env"
  have h: "argparse keep_tags_parser (argv ?w) = ParseHelp"
    by (simp add: keep_world_def argparse_def keep_tags_parser_def classify_def split_eq_def
          resolve_long_def long_kind_def)
  show ?thesis using h main_help [OF h] by (simp add: keep_world_def)
qed

text \<open>Witness of C14: the first scenario of spec section 8.\<close>

theorem run_script_call_order_witness:
  "argparse keep_tags_parser [''--note'', ''abc123'', ''--label'', ''Urgent''] =
     Parsed [(''note'', ''abc123''), (''label'', ''Urgent'')] \<and>
   (\<exists>t. calls (snd (run_script (keep_world [''--note'', ''abc123'', ''--label'', ''Urgent''] good_env)))
        = t \<and> prefix t (script_calls ''me@example.com'' acct_db 1 ''abc123'' ''Urgent''))"
proof -
  let ?w = "keep_world [''--note'', ''abc123'', ''--label'', ''Urgent''] good_env"
  have h: "argparse keep_tags_parser (argv ?w) = Parsed [(''note'', ''abc123''), (''label'', ''Urgent'')]"
    "map_of [(''note'', ''abc123''), (''label'', ''Urgent'')] ''note'' = Some ''abc123''"
    "map_of [(''note'', ''abc123''), (''label'', ''Urgent'')] ''label'' = Some ''Urgent''"
    "environ ?w ''KEEP_EMAIL'' = Some ''me@example.com''"
    by (simp_all add: scenario_defs)
      (simp add: argparse_def keep_tags_parser_def classify_def split_eq_def resolve_long_def
         long_kind_def finish_def)
  show ?thesis
    using h run_script_call_order [OF h] by (simp add: keep_world_def)
qed

text \<open>Witness of C15: \<^verbatim>\<open>--note abc123 --label Urgent\<close> with \<^verbatim>\<open>KEEP_PASSWORD\<close> unset.\<close>

theorem main_missing_credentials_witness:
  "argparse keep_tags_parser [''--note'', ''abc123'', ''--label'', ''Urgent''] =
     Parsed [(''note'', ''abc123''), (''label'', ''Urgent'')] \<and>
   environ (keep_world [''--note'', ''abc123'', ''--label'', ''Urgent'']
     [''KEEP_EMAIL'' \<mapsto> ''me@example.com'']) ''KEEP_PASSWORD'' = None \<and>
   run_script (keep_world [''--note'', ''abc123'', ''--label'', ''Urgent'']
     [''KEEP_EMAIL'' \<mapsto> ''me@example.com'']) =
     (1, (keep_world [''--note'', ''abc123'', ''--label'', ''Urgent'']
       [''KEEP_EMAIL'' \<mapsto> ''me@example.com''])\<lparr>stderr :=
        [''Traceback (most recent call last):'',
         ''ValueError: KEEP_EMAIL and KEEP_PASSWORD must be set'']\<rparr>)"
proof -
  let ?w = "keep_world [''--note'', ''abc123'', ''--label'', ''Urgent'']
              [''KEEP_EMAIL'' \<mapsto> ''me@example.com'']"
  have h: "argparse keep_tags_parser (argv ?w) = Parsed [(''note'', ''abc123''), (''label'', ''Urgent'')]"
    "\<not> py_truthy (environ ?w ''KEEP_EMAIL'') \<or> \<not> py_truthy (environ ?w ''KEEP_PASSWORD'')"
    by (simp_all add: keep_world_def)
      (simp add: argparse_def keep_tags_parser_def classify_def split_eq_def resolve_long_def
         long_kind_def finish_def)
  show ?thesis
    using h main_missing_credentials [OF h] by (simp add: keep_world_def)
qed

text \<open>Witness of C18: the first scenario of spec section 8.\<close>

theorem run_script_output_witness:
  "argparse keep_tags_parser [''--note'', ''abc123'', ''--label'', ''Urgent''] =
     Parsed [(''note'', ''abc123''), (''label'', ''Urgent'')] \<and>
   fst (run_script (keep_world [''--note'', ''abc123'', ''--label'', ''Urgent''] good_env)) \<in> {0, 1} \<and>
   stdout (snd (run_script (keep_world [''--note'', ''abc123'', ''--label'', ''Urgent''] good_env))) =
     (if fst (run_script (keep_world [''--note'', ''abc123'', ''--label'', ''Urgent''] good_env)) = 0
      then [label_added_msg ''Urgent'' ''abc123''] else [])"
proof -
  let ?w = "keep_world [''--note'', ''abc123'', ''--label'', ''Urgent''] good_env"
  have h: "argparse keep_tags_parser (argv ?w) = Parsed [(''note'', ''abc123''), (''label'', ''Urgent'')]"
    "map_of [(''note'', ''abc123''), (''label'', ''Urgent'')] ''note'' = Some ''abc123''"
    "map_of [(''note'', ''abc123''), (''label'', ''Urgent'')] ''label'' = Some ''Urgent''"
    by (simp_all add: keep_world_def)
      (simp add: argparse_def keep_tags_parser_def classify_def split_eq_def resolve_long_def
         long_kind_def finish_def)
  show ?thesis using h run_script_output [OF h] by (simp add: keep_world_def)
qed

text \<open>Witness of C19: \<^verbatim>\<open>--note missing --label Urgent\<close>, the second scenario of spec
  section 8.\<close>

theorem run_script_error_kinds_witness:
  "run_script (keep_world [''--note'', ''missing'', ''--label'', ''Urgent''] good_env) =
     (1, (log_call (ApiGet ''missing'') (logged_in ''me@example.com''
            (keep_world [''--note'', ''missing'', ''--label'', ''Urgent''] good_env)))
         \<lparr>stderr := [''Traceback (most recent call last):'', ''ValueError: Note missing not found'']\<rparr>) \<and>
   (\<exists>e w''. script_error ''missing'' e \<and>
      main (keep_world [''--note'', ''missing'', ''--label'', ''Urgent''] good_env) = (Inl e, w'') \<and>
      (log_call (ApiGet ''missing'') (logged_in ''me@example.com''
            (keep_world [''--note'', ''missing'', ''--label'', ''Urgent''] good_env)))
         \<lparr>stderr := [''Traceback (most recent call last):'', ''ValueError: Note missing not found'']\<rparr> =
      w''\<lparr>stderr := stderr w'' @ [''Traceback (most recent call last):'', exc_report e]\<rparr>)"
proof -
  let ?w = "keep_world [''--note'', ''missing'', ''--label'', ''Urgent''] good_env"
  let ?w1 = "logged_in ''me@example.com'' ?w"
  have h: "argparse keep_tags_parser (argv ?w) = Parsed [(''note'', ''missing''), (''label'', ''Urgent'')]"
    "map_of [(''note'', ''missing''), (''label'', ''Urgent'')] ''note'' = Some ''missing''"
    "map_of [(''note'', ''missing''), (''label'', ''Urgent'')] ''label'' = Some ''Urgent''"
    by (simp_all add: keep_world_def)
      (simp add: argparse_def keep_tags_parser_def classify_def split_eq_def resolve_long_def
         long_kind_def finish_def)
  have l: "login ?w = (Inr (), ?w1)"
    by (rule login_ok) (simp_all add: scenario_defs creds_set_def)
  have a: "add_label ''missing'' ''Urgent'' ?w1 =
             (Inl (ValueError ''Note missing not found''), log_call (ApiGet ''missing'') ?w1)"
    by (rule add_label_missing [THEN trans]) (simp_all add: scenario_defs note_labels_def)
  have r: "run_script ?w =
      (1, (log_call (ApiGet ''missing'') ?w1)
         \<lparr>stderr := [''Traceback (most recent call last):'', ''ValueError: Note missing not found'']\<rparr>)"
  proof -
    have m: "main ?w = (Inl (ValueError ''Note missing not found''), log_call (ApiGet ''missing'') ?w1)"
      using l a by (simp add: main_parsed [OF h])
    have "stderr (log_call (ApiGet ''missing'') ?w1) = []"
      by (simp add: keep_world_def logged_in_def login_sent_def)
    with run_script_raise [OF m] show ?thesis by simp
  qed
  show ?thesis using r run_script_error_kinds [OF h r] by blast
qed

text \<open>Witness of C23: the first scenario of spec section 8.\<close>

theorem documented_usage_witness:
  "argparse keep_tags_parser [''--note'', ''abc123'', ''--label'', ''Urgent''] =
     Parsed [(''note'', ''abc123''), (''label'', ''Urgent'')] \<and>
   fst (run_script (keep_world [''--note'', ''abc123'', ''--label'', ''Urgent''] good_env)) = 0 \<and>
   argparse keep_tags_parser doc_invocation = Parsed [(''note'', ''NOTE_ID''), (''label'', ''LABEL'')] \<and>
   (\<exists>t. calls (snd (run_script (keep_world [''--note'', ''abc123'', ''--label'', ''Urgent''] good_env))) =
        t \<and> remdups_adj (List.map_filter doc_view t) = doc_steps)"
proof -
  let ?w = "keep_world [''--note'', ''abc123'', ''--label'', ''Urgent''] good_env"
  have h: "argparse keep_tags_parser (argv ?w) = Parsed [(''note'', ''abc123''), (''label'', ''Urgent'')]"
    by (simp add: keep_world_def argparse_def keep_tags_parser_def classify_def split_eq_def
          resolve_long_def long_kind_def finish_def)
  have s: "fst (run_script ?w) = 0"
    using run_parsed_refines [OF h] spec_outcome_parsed [OF h]
    by (simp add: scenario_defs note_labels_def)
  show ?thesis using h s documented_usage [OF h s] by (simp add: keep_world_def)
qed

text \<open>Witness of C25: the first scenario's process, with an outage after two steps.\<close>

theorem interleave_keeps_inv_witness:
  "svc_inv (keep_world [''--note'', ''abc123'', ''--label'', ''Urgent''] good_env) \<and>
   cfg_inv (interleave [Tick, Tick, Outage, Tick, Restore, Tick]
      (PParse, frame0, keep_world [''--note'', ''abc123'', ''--label'', ''Urgent''] good_env))"
  using interleave_keeps_inv [OF keep_world_inv, where evs = "[Tick, Tick, Outage, Tick, Restore, Tick]"]
    keep_world_inv
  by simp

text \<open>Witness of C26: the first scenario, with the service lost before the sync.\<close>

theorem outage_before_sync_witness:
  "creds_set (keep_world [''--note'', ''abc123'', ''--label'', ''Urgent''] good_env)
     ''me@example.com'' ''app-pass'' \<and>
   online (keep_world [''--note'', ''abc123'', ''--label'', ''Urgent''] good_env) \<and>
   argparse keep_tags_parser [''--note'', ''abc123'', ''--label'', ''Urgent''] =
     Parsed [(''note'', ''abc123''), (''label'', ''Urgent'')] \<and>
   note_labels acct_db ''abc123'' = Some {0} \<and>
   (\<exists>fr w'. interleave (replicate 13 Tick @ [Outage, Tick, Tick])
        (PParse, frame0, keep_world [''--note'', ''abc123'', ''--label'', ''Urgent''] good_env) =
        (PExit 1, fr, w') \<and>
      remote w' = acct_db \<and> stdout w' = [] \<and>
      stderr w' = [''Traceback (most recent call last):'',
                   ''gkeepapi.exception.APIException: sync failed''] \<and>
      label_applied acct_db (local_db (client w')) ''abc123'' ''Urgent'' \<and> pending (client w') \<noteq> [])"
proof -
  let ?w = "keep_world [''--note'', ''abc123'', ''--label'', ''Urgent''] good_env"
  have h: "creds_set ?w (acct_email ?w) (acct_password ?w)" "online ?w"
    "argparse keep_tags_parser (argv ?w) = Parsed [(''note'', ''abc123''), (''label'', ''Urgent'')]"
    "map_of [(''note'', ''abc123''), (''label'', ''Urgent'')] ''note'' = Some ''abc123''"
    "map_of [(''note'', ''abc123''), (''label'', ''Urgent'')] ''label'' = Some ''Urgent''"
    "note_labels (remote ?w) ''abc123'' = Some {0}"
    by (simp_all add: keep_world_def creds_set_def good_env_def argparse_def keep_tags_parser_def
          classify_def split_eq_def resolve_long_def long_kind_def finish_def acct_db_def
          note_labels_def)
  have f: "find_label (remote ?w) ''Urgent'' = None"
    by (simp add: keep_world_def acct_db_def find_label_def)
  show ?thesis
    using h outage_before_sync [OF h] f
    by (simp add: keep_world_def)
qed

text \<open>Witness of C27: the first scenario with an outage after the login.\<close>

theorem interleave_bounds_witness:
  "length (calls (snd (snd (interleave (replicate 7 Tick @ [Outage] @ replicate 9 Tick)
      (PParse, frame0, keep_world [''--note'', ''abc123'', ''--label'', ''Urgent''] good_env)))))
     \<le> length (calls (keep_world [''--note'', ''abc123'', ''--label'', ''Urgent''] good_env)) + 7 \<and>
   grows (remote (keep_world [''--note'', ''abc123'', ''--label'', ''Urgent''] good_env))
     (remote (snd (snd (interleave (replicate 7 Tick @ [Outage] @ replicate 9 Tick)
      (PParse, frame0, keep_world [''--note'', ''abc123'', ''--label'', ''Urgent''] good_env)))))"
  by (rule interleave_bounds)

text \<open>Witness of C28: the first scenario run to its end, where the confirmation has
  been printed.\<close>

theorem confirmation_after_sync_witness:
  "argparse keep_tags_parser (argv (keep_world [''--note'', ''abc123'', ''--label'', ''Urgent''] good_env)) =
     Parsed [(''note'', ''abc123''), (''label'', ''Urgent'')] \<and>
   stdout (snd (snd (interleave (replicate 16 Tick)
       (PParse, frame0, keep_world [''--note'', ''abc123'', ''--label'', ''Urgent''] good_env)))) \<noteq>
      stdout (keep_world [''--note'', ''abc123'', ''--label'', ''Urgent''] good_env) \<and>
   synced (snd (snd (interleave (replicate 16 Tick)
       (PParse, frame0, keep_world [''--note'', ''abc123'', ''--label'', ''Urgent''] good_env))))"
proof -
  let ?w = "keep_world [''--note'', ''abc123'', ''--label'', ''Urgent''] good_env"
  have h: "argparse keep_tags_parser (argv ?w) = Parsed [(''note'', ''abc123''), (''label'', ''Urgent'')]"
    by (simp add: keep_world_def argparse_def keep_tags_parser_def classify_def split_eq_def
          resolve_long_def long_kind_def finish_def)
  have run: "snd (snd (interleave (replicate 16 Tick) (PParse, frame0, ?w))) = snd (run_script ?w)"
    using small_step_equiv [of ?w] by (simp add: interleave_ticks)
  have "stdout (snd (run_script ?w)) \<noteq> stdout ?w"
    using run_parsed_refines [OF h] spec_outcome_parsed [OF h]
    by (simp add: scenario_defs note_labels_def spec_stdout_def)
  with run have out: "stdout (snd (snd (interleave (replicate 16 Tick) (PParse, frame0, ?w)))) \<noteq> stdout ?w"
    by simp
  show ?thesis using h out mp [OF confirmation_after_sync [OF h] out] by blast
qed

end
